theory Spec2Isabelle
  imports Main
begin

unbundle bit_operations_syntax

section \<open>Library functions the service calls\<close>

subsection \<open>SHA-256 (hashlib.sha256)\<close>

text \<open>
  Python strings are modelled by their UTF-8 bytes: a \<^typ>\<open>string\<close> is a list of 8-bit
  characters, and \<open>value.encode()\<close> reads them off with \<^const>\<open>of_char\<close>.
  A 32-bit word is a natural number below \<open>2 ^ 32\<close>, with the wrap-around of every
  addition written out.
\<close>

type_synonym w32 = nat

definition add32 :: "w32 \<Rightarrow> w32 \<Rightarrow> w32" where
  "add32 x y = (x + y) mod 4294967296"

definition rotr :: "nat \<Rightarrow> w32 \<Rightarrow> w32" where
  "rotr n x = x div 2 ^ n + (x mod 2 ^ n) * 2 ^ (32 - n)"

definition shr :: "nat \<Rightarrow> w32 \<Rightarrow> w32" where
  "shr n x = x div 2 ^ n"

definition Ch :: "w32 \<Rightarrow> w32 \<Rightarrow> w32 \<Rightarrow> w32" where
  "Ch x y z = (x AND y) XOR ((4294967295 - x) AND z)"

definition Maj :: "w32 \<Rightarrow> w32 \<Rightarrow> w32 \<Rightarrow> w32" where
  "Maj x y z = (x AND y) XOR (x AND z) XOR (y AND z)"

definition bsig0 :: "w32 \<Rightarrow> w32" where
  "bsig0 x = rotr 2 x XOR rotr 13 x XOR rotr 22 x"

definition bsig1 :: "w32 \<Rightarrow> w32" where
  "bsig1 x = rotr 6 x XOR rotr 11 x XOR rotr 25 x"

definition ssig0 :: "w32 \<Rightarrow> w32" where
  "ssig0 x = rotr 7 x XOR rotr 18 x XOR shr 3 x"

definition ssig1 :: "w32 \<Rightarrow> w32" where
  "ssig1 x = rotr 17 x XOR rotr 19 x XOR shr 10 x"

definition sha256_K :: "w32 list" where
  "sha256_K =
     [1116352408, 1899447441, 3049323471, 3921009573, 961987163, 1508970993,
      2453635748, 2870763221, 3624381080, 310598401, 607225278, 1426881987,
      1925078388, 2162078206, 2614888103, 3248222580, 3835390401, 4022224774,
      264347078, 604807628, 770255983, 1249150122, 1555081692, 1996064986,
      2554220882, 2821834349, 2952996808, 3210313671, 3336571891, 3584528711,
      113926993, 338241895, 666307205, 773529912, 1294757372, 1396182291,
      1695183700, 1986661051, 2177026350, 2456956037, 2730485921, 2820302411,
      3259730800, 3345764771, 3516065817, 3600352804, 4094571909, 275423344,
      430227734, 506948616, 659060556, 883997877, 958139571, 1322822218,
      1537002063, 1747873779, 1955562222, 2024104815, 2227730452, 2361852424,
      2428436474, 2756734187, 3204031479, 3329325298]"

type_synonym sha_state = "w32 \<times> w32 \<times> w32 \<times> w32 \<times> w32 \<times> w32 \<times> w32 \<times> w32"

definition sha256_H0 :: sha_state where
  "sha256_H0 = (1779033703, 3144134277, 1013904242, 2773480762,
                1359893119, 2600822924, 528734635, 1541459225)"

definition word_bytes :: "w32 \<Rightarrow> nat list" where
  "word_bytes x = [x div 16777216 mod 256, x div 65536 mod 256, x div 256 mod 256, x mod 256]"

text \<open>The round constants and the initial state are the leading 32 bits of the
  fractional parts of the cube roots of the first 64 primes and of the square roots of the
  first 8, written in decimal.\<close>

text \<open>Padding: the message, the byte 0x80, zero bytes up to 56 modulo 64, and the bit
  length as eight big-endian bytes.\<close>

definition sha256_pad :: "nat list \<Rightarrow> nat list" where
  "sha256_pad bs =
     bs @ [128] @ replicate ((119 - length bs mod 64) mod 64) 0
        @ word_bytes (8 * length bs div 4294967296) @ word_bytes (8 * length bs mod 4294967296)"

fun be_words :: "nat list \<Rightarrow> w32 list" where
  "be_words (a # b # c # d # r) = (((a * 256 + b) * 256 + c) * 256 + d) # be_words r"
| "be_words _ = []"

definition sha_t1 :: "w32 \<Rightarrow> w32 \<Rightarrow> w32 \<Rightarrow> w32 \<Rightarrow> w32 \<Rightarrow> w32 \<Rightarrow> w32" where
  "sha_t1 e f g h k w = add32 (add32 (add32 (add32 h (bsig1 e)) (Ch e f g)) k) w"

definition sha_t2 :: "w32 \<Rightarrow> w32 \<Rightarrow> w32 \<Rightarrow> w32" where
  "sha_t2 a b c = add32 (bsig0 a) (Maj a b c)"

fun sha_shift :: "sha_state \<Rightarrow> w32 \<Rightarrow> w32 \<Rightarrow> sha_state" where
  "sha_shift (a, b, c, d, e, f, g, h) t1 t2 = (add32 t1 t2, a, b, c, add32 d t1, e, f, g)"

fun sha_round :: "sha_state \<Rightarrow> w32 \<Rightarrow> w32 \<Rightarrow> sha_state" where
  "sha_round (a, b, c, d, e, f, g, h) k w =
     sha_shift (a, b, c, d, e, f, g, h) (sha_t1 e f g h k w) (sha_t2 a b c)"

fun state_add :: "sha_state \<Rightarrow> sha_state \<Rightarrow> sha_state" where
  "state_add (a, b, c, d, e, f, g, h) (a', b', c', d', e', f', g', h') =
     (add32 a a', add32 b b', add32 c c', add32 d d',
      add32 e e', add32 f f', add32 g g', add32 h h')"

text \<open>The message schedule is kept as a window of sixteen words: round \<open>i\<close> consumes
  its head \<open>W\<^sub>i\<close> and appends \<open>W\<^bsub>i+16\<^esub>\<close>.\<close>

definition sched_next :: "w32 list \<Rightarrow> w32" where
  "sched_next ws =
     add32 (add32 (add32 (ssig1 (ws ! 14)) (ws ! 9)) (ssig0 (ws ! 1))) (ws ! 0)"

fun sha_step :: "sha_state \<times> w32 list \<Rightarrow> w32 \<Rightarrow> sha_state \<times> w32 list" where
  "sha_step (s, ws) k = (sha_round s k (hd ws), tl ws @ [sched_next ws])"

definition compress :: "sha_state \<Rightarrow> w32 list \<Rightarrow> sha_state" where
  "compress hs block = state_add hs (fst (foldl sha_step (hs, block) sha256_K))"

fun chunks :: "nat \<Rightarrow> 'a list \<Rightarrow> 'a list list" where
  "chunks 0 xs = []"
| "chunks (Suc n) xs = take 16 xs # chunks n (drop 16 xs)"

fun state_bytes :: "sha_state \<Rightarrow> nat list" where
  "state_bytes (a, b, c, d, e, f, g, h) = concat (map word_bytes [a, b, c, d, e, f, g, h])"

definition sha256_digest :: "string \<Rightarrow> nat list" where
  "sha256_digest s =
     (let ws = be_words (sha256_pad (map of_char s))
      in state_bytes (foldl compress sha256_H0 (chunks (length ws div 16) ws)))"

subsection \<open>Hex digests and URL-safe base64\<close>

definition hex_digit :: "nat \<Rightarrow> char" where
  "hex_digit n = ''0123456789abcdef'' ! n"

definition hexdigest :: "nat list \<Rightarrow> string" where
  "hexdigest bs = concat (map (\<lambda>b. [hex_digit (b div 16), hex_digit (b mod 16)]) bs)"

definition b64url_alphabet :: string where
  "b64url_alphabet = ''ABCDEFGHIJKLMNOPQRSTUVWXYZabcdefghijklmnopqrstuvwxyz0123456789-_''"

definition b64 :: "nat \<Rightarrow> char" where
  "b64 n = b64url_alphabet ! n"

text \<open>\<open>base64.urlsafe_b64encode\<close>: three bytes give four characters, and the last group
  is padded with \<open>=\<close>.\<close>

fun urlsafe_b64encode :: "nat list \<Rightarrow> string" where
  "urlsafe_b64encode (a # b # c # r) =
     b64 (a div 4) # b64 ((a mod 4) * 16 + b div 16) # b64 ((b mod 16) * 4 + c div 64)
       # b64 (c mod 64) # urlsafe_b64encode r"
| "urlsafe_b64encode [a, b] =
     [b64 (a div 4), b64 ((a mod 4) * 16 + b div 16), b64 ((b mod 16) * 4), CHR ''='']"
| "urlsafe_b64encode [a] =
     [b64 (a div 4), b64 ((a mod 4) * 16), CHR ''='', CHR ''='']"
| "urlsafe_b64encode [] = []"

text \<open>\<open>bytes.rstrip(b"=")\<close> with a single character to strip.\<close>

definition rstrip :: "char \<Rightarrow> string \<Rightarrow> string" where
  "rstrip ch s = rev (dropWhile (\<lambda>c. c = ch) (rev s))"

text \<open>\<open>str.startswith\<close>.\<close>

definition startswith :: "string \<Rightarrow> string \<Rightarrow> bool" where
  "startswith s p = (take (length p) s = p)"

section \<open>The data model: app/models/oauth\_server.py\<close>

text \<open>
  A \<open>datetime\<close> is a count of microseconds. The tables are lists of rows in insertion
  order. Of the columns that \<open>BaseSchema\<close> adds, only the primary key of a client and
  \<open>deleted_at\<close> are read by the code below; \<open>created_at\<close> and \<open>updated_at\<close> are left out.
  \<open>redirect_uris\<close> is stored as JSON text (\<open>json.dumps\<close>) and read back with
  \<open>json.loads\<close>; the row holds the list itself.
\<close>

type_synonym datetime = int

record oauth_client =
  cl_id :: string
  cl_organization_id :: string
  cl_client_id :: string
  cl_client_secret_hash :: string
  cl_name :: string
  cl_redirect_uris :: "string list"
  cl_scopes :: string
  cl_deleted_at :: "datetime option"

record authorization_code =
  ac_code :: string
  ac_client_id :: string
  ac_user_id :: string
  ac_organization_id :: string
  ac_redirect_uri :: string
  ac_scope :: string
  ac_code_challenge :: string
  ac_expires_at :: datetime
  ac_deleted_at :: "datetime option"

record access_token =
  at_token_hash :: string
  at_client_id :: string
  at_user_id :: string
  at_organization_id :: string
  at_scope :: string
  at_expires_at :: datetime
  at_refresh_token_hash :: "string option"
  at_refresh_expires_at :: "datetime option"
  at_deleted_at :: "datetime option"

text \<open>The user and organization models live outside these files; the code reads a row
  by its primary key and, of an organization, its settings.\<close>

record org_config =
  cfg_value :: "bool option"

record user =
  u_id :: string

record organization =
  o_id :: string
  o_settings :: "(string \<Rightarrow> org_config option) option"

record db =
  clients :: "oauth_client list"
  auth_codes :: "authorization_code list"
  access_tokens :: "access_token list"
  users :: "string \<Rightarrow> user option"
  organizations :: "string \<Rightarrow> organization option"

datatype error =
    MultipleResultsFound
  | IntegrityError
  | KeyError string
  | HTTPException nat string "(string \<times> string) list"
  | Uncaught string

text \<open>\<open>Result.scalar_one_or_none\<close>: no row, the one row, or an exception.\<close>

fun scalar_one_or_none :: "'a list \<Rightarrow> error + 'a option" where
  "scalar_one_or_none [] = Inr None"
| "scalar_one_or_none [x] = Inr (Some x)"
| "scalar_one_or_none (x # y # zs) = Inl MultipleResultsFound"

text \<open>An ORM row that a query returned is updated in place and written at the next
  commit: the rows of the query's \<open>where\<close> clause are mapped.\<close>

definition update_where :: "('a \<Rightarrow> bool) \<Rightarrow> ('a \<Rightarrow> 'a) \<Rightarrow> 'a list \<Rightarrow> 'a list" where
  "update_where P f rows = map (\<lambda>r. if P r then f r else r) rows"

text \<open>\<open>db.add\<close> and \<open>db.commit\<close> under the unique indexes of the tables: the primary key
  and \<open>client_id\<close> of a client, the \<open>code\<close> of an authorization code, \<open>token_hash\<close> and
  (where not NULL) \<open>refresh_token_hash\<close> of a token. The indexes cover tombstoned rows
  too. A commit that meets a conflict raises \<open>IntegrityError\<close> and changes nothing.\<close>

definition client_conflict :: "oauth_client \<Rightarrow> oauth_client list \<Rightarrow> bool" where
  "client_conflict c rows =
     (cl_id c \<in> set (map cl_id rows) \<or> cl_client_id c \<in> set (map cl_client_id rows))"

definition code_conflict :: "authorization_code \<Rightarrow> authorization_code list \<Rightarrow> bool" where
  "code_conflict c rows = (ac_code c \<in> set (map ac_code rows))"

definition refresh_hashes :: "access_token list \<Rightarrow> string list" where
  "refresh_hashes rows =
     concat (map (\<lambda>r. case at_refresh_token_hash r of None \<Rightarrow> [] | Some h \<Rightarrow> [h]) rows)"

definition token_conflict :: "access_token \<Rightarrow> access_token list \<Rightarrow> bool" where
  "token_conflict t rows =
     (at_token_hash t \<in> set (map at_token_hash rows)
        \<or> (case at_refresh_token_hash t of
              None \<Rightarrow> False | Some h \<Rightarrow> h \<in> set (refresh_hashes rows)))"

section \<open>The service: app/services/oauth\_server\_service.py\<close>

definition ACCESS_TOKEN_PREFIX :: string where
  "ACCESS_TOKEN_PREFIX = ''bow_oauth_''"

definition REFRESH_TOKEN_PREFIX :: string where
  "REFRESH_TOKEN_PREFIX = ''bow_rt_''"

definition ACCESS_TOKEN_LIFETIME :: int where
  "ACCESS_TOKEN_LIFETIME = 3600 * 1000000"

definition REFRESH_TOKEN_LIFETIME :: int where
  "REFRESH_TOKEN_LIFETIME = 30 * 86400 * 1000000"

definition AUTHORIZATION_CODE_LIFETIME :: int where
  "AUTHORIZATION_CODE_LIFETIME = 5 * 60 * 1000000"

definition CLAUDE_REDIRECT_URIS :: "string list" where
  "CLAUDE_REDIRECT_URIS =
     [''https://claude.ai/api/mcp/auth_callback'',
      ''https://claude.com/api/mcp/auth_callback'',
      ''http://localhost:6274/oauth/callback'',
      ''http://localhost:6274/oauth/callback/debug'']"

definition hash :: "string \<Rightarrow> string" where
  "hash v = hexdigest (sha256_digest v)"

text \<open>\<open>_generate_token(prefix)\<close>; \<open>raw\<close> is what \<open>secrets.token_urlsafe(32)\<close> returned.\<close>

definition generate_token :: "string \<Rightarrow> string \<Rightarrow> string \<times> string" where
  "generate_token prefix raw = (prefix @ raw, hash (prefix @ raw))"

definition verify_pkce_s256 :: "string \<Rightarrow> string \<Rightarrow> bool" where
  "verify_pkce_s256 code_verifier code_challenge =
     (rstrip CHR ''='' (urlsafe_b64encode (sha256_digest code_verifier)) = code_challenge)"

text \<open>
  Every method below takes what the environment gives it during the call:
  \<open>clock k\<close> is the value of the \<open>k\<close>-th \<open>datetime.utcnow()\<close> the call makes on its path,
  \<open>rand k\<close> the value of its \<open>k\<close>-th \<open>secrets.token_urlsafe\<close>, counted from 0. A method
  returns its result (or the exception it raises) and the database after it. In
  \<open>refresh_access_token\<close> the expiry test reads the clock only when \<open>refresh_expires_at\<close>
  is not NULL, so the later readings are counted from \<open>k\<close>.
\<close>

record client_created =
  cc_id :: string
  cc_client_id :: string
  cc_client_secret :: string
  cc_name :: string
  cc_redirect_uris :: "string list"

definition create_client ::
  "string \<Rightarrow> (nat \<Rightarrow> string) \<Rightarrow> db \<Rightarrow> string \<Rightarrow> string \<Rightarrow> string list option
     \<Rightarrow> (error + client_created) \<times> db" where
  "create_client new_id rand d organization_id name redirect_uris =
     (let redirect_uris' = (case redirect_uris of None \<Rightarrow> CLAUDE_REDIRECT_URIS | Some us \<Rightarrow> us);
          client_id = ''bow_client_'' @ rand 0;
          client_secret = ''bow_secret_'' @ rand 1;
          secret_hash = hash client_secret;
          client = \<lparr>cl_id = new_id, cl_organization_id = organization_id,
                    cl_client_id = client_id, cl_client_secret_hash = secret_hash,
                    cl_name = name, cl_redirect_uris = redirect_uris', cl_scopes = ''mcp'',
                    cl_deleted_at = None\<rparr>
      in if client_conflict client (clients d) then (Inl IntegrityError, d)
         else
           (Inr \<lparr>cc_id = cl_id client, cc_client_id = cl_client_id client,
                 cc_client_secret = client_secret, cc_name = cl_name client,
                 cc_redirect_uris = redirect_uris'\<rparr>,
            d\<lparr>clients := clients d @ [client]\<rparr>))"

definition owned_live_client :: "string \<Rightarrow> string \<Rightarrow> oauth_client \<Rightarrow> bool" where
  "owned_live_client client_db_id organization_id c =
     (cl_id c = client_db_id \<and> cl_organization_id c = organization_id \<and> cl_deleted_at c = None)"

definition delete_client ::
  "(nat \<Rightarrow> datetime) \<Rightarrow> db \<Rightarrow> string \<Rightarrow> string \<Rightarrow> (error + bool) \<times> db" where
  "delete_client clock d client_db_id organization_id =
     (case scalar_one_or_none (filter (owned_live_client client_db_id organization_id) (clients d)) of
        Inl e \<Rightarrow> (Inl e, d)
      | Inr None \<Rightarrow> (Inr False, d)
      | Inr (Some client) \<Rightarrow>
          (Inr True,
           d\<lparr>clients := update_where (owned_live_client client_db_id organization_id)
                  (\<lambda>c. c\<lparr>cl_deleted_at := Some (clock 0)\<rparr>) (clients d)\<rparr>))"

record secret_rotated =
  sr_id :: string
  sr_client_id :: string
  sr_client_secret :: string
  sr_name :: string

definition rotate_client_secret ::
  "(nat \<Rightarrow> string) \<Rightarrow> db \<Rightarrow> string \<Rightarrow> string \<Rightarrow> (error + secret_rotated option) \<times> db" where
  "rotate_client_secret rand d client_db_id organization_id =
     (case scalar_one_or_none (filter (owned_live_client client_db_id organization_id) (clients d)) of
        Inl e \<Rightarrow> (Inl e, d)
      | Inr None \<Rightarrow> (Inr None, d)
      | Inr (Some client) \<Rightarrow>
          (let new_secret = ''bow_secret_'' @ rand 0
           in (Inr (Some \<lparr>sr_id = cl_id client, sr_client_id = cl_client_id client,
                           sr_client_secret = new_secret, sr_name = cl_name client\<rparr>),
               d\<lparr>clients := update_where (owned_live_client client_db_id organization_id)
                      (\<lambda>c. c\<lparr>cl_client_secret_hash := hash new_secret\<rparr>) (clients d)\<rparr>)))"

definition live_client :: "string \<Rightarrow> oauth_client \<Rightarrow> bool" where
  "live_client client_id c = (cl_client_id c = client_id \<and> cl_deleted_at c = None)"

definition validate_client :: "db \<Rightarrow> string \<Rightarrow> string option \<Rightarrow> error + oauth_client option" where
  "validate_client d client_id client_secret =
     (case scalar_one_or_none (filter (live_client client_id) (clients d)) of
        Inl e \<Rightarrow> Inl e
      | Inr None \<Rightarrow> Inr None
      | Inr (Some client) \<Rightarrow>
          (case client_secret of
             None \<Rightarrow> Inr (Some client)
           | Some secret \<Rightarrow>
               if hash secret \<noteq> cl_client_secret_hash client then Inr None
               else Inr (Some client)))"

definition validate_redirect_uri :: "oauth_client \<Rightarrow> string \<Rightarrow> bool" where
  "validate_redirect_uri client redirect_uri = (redirect_uri \<in> set (cl_redirect_uris client))"

definition create_authorization_code ::
  "(nat \<Rightarrow> datetime) \<Rightarrow> (nat \<Rightarrow> string) \<Rightarrow> db \<Rightarrow> string \<Rightarrow> string \<Rightarrow> string \<Rightarrow> string
     \<Rightarrow> string \<Rightarrow> string \<Rightarrow> (error + string) \<times> db" where
  "create_authorization_code clock rand d client_id user_id organization_id redirect_uri
       scope code_challenge =
     (let code = rand 0;
          auth_code = \<lparr>ac_code = code, ac_client_id = client_id, ac_user_id = user_id,
                       ac_organization_id = organization_id, ac_redirect_uri = redirect_uri,
                       ac_scope = scope, ac_code_challenge = code_challenge,
                       ac_expires_at = clock 0 + AUTHORIZATION_CODE_LIFETIME,
                       ac_deleted_at = None\<rparr>
      in if code_conflict auth_code (auth_codes d) then (Inl IntegrityError, d)
         else (Inr code, d\<lparr>auth_codes := auth_codes d @ [auth_code]\<rparr>))"

record token_response =
  tr_access_token :: string
  tr_token_type :: string
  tr_expires_in :: int
  tr_refresh_token :: string
  tr_scope :: string

definition live_code :: "string \<Rightarrow> string \<Rightarrow> authorization_code \<Rightarrow> bool" where
  "live_code code client_id c =
     (ac_code c = code \<and> ac_client_id c = client_id \<and> ac_deleted_at c = None)"

text \<open>The tokens of an exchange or a refresh: the record to persist and the response.
  \<open>clock\<close> is read at \<open>k\<close> and \<open>k + 1\<close> for the two expiry times.\<close>

definition issue_tokens ::
  "(nat \<Rightarrow> datetime) \<Rightarrow> nat \<Rightarrow> (nat \<Rightarrow> string) \<Rightarrow> string \<Rightarrow> string \<Rightarrow> string \<Rightarrow> string
     \<Rightarrow> access_token \<times> token_response" where
  "issue_tokens clock k rand client_id user_id organization_id scope =
     (\<lparr>at_token_hash = snd (generate_token ACCESS_TOKEN_PREFIX (rand 0)),
       at_client_id = client_id, at_user_id = user_id,
       at_organization_id = organization_id, at_scope = scope,
       at_expires_at = clock k + ACCESS_TOKEN_LIFETIME,
       at_refresh_token_hash = Some (snd (generate_token REFRESH_TOKEN_PREFIX (rand 1))),
       at_refresh_expires_at = Some (clock (k + 1) + REFRESH_TOKEN_LIFETIME),
       at_deleted_at = None\<rparr>,
      \<lparr>tr_access_token = fst (generate_token ACCESS_TOKEN_PREFIX (rand 0)),
       tr_token_type = ''Bearer'',
       tr_expires_in = ACCESS_TOKEN_LIFETIME div 1000000,
       tr_refresh_token = fst (generate_token REFRESH_TOKEN_PREFIX (rand 1)),
       tr_scope = scope\<rparr>)"

definition exchange_code ::
  "(nat \<Rightarrow> datetime) \<Rightarrow> (nat \<Rightarrow> string) \<Rightarrow> db \<Rightarrow> string \<Rightarrow> string \<Rightarrow> string option
     \<Rightarrow> string \<Rightarrow> string \<Rightarrow> (error + token_response option) \<times> db" where
  "exchange_code clock rand d code client_id client_secret code_verifier redirect_uri =
     (case validate_client d client_id client_secret of
        Inl e \<Rightarrow> (Inl e, d)
      | Inr None \<Rightarrow> (Inr None, d)
      | Inr (Some client) \<Rightarrow>
          (case scalar_one_or_none (filter (live_code code client_id) (auth_codes d)) of
             Inl e \<Rightarrow> (Inl e, d)
           | Inr None \<Rightarrow> (Inr None, d)
           | Inr (Some auth_code) \<Rightarrow>
               if ac_expires_at auth_code < clock 0 then
                 (Inr None,
                  d\<lparr>auth_codes := update_where (live_code code client_id)
                         (\<lambda>c. c\<lparr>ac_deleted_at := Some (clock 1)\<rparr>) (auth_codes d)\<rparr>)
               else if \<not> verify_pkce_s256 code_verifier (ac_code_challenge auth_code) then
                 (Inr None, d)
               else if ac_redirect_uri auth_code \<noteq> redirect_uri then
                 (Inr None, d)
               else
                 (let issued = issue_tokens clock 2 rand client_id (ac_user_id auth_code)
                                 (ac_organization_id auth_code) (ac_scope auth_code)
                  in if token_conflict (fst issued) (access_tokens d) then
                       (Inl IntegrityError, d)
                     else
                       (Inr (Some (snd issued)),
                        d\<lparr>auth_codes := update_where (live_code code client_id)
                               (\<lambda>c. c\<lparr>ac_deleted_at := Some (clock 1)\<rparr>) (auth_codes d),
                           access_tokens := access_tokens d @ [fst issued]\<rparr>))))"

definition live_refresh :: "string \<Rightarrow> string \<Rightarrow> access_token \<Rightarrow> bool" where
  "live_refresh refresh_hash client_id t =
     (at_refresh_token_hash t = Some refresh_hash \<and> at_client_id t = client_id
        \<and> at_deleted_at t = None)"

definition refresh_access_token ::
  "(nat \<Rightarrow> datetime) \<Rightarrow> (nat \<Rightarrow> string) \<Rightarrow> db \<Rightarrow> string \<Rightarrow> string \<Rightarrow> string option
     \<Rightarrow> (error + token_response option) \<times> db" where
  "refresh_access_token clock rand d refresh_token client_id client_secret =
     (case validate_client d client_id client_secret of
        Inl e \<Rightarrow> (Inl e, d)
      | Inr None \<Rightarrow> (Inr None, d)
      | Inr (Some client) \<Rightarrow>
          (case scalar_one_or_none
                  (filter (live_refresh (hash refresh_token) client_id) (access_tokens d)) of
             Inl e \<Rightarrow> (Inl e, d)
           | Inr None \<Rightarrow> (Inr None, d)
           | Inr (Some token_record) \<Rightarrow>
               if (case at_refresh_expires_at token_record of
                     None \<Rightarrow> False | Some t \<Rightarrow> t < clock 0) then
                 (Inr None, d)
               else
                 (let k = (case at_refresh_expires_at token_record of None \<Rightarrow> 0 | Some t \<Rightarrow> 1);
                      issued = issue_tokens clock (k + 1) rand client_id (at_user_id token_record)
                                 (at_organization_id token_record) (at_scope token_record)
                  in if token_conflict (fst issued) (access_tokens d) then
                       (Inl IntegrityError, d)
                     else
                       (Inr (Some (snd issued)),
                        d\<lparr>access_tokens :=
                             update_where (live_refresh (hash refresh_token) client_id)
                               (\<lambda>t. t\<lparr>at_deleted_at := Some (clock k)\<rparr>) (access_tokens d)
                             @ [fst issued]\<rparr>))))"

definition live_token :: "string \<Rightarrow> access_token \<Rightarrow> bool" where
  "live_token token_hash t = (at_token_hash t = token_hash \<and> at_deleted_at t = None)"

definition validate_access_token ::
  "(nat \<Rightarrow> datetime) \<Rightarrow> db \<Rightarrow> string \<Rightarrow> error + (user \<times> organization) option" where
  "validate_access_token clock d token =
     (if \<not> startswith token ACCESS_TOKEN_PREFIX then Inr None
      else
        (case scalar_one_or_none (filter (live_token (hash token)) (access_tokens d)) of
           Inl e \<Rightarrow> Inl e
         | Inr None \<Rightarrow> Inr None
         | Inr (Some token_record) \<Rightarrow>
             if at_expires_at token_record < clock 0 then Inr None
             else
               (case users d (at_user_id token_record) of
                  None \<Rightarrow> Inr None
                | Some user \<Rightarrow>
                    (case organizations d (at_organization_id token_record) of
                       None \<Rightarrow> Inr None
                     | Some org \<Rightarrow> Inr (Some (user, org))))))"

text \<open>The unique indexes of the three tables, as a predicate on a state.\<close>

definition db_unique :: "db \<Rightarrow> bool" where
  "db_unique d \<longleftrightarrow>
     distinct (map cl_id (clients d)) \<and> distinct (map cl_client_id (clients d))
     \<and> distinct (map ac_code (auth_codes d))
     \<and> distinct (map at_token_hash (access_tokens d))
     \<and> distinct (refresh_hashes (access_tokens d))"

text \<open>The tokens that a call is about to draw are fresh: their hashes are not in the
  token table yet. (\<open>secrets.token_urlsafe(32)\<close> draws 256 random bits.)\<close>

definition fresh_tokens :: "(nat \<Rightarrow> string) \<Rightarrow> db \<Rightarrow> bool" where
  "fresh_tokens rand d \<longleftrightarrow>
     hash (ACCESS_TOKEN_PREFIX @ rand 0) \<notin> set (map at_token_hash (access_tokens d))
     \<and> hash (REFRESH_TOKEN_PREFIX @ rand 1) \<notin> set (refresh_hashes (access_tokens d))"

subsection \<open>The checks of a code exchange, as the specification lists them\<close>

text \<open>
  The specification gives the conditions of a successful exchange as an ordered list:
  the client validates (it is live and, when a secret is provided, its hash matches); a
  live record for the code bound to the client exists; \<open>now < expires_at\<close>; the PKCE check
  passes; the stored redirect URI equals the request's. \<open>first_failure\<close> names the first
  of them that does not hold. It is written from that list, not from \<open>exchange_code\<close>, and
  takes the test of the third item as a parameter: \<open>spec_unexpired\<close> is the test as the
  specification words it, \<open>amended_unexpired\<close> the test with the bound included.
\<close>

datatype exchange_check =
    ClientInvalid
  | NoLiveCode
  | CodeExpired
  | PkceMismatch
  | RedirectMismatch
  | AllPassed

definition spec_client_valid :: "db \<Rightarrow> string \<Rightarrow> string option \<Rightarrow> bool" where
  "spec_client_valid d client_id client_secret =
     (\<exists>c \<in> set (clients d).
        cl_client_id c = client_id \<and> cl_deleted_at c = None
        \<and> (case client_secret of None \<Rightarrow> True | Some s \<Rightarrow> hash s = cl_client_secret_hash c))"

definition spec_unexpired :: "datetime \<Rightarrow> datetime \<Rightarrow> bool" where
  "spec_unexpired now expires_at = (now < expires_at)"

definition amended_unexpired :: "datetime \<Rightarrow> datetime \<Rightarrow> bool" where
  "amended_unexpired now expires_at = (now \<le> expires_at)"

definition first_failure ::
  "(datetime \<Rightarrow> datetime \<Rightarrow> bool) \<Rightarrow> datetime \<Rightarrow> db \<Rightarrow> string \<Rightarrow> string \<Rightarrow> string option
     \<Rightarrow> string \<Rightarrow> string \<Rightarrow> exchange_check" where
  "first_failure unexpired now d code client_id client_secret code_verifier redirect_uri =
     (if \<not> spec_client_valid d client_id client_secret then ClientInvalid
      else if \<not> (\<exists>c \<in> set (auth_codes d).
                   ac_code c = code \<and> ac_client_id c = client_id \<and> ac_deleted_at c = None)
        then NoLiveCode
      else if \<exists>c \<in> set (auth_codes d).
                ac_code c = code \<and> ac_client_id c = client_id \<and> ac_deleted_at c = None
                \<and> \<not> unexpired now (ac_expires_at c)
        then CodeExpired
      else if \<exists>c \<in> set (auth_codes d).
                ac_code c = code \<and> ac_client_id c = client_id \<and> ac_deleted_at c = None
                \<and> \<not> verify_pkce_s256 code_verifier (ac_code_challenge c)
        then PkceMismatch
      else if \<exists>c \<in> set (auth_codes d).
                ac_code c = code \<and> ac_client_id c = client_id \<and> ac_deleted_at c = None
                \<and> ac_redirect_uri c \<noteq> redirect_uri
        then RedirectMismatch
      else AllPassed)"

definition spec_first_failure ::
  "datetime \<Rightarrow> db \<Rightarrow> string \<Rightarrow> string \<Rightarrow> string option \<Rightarrow> string \<Rightarrow> string \<Rightarrow> exchange_check" where
  "spec_first_failure = first_failure spec_unexpired"

definition amended_first_failure ::
  "datetime \<Rightarrow> db \<Rightarrow> string \<Rightarrow> string \<Rightarrow> string option \<Rightarrow> string \<Rightarrow> string \<Rightarrow> exchange_check" where
  "amended_first_failure = first_failure amended_unexpired"

text \<open>A serial run of the service: the calls that write to the database, each one
  finished before the next begins, and a change of the user and organization tables by
  the rest of the application. Calls that overlap are the subject of the next
  subsection.\<close>

datatype service_call =
    CreateClient string "nat \<Rightarrow> string" string string "string list option"
  | DeleteClient "nat \<Rightarrow> datetime" string string
  | RotateClientSecret "nat \<Rightarrow> string" string string
  | CreateAuthorizationCode "nat \<Rightarrow> datetime" "nat \<Rightarrow> string" string string string string
      string string
  | ExchangeCode "nat \<Rightarrow> datetime" "nat \<Rightarrow> string" string string "string option" string string
  | RefreshAccessToken "nat \<Rightarrow> datetime" "nat \<Rightarrow> string" string string "string option"
  | External "string \<Rightarrow> user option" "string \<Rightarrow> organization option"

fun apply_call :: "service_call \<Rightarrow> db \<Rightarrow> db" where
  "apply_call (CreateClient new_id rand org name uris) d =
     snd (create_client new_id rand d org name uris)"
| "apply_call (DeleteClient clock cid org) d = snd (delete_client clock d cid org)"
| "apply_call (RotateClientSecret rand cid org) d = snd (rotate_client_secret rand d cid org)"
| "apply_call (CreateAuthorizationCode clock rand client_id uid org uri scope challenge) d =
     snd (create_authorization_code clock rand d client_id uid org uri scope challenge)"
| "apply_call (ExchangeCode clock rand code client_id secret verifier uri) d =
     snd (exchange_code clock rand d code client_id secret verifier uri)"
| "apply_call (RefreshAccessToken clock rand token client_id secret) d =
     snd (refresh_access_token clock rand d token client_id secret)"
| "apply_call (External us os) d = d\<lparr>users := us, organizations := os\<rparr>"

fun run :: "service_call list \<Rightarrow> db \<Rightarrow> db" where
  "run [] d = d"
| "run (c # cs) d = run cs (apply_call c d)"

subsection \<open>Calls that overlap\<close>

text \<open>
  \<open>exchange_code\<close> is a coroutine: it is suspended at its \<open>await\<close>s, and between its
  \<open>SELECT\<close> and its \<open>db.commit()\<close> another request, on a session of its own, may read and
  write. The method takes no lock and its \<open>UPDATE\<close> is the ORM's, by primary key, without
  a test of \<open>deleted_at\<close>. It is therefore split at the commit. \<open>exchange_code_begin\<close> is
  the method up to its commit, on the database as its queries read it: the value it
  returns once the commit has gone through, and the changes the session holds.
  \<open>commit\<close> applies those changes to the database as it is then, under the unique
  indexes (the store is taken to be read-committed: a commit is refused only by an
  index). The row to tombstone is found by its \<open>code\<close>, which is unique as the primary
  key is.
\<close>

record pending_commit =
  pc_tombstone :: "(string \<times> datetime) option"
  pc_insert :: "access_token option"

definition nothing_pending :: pending_commit where
  "nothing_pending = \<lparr>pc_tombstone = None, pc_insert = None\<rparr>"

definition exchange_code_begin ::
  "(nat \<Rightarrow> datetime) \<Rightarrow> (nat \<Rightarrow> string) \<Rightarrow> db \<Rightarrow> string \<Rightarrow> string \<Rightarrow> string option
     \<Rightarrow> string \<Rightarrow> string \<Rightarrow> (error + token_response option) \<times> pending_commit" where
  "exchange_code_begin clock rand d code client_id client_secret code_verifier redirect_uri =
     (case validate_client d client_id client_secret of
        Inl e \<Rightarrow> (Inl e, nothing_pending)
      | Inr None \<Rightarrow> (Inr None, nothing_pending)
      | Inr (Some client) \<Rightarrow>
          (case scalar_one_or_none (filter (live_code code client_id) (auth_codes d)) of
             Inl e \<Rightarrow> (Inl e, nothing_pending)
           | Inr None \<Rightarrow> (Inr None, nothing_pending)
           | Inr (Some auth_code) \<Rightarrow>
               if ac_expires_at auth_code < clock 0 then
                 (Inr None,
                  \<lparr>pc_tombstone = Some (ac_code auth_code, clock 1), pc_insert = None\<rparr>)
               else if \<not> verify_pkce_s256 code_verifier (ac_code_challenge auth_code) then
                 (Inr None, nothing_pending)
               else if ac_redirect_uri auth_code \<noteq> redirect_uri then
                 (Inr None, nothing_pending)
               else
                 (let issued = issue_tokens clock 2 rand client_id (ac_user_id auth_code)
                                 (ac_organization_id auth_code) (ac_scope auth_code)
                  in (Inr (Some (snd issued)),
                      \<lparr>pc_tombstone = Some (ac_code auth_code, clock 1),
                       pc_insert = Some (fst issued)\<rparr>))))"

definition tombstone_pending :: "pending_commit \<Rightarrow> authorization_code list \<Rightarrow> authorization_code list" where
  "tombstone_pending p rows =
     (case pc_tombstone p of
        None \<Rightarrow> rows
      | Some (code, t) \<Rightarrow>
          update_where (\<lambda>c. ac_code c = code) (\<lambda>c. c\<lparr>ac_deleted_at := Some t\<rparr>) rows)"

definition commit :: "pending_commit \<Rightarrow> db \<Rightarrow> error + db" where
  "commit p d =
     (case pc_insert p of
        None \<Rightarrow> Inr (d\<lparr>auth_codes := tombstone_pending p (auth_codes d)\<rparr>)
      | Some t \<Rightarrow>
          if token_conflict t (access_tokens d) then Inl IntegrityError
          else Inr (d\<lparr>auth_codes := tombstone_pending p (auth_codes d),
                      access_tokens := access_tokens d @ [t]\<rparr>))"

text \<open>A call whose queries read \<open>d_read\<close> and whose commit meets \<open>d_now\<close>. A call that
  holds no change does not commit.\<close>

definition exchange_code_overlapped ::
  "(nat \<Rightarrow> datetime) \<Rightarrow> (nat \<Rightarrow> string) \<Rightarrow> db \<Rightarrow> db \<Rightarrow> string \<Rightarrow> string \<Rightarrow> string option
     \<Rightarrow> string \<Rightarrow> string \<Rightarrow> (error + token_response option) \<times> db" where
  "exchange_code_overlapped clock rand d_read d_now code client_id client_secret code_verifier
       redirect_uri =
     (case exchange_code_begin clock rand d_read code client_id client_secret code_verifier
             redirect_uri of
        (result, pending) \<Rightarrow>
          if pending = nothing_pending then (result, d_now)
          else
            (case commit pending d_now of
               Inl e \<Rightarrow> (Inl e, d_now)
             | Inr d' \<Rightarrow> (result, d')))"

text \<open>A code that has a record and no live record.\<close>

definition code_spent :: "string \<Rightarrow> db \<Rightarrow> bool" where
  "code_spent code d \<longleftrightarrow>
     code \<in> set (map ac_code (auth_codes d))
     \<and> filter (\<lambda>r. ac_code r = code \<and> ac_deleted_at r = None) (auth_codes d) = []"

section \<open>The token endpoint: app/routes/oauth\_server.py\<close>

datatype token_body =
    TokenJSON token_response
  | ErrorJSON string "string option"

definition invalid_grant :: "string \<Rightarrow> nat \<times> token_body" where
  "invalid_grant description = (400, ErrorJSON ''invalid_grant'' (Some description))"

definition invalid_request :: "string \<Rightarrow> nat \<times> token_body" where
  "invalid_request description = (400, ErrorJSON ''invalid_request'' (Some description))"

text \<open>\<open>if not result\<close> for a service result, and the JSON response of a success.\<close>

fun token_result ::
  "string \<Rightarrow> (error + token_response option) \<times> db \<Rightarrow> (error + nat \<times> token_body) \<times> db" where
  "token_result description (Inl e, d) = (Inl e, d)"
| "token_result description (Inr None, d) = (Inr (invalid_grant description), d)"
| "token_result description (Inr (Some result), d) = (Inr (200, TokenJSON result), d)"

text \<open>A form field is absent (\<open>None\<close>) or a string; \<open>not field\<close> holds of an absent and of
  an empty one.\<close>

fun present :: "string option \<Rightarrow> bool" where
  "present None = False"
| "present (Some s) = (s \<noteq> [])"

fun field :: "string option \<Rightarrow> string" where
  "field None = []"
| "field (Some s) = s"

definition token_endpoint ::
  "(nat \<Rightarrow> datetime) \<Rightarrow> (nat \<Rightarrow> string) \<Rightarrow> db \<Rightarrow> string \<Rightarrow> string option \<Rightarrow> string option
     \<Rightarrow> string \<Rightarrow> string option \<Rightarrow> string option \<Rightarrow> string option
     \<Rightarrow> (error + nat \<times> token_body) \<times> db" where
  "token_endpoint clock rand d grant_type code redirect_uri client_id client_secret
       code_verifier refresh_token =
     (if grant_type = ''authorization_code'' then
        if \<not> present code \<or> \<not> present code_verifier \<or> \<not> present redirect_uri then
          (Inr (invalid_request ''Missing code, code_verifier, or redirect_uri''), d)
        else
          token_result ''Invalid or expired authorization code''
            (exchange_code clock rand d (field code) client_id client_secret
               (field code_verifier) (field redirect_uri))
      else if grant_type = ''refresh_token'' then
        if \<not> present refresh_token then
          (Inr (invalid_request ''Missing refresh_token''), d)
        else
          token_result ''Invalid or expired refresh token''
            (refresh_access_token clock rand d (field refresh_token) client_id client_secret)
      else (Inr (400, ErrorJSON ''unsupported_grant_type'' None), d))"

section \<open>The MCP routes: app/routes/mcp.py\<close>

definition MCP_PROTOCOL_VERSION :: string where
  "MCP_PROTOCOL_VERSION = ''2025-06-18''"

text \<open>\<open>configured\<close> is \<open>settings.bow_config.base_url\<close>; \<open>scheme\<close> and \<open>netloc\<close> are those
  of the request's URL.\<close>

definition resource_metadata_url :: "string option \<Rightarrow> string \<Rightarrow> string \<Rightarrow> string" where
  "resource_metadata_url configured scheme netloc =
     (if present configured \<and> field configured \<noteq> ''http://0.0.0.0:3000''
      then rstrip CHR ''/'' (field configured)
      else scheme @ ''://'' @ netloc)
     @ ''/.well-known/oauth-protected-resource''"

definition not_authenticated :: "string \<Rightarrow> error" where
  "not_authenticated resource_url =
     HTTPException 401 ''Not authenticated''
       [(''WWW-Authenticate'',
         ''Bearer resource_metadata='' @ [CHR 0x22] @ resource_url @ [CHR 0x22])]"

text \<open>
  \<open>ApiKeyService\<close> is outside these files: \<open>api_user\<close> and \<open>api_org\<close> stand for its
  \<open>get_user_by_api_key\<close> and \<open>get_organization_by_api_key\<close>. The organization is looked
  up only once the user is found.
\<close>

definition api_key_lookup ::
  "(string \<Rightarrow> user option) \<Rightarrow> (string \<Rightarrow> organization option) \<Rightarrow> string
     \<Rightarrow> (user \<times> organization) option" where
  "api_key_lookup api_user api_org key =
     (case api_user key of
        None \<Rightarrow> None
      | Some user \<Rightarrow> (case api_org key of None \<Rightarrow> None | Some org \<Rightarrow> Some (user, org)))"

definition is_api_key :: "string \<Rightarrow> bool" where
  "is_api_key key = (startswith key ''bow_'' \<and> \<not> startswith key ''bow_oauth_'')"

text \<open>Step 3b of \<open>mcp_auth\<close> and the final 401.\<close>

definition bearer_api_key ::
  "string \<Rightarrow> (string \<Rightarrow> user option) \<Rightarrow> (string \<Rightarrow> organization option) \<Rightarrow> string
     \<Rightarrow> error + user \<times> organization" where
  "bearer_api_key resource_url api_user api_org token =
     (if is_api_key token then
        (case api_key_lookup api_user api_org token of
           Some r \<Rightarrow> Inr r
         | None \<Rightarrow> Inl (not_authenticated resource_url))
      else Inl (not_authenticated resource_url))"

text \<open>Step 3: the \<open>Authorization\<close> header, \<open>""\<close> when the request has none.\<close>

definition bearer_auth ::
  "string \<Rightarrow> (string \<Rightarrow> user option) \<Rightarrow> (string \<Rightarrow> organization option)
     \<Rightarrow> (nat \<Rightarrow> datetime) \<Rightarrow> db \<Rightarrow> string option \<Rightarrow> error + user \<times> organization" where
  "bearer_auth resource_url api_user api_org clock d authorization =
     (let auth_header = field authorization
      in if startswith auth_header ''Bearer '' then
           (let token = drop 7 auth_header
            in if startswith token ''bow_oauth_'' then
                 (case validate_access_token clock d token of
                    Inl e \<Rightarrow> Inl e
                  | Inr (Some result) \<Rightarrow> Inr result
                  | Inr None \<Rightarrow> bearer_api_key resource_url api_user api_org token)
               else bearer_api_key resource_url api_user api_org token)
         else Inl (not_authenticated resource_url))"

text \<open>Step 2: the \<open>X-API-Key\<close> header, then step 3.\<close>

definition header_api_key_auth ::
  "string \<Rightarrow> (string \<Rightarrow> user option) \<Rightarrow> (string \<Rightarrow> organization option)
     \<Rightarrow> (nat \<Rightarrow> datetime) \<Rightarrow> db \<Rightarrow> string option \<Rightarrow> string option
     \<Rightarrow> error + user \<times> organization" where
  "header_api_key_auth resource_url api_user api_org clock d api_key authorization =
     (if present api_key \<and> is_api_key (field api_key) then
        (case api_key_lookup api_user api_org (field api_key) of
           Some r \<Rightarrow> Inr r
         | None \<Rightarrow> bearer_auth resource_url api_user api_org clock d authorization)
      else bearer_auth resource_url api_user api_org clock d authorization)"

text \<open>
  \<open>mcp_auth\<close>. \<open>jwt_user\<close> is what the dependency \<open>_jwt_current_user\<close> resolved;
  \<open>org_selection\<close> is what \<open>get_current_organization(request, db)\<close> does when it is
  called: it returns an organization or raises. Only an \<open>HTTPException\<close> is caught.
\<close>

definition mcp_auth ::
  "string \<Rightarrow> error + organization \<Rightarrow> (string \<Rightarrow> user option) \<Rightarrow> (string \<Rightarrow> organization option)
     \<Rightarrow> (nat \<Rightarrow> datetime) \<Rightarrow> db \<Rightarrow> user option \<Rightarrow> string option \<Rightarrow> string option
     \<Rightarrow> error + user \<times> organization" where
  "mcp_auth resource_url org_selection api_user api_org clock d jwt_user api_key authorization =
     (case jwt_user of
        None \<Rightarrow> header_api_key_auth resource_url api_user api_org clock d api_key authorization
      | Some user \<Rightarrow>
          (case org_selection of
             Inr org \<Rightarrow> Inr (user, org)
           | Inl (HTTPException code detail hdrs) \<Rightarrow>
               header_api_key_auth resource_url api_user api_org clock d api_key authorization
           | Inl e \<Rightarrow> Inl e))"

subsection \<open>The JSON-RPC gateway\<close>

text \<open>JSON values (numbers are integers here; the gateway builds no other).\<close>

datatype json =
    JNull
  | JBool bool
  | JInt int
  | JStr string
  | JList "json list"
  | JObj "(string \<times> json) list"

text \<open>Python's truth value of a decoded JSON value.\<close>

fun truthy :: "json \<Rightarrow> bool" where
  "truthy JNull = False"
| "truthy (JBool b) = b"
| "truthy (JInt i) = (i \<noteq> 0)"
| "truthy (JStr s) = (s \<noteq> [])"
| "truthy (JList xs) = (xs \<noteq> [])"
| "truthy (JObj kvs) = (kvs \<noteq> [])"

record http_response =
  hr_status :: nat
  hr_headers :: "(string \<times> string) list"
  hr_body :: json

definition mcp_response :: "json \<Rightarrow> http_response" where
  "mcp_response content =
     \<lparr>hr_status = 200, hr_headers = [(''MCP-Protocol-Version'', MCP_PROTOCOL_VERSION)],
      hr_body = content\<rparr>"

definition jsonrpc_response :: "json \<Rightarrow> json \<Rightarrow> json" where
  "jsonrpc_response rid result =
     JObj [(''jsonrpc'', JStr ''2.0''), (''id'', rid), (''result'', result)]"

definition jsonrpc_error :: "json \<Rightarrow> int \<Rightarrow> string \<Rightarrow> json" where
  "jsonrpc_error rid code message =
     JObj [(''jsonrpc'', JStr ''2.0''), (''id'', rid),
           (''error'', JObj [(''code'', JInt code), (''message'', JStr message)])]"

definition mcp_disabled :: error where
  "mcp_disabled = HTTPException 403 ''MCP integration is not enabled for this organization'' []"

text \<open>\<open>_check_mcp_enabled\<close>: the exception it raises, if any. \<open>cfg_value\<close> is \<open>None\<close> when
  the configuration object has no attribute \<open>value\<close>.\<close>

definition check_mcp_enabled :: "organization \<Rightarrow> error option" where
  "check_mcp_enabled org =
     (case o_settings org of
        None \<Rightarrow> Some mcp_disabled
      | Some get_config \<Rightarrow>
          (case get_config ''mcp_enabled'' of
             None \<Rightarrow> Some mcp_disabled
           | Some mcp_config \<Rightarrow>
               if cfg_value mcp_config = Some True then None else Some mcp_disabled))"

record JsonRpcRequest =
  rq_jsonrpc :: string
  rq_id :: json
  rq_method :: string
  rq_params :: "(string \<Rightarrow> json option) option"

text \<open>What a call that may raise did: its value, \<open>str(e)\<close> of an exception that is an
  instance of \<open>Exception\<close>, or \<open>str(e)\<close> of one that is not (\<open>asyncio.CancelledError\<close>,
  \<open>KeyboardInterrupt\<close>, \<open>SystemExit\<close>), which \<open>except Exception\<close> does not catch.\<close>

datatype 'a outcome = Returned 'a | Raised string | RaisedBase string

text \<open>The request body as the first two \<open>try\<close> blocks leave it: \<open>raw_request.json()\<close>
  raised, \<open>JsonRpcRequest(**body)\<close> raised, or the validated request.\<close>

datatype body_read =
    ParseFailure string
  | InvalidRequest string
  | Parsed JsonRpcRequest

fun mcp_tools :: "(string \<Rightarrow> json option) list \<Rightarrow> error + json list" where
  "mcp_tools [] = Inr []"
| "mcp_tools (tool # tools) =
     (case tool ''name'' of
        None \<Rightarrow> Inl (KeyError ''name'')
      | Some name \<Rightarrow>
          (case tool ''description'' of
             None \<Rightarrow> Inl (KeyError ''description'')
           | Some description \<Rightarrow>
               (case tool ''input_schema'' of
                  None \<Rightarrow> Inl (KeyError ''input_schema'')
                | Some schema \<Rightarrow>
                    (case mcp_tools tools of
                       Inl e \<Rightarrow> Inl e
                     | Inr rest \<Rightarrow>
                         Inr (JObj [(''name'', name), (''description'', description),
                                    (''inputSchema'', schema)] # rest)))))"

definition tool_result :: "string \<Rightarrow> bool \<Rightarrow> json" where
  "tool_result content_text is_error =
     JObj [(''content'', JList [JObj [(''type'', JStr ''text''), (''text'', JStr content_text)]]),
           (''isError'', JBool is_error)]"

text \<open>
  The \<open>try\<close> block of \<open>tools/call\<close>: \<open>tool.execute\<close> and \<open>json.dumps\<close> of its result are
  both inside it, and \<open>except Exception\<close> answers a failure of either. An exception that
  is no \<open>Exception\<close> leaves the handler.
\<close>

definition call_tool ::
  "('r \<Rightarrow> string outcome) \<Rightarrow> json \<Rightarrow> 'r outcome \<Rightarrow> error + http_response" where
  "call_tool json_dumps rid executed =
     (case executed of
        Raised message \<Rightarrow> Inr (mcp_response (jsonrpc_response rid (tool_result message True)))
      | RaisedBase message \<Rightarrow> Inl (Uncaught message)
      | Returned result \<Rightarrow>
          (case json_dumps result of
             Returned dumped \<Rightarrow>
               Inr (mcp_response (jsonrpc_response rid (tool_result dumped False)))
           | Raised message \<Rightarrow>
               Inr (mcp_response (jsonrpc_response rid (tool_result message True)))
           | RaisedBase message \<Rightarrow> Inl (Uncaught message)))"

text \<open>\<open>tool = tool_class()\<close> stands before the \<open>try\<close>: whatever the constructor raises
  leaves the handler.\<close>

definition instantiate_tool :: "'t outcome \<Rightarrow> error + 't" where
  "instantiate_tool tool_class =
     (case tool_class of
        Returned tool \<Rightarrow> Inr tool
      | Raised message \<Rightarrow> Inl (Uncaught message)
      | RaisedBase message \<Rightarrow> Inl (Uncaught message))"

definition server_info :: json where
  "server_info =
     JObj [(''protocolVersion'', JStr MCP_PROTOCOL_VERSION),
           (''serverInfo'', JObj [(''name'', JStr ''bagofwords''), (''version'', JStr ''1.0.0'')]),
           (''capabilities'', JObj [(''tools'', JObj [])])]"

text \<open>
  \<open>mcp_endpoint\<close>. The tool registry is outside these files: \<open>get_mcp_tool\<close> maps a name to
  a tool class, taken as what calling it does (the tool, or the exception its constructor
  raises); a tool is what its \<open>execute\<close> does on the arguments, the database, the user and
  the organization; \<open>list_mcp_tools\<close> is the list of tool descriptions; \<open>json_dumps\<close> is
  \<open>json.dumps\<close> on a tool's result and \<open>py_str\<close> the formatting of a value in an f-string.
  What a tool writes to the database is not followed.
\<close>

definition mcp_endpoint ::
  "(json \<Rightarrow> (json \<Rightarrow> db \<Rightarrow> user \<Rightarrow> organization \<Rightarrow> 'r outcome) outcome option)
     \<Rightarrow> (string \<Rightarrow> json option) list \<Rightarrow> ('r \<Rightarrow> string outcome) \<Rightarrow> (json \<Rightarrow> string)
     \<Rightarrow> db \<Rightarrow> user \<times> organization \<Rightarrow> body_read \<Rightarrow> error + http_response" where
  "mcp_endpoint get_mcp_tool list_mcp_tools json_dumps py_str d auth body =
     (case check_mcp_enabled (snd auth) of
        Some e \<Rightarrow> Inl e
      | None \<Rightarrow>
          (case body of
             ParseFailure e \<Rightarrow> Inr (mcp_response (jsonrpc_error JNull (- 32700) (''Parse error: '' @ e)))
           | InvalidRequest e \<Rightarrow>
               Inr (mcp_response (jsonrpc_error JNull (- 32600) (''Invalid request: '' @ e)))
           | Parsed request \<Rightarrow>
               if rq_method request = ''initialize'' then
                 Inr (mcp_response (jsonrpc_response (rq_id request) server_info))
               else if rq_method request = ''tools/list'' then
                 (case mcp_tools list_mcp_tools of
                    Inl e \<Rightarrow> Inl e
                  | Inr tools \<Rightarrow>
                      Inr (mcp_response
                             (jsonrpc_response (rq_id request) (JObj [(''tools'', JList tools)]))))
               else if rq_method request = ''tools/call'' then
                 (let params = (case rq_params request of None \<Rightarrow> (\<lambda>k. None) | Some p \<Rightarrow> p);
                      tool_name = (case params ''name'' of None \<Rightarrow> JNull | Some n \<Rightarrow> n);
                      arguments = (case params ''arguments'' of None \<Rightarrow> JObj [] | Some a \<Rightarrow> a)
                  in if \<not> truthy tool_name then
                       Inr (mcp_response (jsonrpc_error (rq_id request) (- 32602) ''Missing tool name''))
                     else
                       (case get_mcp_tool tool_name of
                          None \<Rightarrow>
                            Inr (mcp_response
                                   (jsonrpc_error (rq_id request) (- 32602)
                                      (''Unknown tool: '' @ py_str tool_name)))
                        | Some tool_class \<Rightarrow>
                            (case instantiate_tool tool_class of
                               Inl e \<Rightarrow> Inl e
                             | Inr execute \<Rightarrow>
                                 call_tool json_dumps (rq_id request)
                                   (execute arguments d (fst auth) (snd auth)))))
               else
                 Inr (mcp_response
                        (jsonrpc_error (rq_id request) (- 32601)
                           (''Method not found: '' @ rq_method request)))))"

section \<open>Concrete states for the examples\<close>

definition empty_db :: db where
  "empty_db = \<lparr>clients = [], auth_codes = [], access_tokens = [],
               users = (\<lambda>k. None), organizations = (\<lambda>k. None)\<rparr>"

definition example_user :: user where
  "example_user = \<lparr>u_id = ''user-1''\<rparr>"

definition enabled_org :: organization where
  "enabled_org =
     \<lparr>o_id = ''org-1'',
      o_settings = Some (\<lambda>k. if k = ''mcp_enabled'' then Some \<lparr>cfg_value = Some True\<rparr> else None)\<rparr>"

definition api_user_1 :: "string \<Rightarrow> user option" where
  "api_user_1 key = (if key = ''bow_key_1'' then Some \<lparr>u_id = ''user-2''\<rparr> else None)"

definition api_org_1 :: "string \<Rightarrow> organization option" where
  "api_org_1 key =
     (if key = ''bow_key_1'' then Some \<lparr>o_id = ''org-2'', o_settings = None\<rparr> else None)"

definition example_users :: "string \<Rightarrow> user option" where
  "example_users k = (if k = ''user-1'' then Some example_user else None)"

definition example_orgs :: "string \<Rightarrow> organization option" where
  "example_orgs k = (if k = ''org-1'' then Some enabled_org else None)"

text \<open>A client whose secret is \<open>bow_secret_S1\<close>, a code for the verifier of RFC 7636, and
  the record of the access token \<open>bow_oauth_A1\<close> with the refresh token \<open>bow_rt_R1\<close>.\<close>

definition client_1 :: oauth_client where
  "client_1 =
     \<lparr>cl_id = ''c-1'', cl_organization_id = ''org-1'', cl_client_id = ''bow_client_1'',
      cl_client_secret_hash = ''d6fd586fb107c95aefe57fcd7033b314026c15b0f2b2699e72b69e0bb84069aa'',
      cl_name = ''Claude Web'', cl_redirect_uris = CLAUDE_REDIRECT_URIS, cl_scopes = ''mcp'',
      cl_deleted_at = None\<rparr>"

definition code_1 :: authorization_code where
  "code_1 =
     \<lparr>ac_code = ''code-1'', ac_client_id = ''bow_client_1'', ac_user_id = ''user-1'',
      ac_organization_id = ''org-1'',
      ac_redirect_uri = ''https://claude.ai/api/mcp/auth_callback'', ac_scope = ''mcp'',
      ac_code_challenge = ''E9Melhoa2OwvFrEMTJguCHaoeK1t8URWbuGJSstw-cM'',
      ac_expires_at = 1000, ac_deleted_at = None\<rparr>"

definition token_1 :: access_token where
  "token_1 =
     \<lparr>at_token_hash = ''cdde670da1852c0c5820e2efa31f2f920bb86dec07711f3f8b70b47663e3cad6'',
      at_client_id = ''bow_client_1'', at_user_id = ''user-1'', at_organization_id = ''org-1'',
      at_scope = ''mcp'', at_expires_at = 1000,
      at_refresh_token_hash =
        Some ''b40a796e2e6302550d85e47dac7983e47c6cca2a430c056b7b4b5be35b9cdb84'',
      at_refresh_expires_at = Some 5000, at_deleted_at = None\<rparr>"

definition code_db :: db where
  "code_db = \<lparr>clients = [client_1], auth_codes = [code_1], access_tokens = [],
              users = example_users, organizations = example_orgs\<rparr>"

definition token_db :: db where
  "token_db = \<lparr>clients = [client_1], auth_codes = [], access_tokens = [token_1],
               users = example_users, organizations = example_orgs\<rparr>"

definition example_rand :: "nat \<Rightarrow> string" where
  "example_rand k = (if k = 0 then ''N0'' else ''N1'')"

text \<open>A consent that draws the code \<open>code-1\<close> once more.\<close>

definition reissue_code_1 :: service_call where
  "reissue_code_1 =
     CreateAuthorizationCode (\<lambda>k. 999) (\<lambda>k. ''code-1'') ''bow_client_1'' ''user-1'' ''org-1''
       ''https://claude.ai/api/mcp/auth_callback'' ''mcp''
       ''E9Melhoa2OwvFrEMTJguCHaoeK1t8URWbuGJSstw-cM''"

text \<open>A tool registry with a tool that raises, a tool that returns a string and a tool
  that returns a Python set, which \<open>json.dumps\<close> refuses.\<close>

datatype tool_value = StrValue string | SetValue "string list"

fun example_dumps :: "tool_value \<Rightarrow> string outcome" where
  "example_dumps (StrValue s) = Returned ([CHR 0x22] @ s @ [CHR 0x22])"
| "example_dumps (SetValue xs) = Raised ''Object of type set is not JSON serializable''"

definition example_tools ::
  "json \<Rightarrow> (json \<Rightarrow> db \<Rightarrow> user \<Rightarrow> organization \<Rightarrow> tool_value outcome) outcome option" where
  "example_tools name =
     (if name = JStr ''failing'' then Some (Returned (\<lambda>a d u org. Raised ''boom''))
      else if name = JStr ''greet'' then Some (Returned (\<lambda>a d u org. Returned (StrValue ''hello'')))
      else if name = JStr ''tags'' then Some (Returned (\<lambda>a d u org. Returned (SetValue [''a''])))
      else None)"

definition tools_call :: "int \<Rightarrow> string \<Rightarrow> body_read" where
  "tools_call rid name =
     Parsed \<lparr>rq_jsonrpc = ''2.0'', rq_id = JInt rid, rq_method = ''tools/call'',
             rq_params = Some [''name'' \<mapsto> JStr name]\<rparr>"

text \<open>The draws of a second request.\<close>

definition other_rand :: "nat \<Rightarrow> string" where
  "other_rand k = (if k = 0 then ''M0'' else ''M1'')"

section \<open>Evaluating the hash\<close>

lemma replicate_numeral_unfold: "replicate (numeral k) x = x # replicate (pred_numeral k) x"
  by (simp add: numeral_eq_Suc)

text \<open>The digest of the PKCE verifier of RFC 7636, appendix B.\<close>

lemma digest_golden:
  "sha256_digest ''dBjftJeZ4CVP-mB92K27uhbUJU1p1r_wW1gFWFOEjXk'' =
     [19, 211, 30, 150, 26, 26, 216, 236, 47, 22, 177, 12, 76, 152, 46, 8, 118, 168, 120,
      173, 109, 241, 68, 86, 110, 225, 137, 74, 203, 112, 249, 195]"
proof -
  have w: "be_words (sha256_pad (map of_char ''dBjftJeZ4CVP-mB92K27uhbUJU1p1r_wW1gFWFOEjXk'')) =
      [1682074214, 1951032666, 876828240, 762135097, 843788855, 1969775189, 1247097200,
       829579127, 1462855494, 1464225605, 1784179584, 0, 0, 0, 0, 344]"
    by (simp add: sha256_pad_def word_bytes_def replicate_numeral_unfold)
  have c: "compress sha256_H0
      [1682074214, 1951032666, 876828240, 762135097, 843788855, 1969775189, 1247097200,
       829579127, 1462855494, 1464225605, 1784179584, 0, 0, 0, 0, 344] =
      (332603030, 437967084, 790016268, 1285041672, 1990752429, 1844528214, 1860274506,
       3413178819)"
    by (simp add: compress_def sha256_K_def sha256_H0_def sha_t1_def sha_t2_def sched_next_def ssig0_def ssig1_def bsig0_def bsig1_def Ch_def Maj_def rotr_def shr_def add32_def)
  show ?thesis
    unfolding sha256_digest_def w Let_def
    by (simp add: c word_bytes_def)
qed

text \<open>The digest of the empty string.\<close>

lemma digest_empty:
  "sha256_digest '''' =
     [227, 176, 196, 66, 152, 252, 28, 20, 154, 251, 244, 200, 153, 111, 185, 36, 39, 174,
      65, 228, 100, 155, 147, 76, 164, 149, 153, 27, 120, 82, 184, 85]"
proof -
  have w: "be_words (sha256_pad (map of_char '''')) =
      [2147483648, 0, 0, 0, 0, 0, 0, 0, 0, 0, 0, 0, 0, 0, 0, 0]"
    by (simp add: sha256_pad_def word_bytes_def replicate_numeral_unfold)
  have c: "compress sha256_H0
      [2147483648, 0, 0, 0, 0, 0, 0, 0, 0, 0, 0, 0, 0, 0, 0, 0] =
      (3820012610, 2566659092, 2600203464, 2574235940, 665731556, 1687917388, 2761267483,
       2018687061)"
    by (simp add: compress_def sha256_K_def sha256_H0_def sha_t1_def sha_t2_def sched_next_def ssig0_def ssig1_def bsig0_def bsig1_def Ch_def Maj_def rotr_def shr_def add32_def)
  show ?thesis
    unfolding sha256_digest_def w Let_def
    by (simp add: c word_bytes_def)
qed

text \<open>The hash of the access token of the example states.\<close>

lemma digest_A1:
  "sha256_digest ''bow_oauth_A1'' =
     [205, 222, 103, 13, 161, 133, 44, 12, 88, 32, 226, 239, 163, 31, 47, 146, 11, 184, 109,
      236, 7, 113, 31, 63, 139, 112, 180, 118, 99, 227, 202, 214]"
proof -
  have w: "be_words (sha256_pad (map of_char ''bow_oauth_A1'')) =
      [1651472223, 1868658036, 1751073073, 2147483648, 0, 0, 0, 0, 0, 0, 0, 0, 0, 0, 0, 96]"
    by (simp add: sha256_pad_def word_bytes_def replicate_numeral_unfold)
  have c: "compress sha256_H0
      [1651472223, 1868658036, 1751073073, 2147483648, 0, 0, 0, 0, 0, 0, 0, 0, 0, 0, 0, 96] =
      (3453904653, 2709859340, 1478550255, 2736730002, 196636140, 124854079, 2339419254,
       1675872982)"
    by (simp add: compress_def sha256_K_def sha256_H0_def sha_t1_def sha_t2_def sched_next_def ssig0_def ssig1_def bsig0_def bsig1_def Ch_def Maj_def rotr_def shr_def add32_def)
  show ?thesis
    unfolding sha256_digest_def w Let_def
    by (simp add: c word_bytes_def)
qed

lemma hash_A1:
  "hash ''bow_oauth_A1'' =
     ''cdde670da1852c0c5820e2efa31f2f920bb86dec07711f3f8b70b47663e3cad6''"
  by (simp add: hash_def digest_A1 hexdigest_def hex_digit_def)


text \<open>The hashes of the refresh token of the example states and of the two tokens that
  the examples draw.\<close>

lemma digest_R1:
  "sha256_digest ''bow_rt_R1'' =
     [180, 10, 121, 110, 46, 99, 2, 85, 13, 133, 228, 125, 172, 121, 131, 228, 124, 108, 202,
      42, 67, 12, 5, 107, 123, 75, 91, 227, 91, 156, 219, 132]"
proof -
  have w: "be_words (sha256_pad (map of_char ''bow_rt_R1'')) =
      [1651472223, 1920229202, 830472192, 0, 0, 0, 0, 0, 0, 0, 0, 0, 0, 0, 0, 72]"
    by (simp add: sha256_pad_def word_bytes_def replicate_numeral_unfold)
  have c: "compress sha256_H0
      [1651472223, 1920229202, 830472192, 0, 0, 0, 0, 0, 0, 0, 0, 0, 0, 0, 0, 72] =
      (3020585326, 778240597, 226878589, 2893644772, 2087504426, 1124861291, 2068536291,
       1537006468)"
    by (simp add: compress_def sha256_K_def sha256_H0_def sha_t1_def sha_t2_def sched_next_def ssig0_def ssig1_def bsig0_def bsig1_def Ch_def Maj_def rotr_def shr_def add32_def)
  show ?thesis
    unfolding sha256_digest_def w Let_def
    by (simp add: c word_bytes_def)
qed

lemma hash_R1:
  "hash ''bow_rt_R1'' =
     ''b40a796e2e6302550d85e47dac7983e47c6cca2a430c056b7b4b5be35b9cdb84''"
  by (simp add: hash_def digest_R1 hexdigest_def hex_digit_def)

lemma digest_N0:
  "sha256_digest ''bow_oauth_N0'' =
     [146, 204, 145, 92, 25, 141, 71, 217, 111, 146, 86, 141, 241, 196, 107, 206, 214, 64,
      89, 176, 240, 59, 134, 96, 217, 200, 2, 14, 101, 45, 24, 202]"
proof -
  have w: "be_words (sha256_pad (map of_char ''bow_oauth_N0'')) =
      [1651472223, 1868658036, 1751076400, 2147483648, 0, 0, 0, 0, 0, 0, 0, 0, 0, 0, 0, 96]"
    by (simp add: sha256_pad_def word_bytes_def replicate_numeral_unfold)
  have c: "compress sha256_H0
      [1651472223, 1868658036, 1751076400, 2147483648, 0, 0, 0, 0, 0, 0, 0, 0, 0, 0, 0, 96] =
      (2462880092, 428689369, 1871861389, 4056181710, 3594541488, 4030432864, 3653763598,
       1697454282)"
    by (simp add: compress_def sha256_K_def sha256_H0_def sha_t1_def sha_t2_def sched_next_def ssig0_def ssig1_def bsig0_def bsig1_def Ch_def Maj_def rotr_def shr_def add32_def)
  show ?thesis
    unfolding sha256_digest_def w Let_def
    by (simp add: c word_bytes_def)
qed

lemma hash_N0:
  "hash ''bow_oauth_N0'' =
     ''92cc915c198d47d96f92568df1c46bced64059b0f03b8660d9c8020e652d18ca''"
  by (simp add: hash_def digest_N0 hexdigest_def hex_digit_def)

lemma digest_N1:
  "sha256_digest ''bow_rt_N1'' =
     [189, 233, 236, 232, 105, 85, 243, 64, 68, 83, 26, 83, 1, 55, 25, 217, 2, 114, 65, 122,
      72, 140, 12, 79, 19, 192, 141, 25, 223, 199, 149, 125]"
proof -
  have w: "be_words (sha256_pad (map of_char ''bow_rt_N1'')) =
      [1651472223, 1920229198, 830472192, 0, 0, 0, 0, 0, 0, 0, 0, 0, 0, 0, 0, 72]"
    by (simp add: sha256_pad_def word_bytes_def replicate_numeral_unfold)
  have c: "compress sha256_H0
      [1651472223, 1920229198, 830472192, 0, 0, 0, 0, 0, 0, 0, 0, 0, 0, 0, 0, 72] =
      (3186224360, 1767240512, 1146296915, 20388313, 41042298, 1217137743, 331386137,
       3754399101)"
    by (simp add: compress_def sha256_K_def sha256_H0_def sha_t1_def sha_t2_def sched_next_def ssig0_def ssig1_def bsig0_def bsig1_def Ch_def Maj_def rotr_def shr_def add32_def)
  show ?thesis
    unfolding sha256_digest_def w Let_def
    by (simp add: c word_bytes_def)
qed

lemma hash_N1:
  "hash ''bow_rt_N1'' =
     ''bde9ece86955f34044531a53013719d90272417a488c0c4f13c08d19dfc7957d''"
  by (simp add: hash_def digest_N1 hexdigest_def hex_digit_def)


text \<open>The hashes of the two tokens that a second request draws.\<close>

lemma digest_M0:
  "sha256_digest ''bow_oauth_M0'' =
     [69, 163, 184, 190, 141, 239, 154, 140, 56, 14, 51, 39, 188, 128, 232, 173, 65, 204, 22,
      5, 171, 121, 255, 78, 60, 169, 8, 29, 123, 9, 190, 13]"
proof -
  have w: "be_words (sha256_pad (map of_char ''bow_oauth_M0'')) =
      [1651472223, 1868658036, 1751076144, 2147483648, 0, 0, 0, 0, 0, 0, 0, 0, 0, 0, 0, 96]"
    by (simp add: sha256_pad_def word_bytes_def replicate_numeral_unfold)
  have c: "compress sha256_H0
      [1651472223, 1868658036, 1751076144, 2147483648, 0, 0, 0, 0, 0, 0, 0, 0, 0, 0, 0, 96] =
      (1168357566, 2381290124, 940454695, 3162564781, 1103894021, 2876899150, 1017710621,
       2064236045)"
    by (simp add: compress_def sha256_K_def sha256_H0_def sha_t1_def sha_t2_def sched_next_def ssig0_def ssig1_def bsig0_def bsig1_def Ch_def Maj_def rotr_def shr_def add32_def)
  show ?thesis
    unfolding sha256_digest_def w Let_def
    by (simp add: c word_bytes_def)
qed

lemma hash_M0:
  "hash ''bow_oauth_M0'' =
     ''45a3b8be8def9a8c380e3327bc80e8ad41cc1605ab79ff4e3ca9081d7b09be0d''"
  by (simp add: hash_def digest_M0 hexdigest_def hex_digit_def)

lemma digest_M1:
  "sha256_digest ''bow_rt_M1'' =
     [232, 119, 233, 147, 186, 123, 108, 126, 221, 58, 78, 113, 69, 47, 95, 128, 188, 198,
      157, 47, 128, 177, 180, 213, 203, 13, 218, 27, 217, 212, 220, 71]"
proof -
  have w: "be_words (sha256_pad (map of_char ''bow_rt_M1'')) =
      [1651472223, 1920229197, 830472192, 0, 0, 0, 0, 0, 0, 0, 0, 0, 0, 0, 0, 72]"
    by (simp add: sha256_pad_def word_bytes_def replicate_numeral_unfold)
  have c: "compress sha256_H0
      [1651472223, 1920229197, 830472192, 0, 0, 0, 0, 0, 0, 0, 0, 0, 0, 0, 0, 72] =
      (3900172691, 3128650878, 3711585905, 1160732544, 3167132975, 2159129813, 3406682651,
       3654605895)"
    by (simp add: compress_def sha256_K_def sha256_H0_def sha_t1_def sha_t2_def sched_next_def ssig0_def ssig1_def bsig0_def bsig1_def Ch_def Maj_def rotr_def shr_def add32_def)
  show ?thesis
    unfolding sha256_digest_def w Let_def
    by (simp add: c word_bytes_def)
qed

lemma hash_M1:
  "hash ''bow_rt_M1'' =
     ''e877e993ba7b6c7edd3a4e71452f5f80bcc69d2f80b1b4d5cb0dda1bd9d4dc47''"
  by (simp add: hash_def digest_M1 hexdigest_def hex_digit_def)


text \<open>The digest of a verifier that does not belong to the challenge.\<close>

lemma digest_wrong:
  "sha256_digest ''wrong_verifier_that_doesnt_match'' =
     [80, 173, 95, 215, 176, 31, 225, 199, 4, 65, 129, 3, 42, 71, 154, 210, 44, 131, 216,
      123, 212, 69, 5, 236, 66, 83, 191, 91, 94, 244, 30, 254]"
proof -
  have w: "be_words (sha256_pad (map of_char ''wrong_verifier_that_doesnt_match'')) =
      [2003988334, 1734309477, 1919510121, 1701994356, 1751217247, 1685022067, 1853120365,
       1635017576, 2147483648, 0, 0, 0, 0, 0, 0, 256]"
    by (simp add: sha256_pad_def word_bytes_def replicate_numeral_unfold)
  have c: "compress sha256_H0
      [2003988334, 1734309477, 1919510121, 1701994356, 1751217247, 1685022067, 1853120365,
       1635017576, 2147483648, 0, 0, 0, 0, 0, 0, 256] =
      (1353539543, 2954879431, 71401731, 709335762, 746838139, 3561293292, 1112784731,
       1593057022)"
    by (simp add: compress_def sha256_K_def sha256_H0_def sha_t1_def sha_t2_def sched_next_def ssig0_def ssig1_def bsig0_def bsig1_def Ch_def Maj_def rotr_def shr_def add32_def)
  show ?thesis
    unfolding sha256_digest_def w Let_def
    by (simp add: c word_bytes_def)
qed


lemma golden_vector_accepted:
  "verify_pkce_s256 ''dBjftJeZ4CVP-mB92K27uhbUJU1p1r_wW1gFWFOEjXk''
     ''E9Melhoa2OwvFrEMTJguCHaoeK1t8URWbuGJSstw-cM''"
  by (simp add: verify_pkce_s256_def digest_golden rstrip_def b64_def b64url_alphabet_def)

lemma state_bytes_shape: "\<exists>b0 b1 b2 r. state_bytes t = b0 # b1 # b2 # r \<and> b0 < 256"
  by (cases t rule: state_bytes.cases) (simp add: word_bytes_def)

lemma sha256_digest_shape: "\<exists>b0 b1 b2 r. sha256_digest s = b0 # b1 # b2 # r \<and> b0 < 256"
  unfolding sha256_digest_def Let_def by (rule state_bytes_shape)

lemma b64_not_pad: "n < 64 \<Longrightarrow> b64 n \<noteq> CHR ''=''"
proof -
  assume "n < 64"
  then have "b64 n \<in> set b64url_alphabet"
    unfolding b64_def by (intro nth_mem) (simp add: b64url_alphabet_def)
  then show ?thesis by (auto simp: b64url_alphabet_def)
qed

lemma rstrip_Cons_keep: "c \<noteq> ch \<Longrightarrow> rstrip ch (c # cs) \<noteq> []"
  by (simp add: rstrip_def)

lemma empty_challenge_rejected: "\<not> verify_pkce_s256 v []"
proof -
  obtain b0 b1 b2 r where d: "sha256_digest v = b0 # b1 # b2 # r" and b: "b0 < 256"
    using sha256_digest_shape by blast
  have "b64 (b0 div 4) \<noteq> CHR ''=''"
    using b by (intro b64_not_pad) simp
  then show ?thesis
    by (simp add: verify_pkce_s256_def d rstrip_Cons_keep)
qed

lemma wrong_verifier_rejected:
  "\<not> verify_pkce_s256 ''wrong_verifier_that_doesnt_match''
       ''E9Melhoa2OwvFrEMTJguCHaoeK1t8URWbuGJSstw-cM''"
  by (simp add: verify_pkce_s256_def digest_wrong rstrip_def b64_def b64url_alphabet_def)

section \<open>Queries under the unique indexes\<close>

lemma scalar_one_or_none_Some: "scalar_one_or_none xs = Inr (Some x) \<longleftrightarrow> xs = [x]"
  by (cases xs rule: scalar_one_or_none.cases) auto

lemma scalar_one_or_none_None: "scalar_one_or_none xs = Inr None \<longleftrightarrow> xs = []"
  by (cases xs rule: scalar_one_or_none.cases) auto

lemma scalar_one_or_none_Inl: "scalar_one_or_none xs = Inl e \<Longrightarrow> 2 \<le> length xs"
  by (cases xs rule: scalar_one_or_none.cases) auto

lemma filter_key_unique:
  assumes "distinct (map f xs)" and "\<And>y. P y \<Longrightarrow> f y = k"
  shows "length (filter P xs) \<le> 1"
  using assms(1)
proof (induction xs)
  case Nil
  then show ?case by simp
next
  case (Cons x xs)
  show ?case
  proof (cases "P x")
    case True
    have "filter P xs = []"
    proof (rule ccontr)
      assume "filter P xs \<noteq> []"
      then obtain y where "y \<in> set xs" "P y"
        by (metis filter_False)
      then have "f y = f x" using True assms(2) by simp
      with \<open>y \<in> set xs\<close> have "f x \<in> f ` set xs" by (metis imageI)
      with Cons.prems show False by simp
    qed
    with True show ?thesis by simp
  next
    case False
    with Cons show ?thesis by simp
  qed
qed

lemma filter_key_singleton:
  assumes "distinct (map f xs)" and "x \<in> set xs" and "P x" and "\<And>y. P y \<Longrightarrow> f y = k"
  shows "filter P xs = [x]"
proof -
  have "length (filter P xs) \<le> 1"
    using assms(1,4) by (rule filter_key_unique)
  moreover have "x \<in> set (filter P xs)"
    using assms(2,3) by simp
  ultimately show ?thesis
    by (cases "filter P xs") (auto simp: Suc_le_eq)
qed

lemma filter_singleton_mem: "filter P xs = [x] \<Longrightarrow> x \<in> set xs \<and> P x"
proof -
  assume "filter P xs = [x]"
  then have "x \<in> set (filter P xs)" by simp
  then show ?thesis by simp
qed

lemma scalar_key_no_error:
  assumes "distinct (map f xs)" and "\<And>y. P y \<Longrightarrow> f y = k"
  shows "scalar_one_or_none (filter P xs) \<noteq> Inl e"
proof
  assume "scalar_one_or_none (filter P xs) = Inl e"
  then have "2 \<le> length (filter P xs)" by (rule scalar_one_or_none_Inl)
  moreover have "length (filter P xs) \<le> 1"
    using assms(1) assms(2) by (rule filter_key_unique)
  ultimately show False by simp
qed

lemma refresh_hashes_filter:
  assumes "distinct (refresh_hashes xs)"
  shows "length (filter (\<lambda>t. at_refresh_token_hash t = Some h \<and> Q t) xs) \<le> 1"
  using assms
proof (induction xs)
  case Nil
  then show ?case by simp
next
  case (Cons x xs)
  have d: "distinct (refresh_hashes xs)"
    using Cons.prems by (simp add: refresh_hashes_def)
  show ?case
  proof (cases "at_refresh_token_hash x = Some h \<and> Q x")
    case True
    have "h \<notin> set (refresh_hashes xs)"
      using Cons.prems True by (simp add: refresh_hashes_def)
    then have "filter (\<lambda>t. at_refresh_token_hash t = Some h \<and> Q t) xs = []"
      by (auto simp: refresh_hashes_def filter_empty_conv)
    with True show ?thesis by simp
  next
    case False
    with Cons.IH [OF d] show ?thesis by auto
  qed
qed

lemma validate_client_no_error:
  "db_unique d \<Longrightarrow> validate_client d client_id client_secret \<noteq> Inl e"
  using scalar_key_no_error [of cl_client_id "clients d" "live_client client_id" client_id e]
  by (auto simp: validate_client_def db_unique_def live_client_def
        split: sum.splits option.splits if_splits)

lemma live_token_no_error:
  "db_unique d \<Longrightarrow> scalar_one_or_none (filter (live_token h) (access_tokens d)) \<noteq> Inl e"
  using scalar_key_no_error [of at_token_hash "access_tokens d" "live_token h" h e]
  by (auto simp: db_unique_def live_token_def)

lemma live_code_no_error:
  "db_unique d \<Longrightarrow> scalar_one_or_none (filter (live_code c cid) (auth_codes d)) \<noteq> Inl e"
  using scalar_key_no_error [of ac_code "auth_codes d" "live_code c cid" c e]
  by (auto simp: db_unique_def live_code_def)

lemma live_refresh_no_error:
  "db_unique d \<Longrightarrow> scalar_one_or_none (filter (live_refresh h cid) (access_tokens d)) \<noteq> Inl e"
proof -
  assume "db_unique d"
  then have "length (filter (\<lambda>t. at_refresh_token_hash t = Some h
                \<and> (at_client_id t = cid \<and> at_deleted_at t = None)) (access_tokens d)) \<le> 1"
    by (intro refresh_hashes_filter) (simp add: db_unique_def)
  then have "length (filter (live_refresh h cid) (access_tokens d)) \<le> 1"
    by (simp add: live_refresh_def [abs_def])
  then show ?thesis
    using scalar_one_or_none_Inl [of "filter (live_refresh h cid) (access_tokens d)" e] by auto
qed

section \<open>The steps of a code exchange\<close>

lemma exchange_code_client_invalid:
  "validate_client d client_id client_secret = Inr None \<Longrightarrow>
   exchange_code clock rand d code client_id client_secret code_verifier redirect_uri
     = (Inr None, d)"
  by (simp add: exchange_code_def)

lemma exchange_code_no_code:
  "validate_client d client_id client_secret = Inr (Some client) \<Longrightarrow>
   filter (live_code code client_id) (auth_codes d) = [] \<Longrightarrow>
   exchange_code clock rand d code client_id client_secret code_verifier redirect_uri
     = (Inr None, d)"
  by (simp add: exchange_code_def)

lemma exchange_code_found:
  "validate_client d client_id client_secret = Inr (Some client) \<Longrightarrow>
   filter (live_code code client_id) (auth_codes d) = [auth_code] \<Longrightarrow>
   exchange_code clock rand d code client_id client_secret code_verifier redirect_uri =
     (if ac_expires_at auth_code < clock 0 then
        (Inr None,
         d\<lparr>auth_codes := update_where (live_code code client_id)
                (\<lambda>c. c\<lparr>ac_deleted_at := Some (clock 1)\<rparr>) (auth_codes d)\<rparr>)
      else if \<not> verify_pkce_s256 code_verifier (ac_code_challenge auth_code) then (Inr None, d)
      else if ac_redirect_uri auth_code \<noteq> redirect_uri then (Inr None, d)
      else if token_conflict
                (fst (issue_tokens clock 2 rand client_id (ac_user_id auth_code)
                        (ac_organization_id auth_code) (ac_scope auth_code)))
                (access_tokens d)
        then (Inl IntegrityError, d)
      else
        (Inr (Some (snd (issue_tokens clock 2 rand client_id (ac_user_id auth_code)
                           (ac_organization_id auth_code) (ac_scope auth_code)))),
         d\<lparr>auth_codes := update_where (live_code code client_id)
                (\<lambda>c. c\<lparr>ac_deleted_at := Some (clock 1)\<rparr>) (auth_codes d),
            access_tokens := access_tokens d
              @ [fst (issue_tokens clock 2 rand client_id (ac_user_id auth_code)
                        (ac_organization_id auth_code) (ac_scope auth_code))]\<rparr>))"
  by (simp add: exchange_code_def Let_def)

lemma live_code_rows:
  assumes "db_unique d"
  shows "filter (live_code code client_id) (auth_codes d) = []
         \<or> (\<exists>c. filter (live_code code client_id) (auth_codes d) = [c])"
proof -
  have "length (filter (live_code code client_id) (auth_codes d)) \<le> 1"
    using assms
    by (intro filter_key_unique [where f = ac_code and k = code])
       (simp_all add: db_unique_def live_code_def)
  then show ?thesis
    by (cases "filter (live_code code client_id) (auth_codes d)") (auto simp: Suc_le_eq)
qed

lemma validate_client_cases:
  assumes "db_unique d"
  shows "validate_client d client_id client_secret = Inr None
         \<or> (\<exists>c. validate_client d client_id client_secret = Inr (Some c))"
proof (cases "validate_client d client_id client_secret")
  case (Inl e)
  with validate_client_no_error [OF assms, of client_id client_secret e] show ?thesis by blast
next
  case (Inr r)
  then show ?thesis by (cases r) simp_all
qed

text \<open>Tombstoning the rows of a query leaves none of them live.\<close>

lemma tombstoned_none_live:
  "filter (live_code code client_id)
     (update_where (live_code code client_id) (\<lambda>c. c\<lparr>ac_deleted_at := Some t\<rparr>) rows) = []"
  by (induction rows) (auto simp: update_where_def live_code_def)

lemma tombstoned_codes_kept:
  "map ac_code (update_where P (\<lambda>c. c\<lparr>ac_deleted_at := Some t\<rparr>) rows) = map ac_code rows"
  by (induction rows) (auto simp: update_where_def)

lemma tombstone_singleton:
  assumes "filter P rows = [c]"
  shows "f c \<in> set (update_where P f rows)"
proof -
  have "c \<in> set rows" "P c"
    using filter_singleton_mem [OF assms] by simp_all
  then show ?thesis
    by (auto simp: update_where_def image_iff intro!: bexI [of _ c])
qed

lemma no_code_anywhere:
  assumes "distinct (map ac_code rows)" and "filter (live_code code client_id) rows = [c]"
  shows "filter (\<lambda>r. ac_code r = code \<and> ac_deleted_at r = None)
           (update_where (live_code code client_id) (\<lambda>c. c\<lparr>ac_deleted_at := Some t\<rparr>) rows) = []"
proof -
  have c: "c \<in> set rows" "live_code code client_id c"
    using filter_singleton_mem [OF assms(2)] by simp_all
  have "r = c" if "r \<in> set rows" "ac_code r = code" for r
    using assms(1) c that
    by (metis distinct_map inj_on_def live_code_def)
  then have "\<And>r. r \<in> set rows \<Longrightarrow> ac_code r = code \<Longrightarrow> live_code code client_id r"
    using c by blast
  then show ?thesis
    by (auto simp: update_where_def filter_empty_conv)
qed

section \<open>The example states\<close>

lemma validate_client_1:
  "validate_client code_db ''bow_client_1'' None = Inr (Some client_1)"
  "validate_client token_db ''bow_client_1'' None = Inr (Some client_1)"
  by (simp_all add: validate_client_def code_db_def token_db_def client_1_def live_client_def)

lemma code_db_rows:
  "filter (live_code ''code-1'' ''bow_client_1'') (auth_codes code_db) = [code_1]"
  by (simp add: code_db_def code_1_def live_code_def)

lemma code_db_unique: "db_unique code_db"
  by (simp add: db_unique_def code_db_def refresh_hashes_def)

lemma code_1_pkce:
  "verify_pkce_s256 ''dBjftJeZ4CVP-mB92K27uhbUJU1p1r_wW1gFWFOEjXk'' (ac_code_challenge code_1)"
  using golden_vector_accepted by (simp add: code_1_def)

lemma exchange_code_db_success:
  assumes "\<not> 1000 < clock 0"
  shows "fst (exchange_code clock example_rand code_db ''code-1'' ''bow_client_1'' None
            ''dBjftJeZ4CVP-mB92K27uhbUJU1p1r_wW1gFWFOEjXk''
            ''https://claude.ai/api/mcp/auth_callback'')
         = Inr (Some \<lparr>tr_access_token = ''bow_oauth_N0'', tr_token_type = ''Bearer'',
                      tr_expires_in = 3600, tr_refresh_token = ''bow_rt_N1'',
                      tr_scope = ''mcp''\<rparr>)"
proof -
  have e: "ac_expires_at code_1 = 1000"
    "ac_redirect_uri code_1 = ''https://claude.ai/api/mcp/auth_callback''"
    "ac_scope code_1 = ''mcp''"
    by (simp_all add: code_1_def)
  have t: "access_tokens code_db = []"
    by (simp add: code_db_def)
  show ?thesis
    unfolding exchange_code_found [OF validate_client_1(1) code_db_rows]
    using assms code_1_pkce
    by (simp add: e t token_conflict_def refresh_hashes_def issue_tokens_def generate_token_def
          ACCESS_TOKEN_PREFIX_def REFRESH_TOKEN_PREFIX_def ACCESS_TOKEN_LIFETIME_def
          example_rand_def)
qed

lemma fresh_tokens_no_conflict:
  "fresh_tokens rand d \<Longrightarrow>
   \<not> token_conflict (fst (issue_tokens clock k rand client_id uid org scope)) (access_tokens d)"
  by (simp add: fresh_tokens_def token_conflict_def issue_tokens_def generate_token_def)

lemma validate_client_spec:
  assumes "db_unique d"
  shows "(\<exists>c. validate_client d client_id client_secret = Inr (Some c))
           \<longleftrightarrow> spec_client_valid d client_id client_secret"
proof -
  let ?rows = "filter (live_client client_id) (clients d)"
  have le: "length ?rows \<le> 1"
    using assms
    by (intro filter_key_unique [where f = cl_client_id and k = client_id])
       (simp_all add: db_unique_def live_client_def)
  show ?thesis
  proof (cases ?rows)
    case Nil
    then have "\<forall>c \<in> set (clients d). \<not> live_client client_id c"
      by (simp add: filter_empty_conv)
    then have "\<not> spec_client_valid d client_id client_secret"
      unfolding spec_client_valid_def live_client_def by blast
    moreover have "validate_client d client_id client_secret = Inr None"
      using Nil by (simp add: validate_client_def)
    ultimately show ?thesis by simp
  next
    case (Cons c rest)
    with le have rows: "?rows = [c]" by simp
    then have c: "c \<in> set (clients d)" "live_client client_id c"
      using filter_singleton_mem [of "live_client client_id" "clients d" c] by simp_all
    have only: "c' = c" if "c' \<in> set (clients d)" "live_client client_id c'" for c'
    proof -
      have "c' \<in> set ?rows" using that by simp
      then show ?thesis using rows by simp
    qed
    have s: "spec_client_valid d client_id client_secret
               \<longleftrightarrow> (case client_secret of None \<Rightarrow> True
                                          | Some s \<Rightarrow> hash s = cl_client_secret_hash c)"
    proof
      assume "spec_client_valid d client_id client_secret"
      then obtain c' where "c' \<in> set (clients d)" "live_client client_id c'"
        "case client_secret of None \<Rightarrow> True | Some s \<Rightarrow> hash s = cl_client_secret_hash c'"
        unfolding spec_client_valid_def live_client_def by blast
      with only [of c'] show "case client_secret of None \<Rightarrow> True
                                | Some s \<Rightarrow> hash s = cl_client_secret_hash c"
        by (auto split: option.splits)
    next
      assume "case client_secret of None \<Rightarrow> True | Some s \<Rightarrow> hash s = cl_client_secret_hash c"
      with c show "spec_client_valid d client_id client_secret"
        unfolding spec_client_valid_def live_client_def by blast
    qed
    show ?thesis
      unfolding s using rows
      by (simp add: validate_client_def split: option.splits)
  qed
qed

lemma singleton_filter_ex:
  assumes "filter P xs = [c]"
  shows "(\<exists>x \<in> set xs. P x \<and> Q x) \<longleftrightarrow> Q c"
proof
  assume "\<exists>x \<in> set xs. P x \<and> Q x"
  then obtain x where x: "x \<in> set xs" "P x" "Q x" by blast
  then have "x \<in> set (filter P xs)" by simp
  with assms have "x = c" by simp
  with x show "Q c" by simp
next
  assume "Q c"
  with filter_singleton_mem [OF assms] show "\<exists>x \<in> set xs. P x \<and> Q x" by blast
qed

lemma amended_first_failure_client:
  assumes "db_unique d" and "validate_client d client_id client_secret = Inr None"
  shows "amended_first_failure now d code client_id client_secret code_verifier redirect_uri
           = ClientInvalid"
  using validate_client_spec [OF assms(1), of client_id client_secret] assms(2)
  by (simp add: amended_first_failure_def first_failure_def)

lemma amended_first_failure_no_code:
  assumes "db_unique d" and "validate_client d client_id client_secret = Inr (Some client)"
    and "filter (live_code code client_id) (auth_codes d) = []"
  shows "amended_first_failure now d code client_id client_secret code_verifier redirect_uri
           = NoLiveCode"
proof -
  have v: "spec_client_valid d client_id client_secret"
    using validate_client_spec [OF assms(1), of client_id client_secret] assms(2) by simp
  have "\<forall>c \<in> set (auth_codes d). \<not> live_code code client_id c"
    using assms(3) by (simp add: filter_empty_conv)
  then have "\<not> (\<exists>c \<in> set (auth_codes d).
                   ac_code c = code \<and> ac_client_id c = client_id \<and> ac_deleted_at c = None)"
    unfolding live_code_def by blast
  with v show ?thesis
    by (simp add: amended_first_failure_def first_failure_def)
qed

lemma amended_first_failure_found:
  assumes "db_unique d" and "validate_client d client_id client_secret = Inr (Some client)"
    and rows: "filter (live_code code client_id) (auth_codes d) = [c]"
  shows "amended_first_failure now d code client_id client_secret code_verifier redirect_uri =
           (if ac_expires_at c < now then CodeExpired
            else if \<not> verify_pkce_s256 code_verifier (ac_code_challenge c) then PkceMismatch
            else if ac_redirect_uri c \<noteq> redirect_uri then RedirectMismatch
            else AllPassed)"
proof -
  have v: "spec_client_valid d client_id client_secret"
    using validate_client_spec [OF assms(1), of client_id client_secret] assms(2) by simp
  have ex: "(\<exists>x \<in> set (auth_codes d).
               ac_code x = code \<and> ac_client_id x = client_id \<and> ac_deleted_at x = None \<and> Q x)
            \<longleftrightarrow> Q c" for Q
    using singleton_filter_ex [OF rows, of Q] by (simp add: live_code_def)
  have live: "\<exists>x \<in> set (auth_codes d).
               ac_code x = code \<and> ac_client_id x = client_id \<and> ac_deleted_at x = None"
    using ex [of "\<lambda>x. True"] by simp
  show ?thesis
    unfolding amended_first_failure_def first_failure_def using v live
    by (simp add: ex amended_unexpired_def not_le)
qed

section \<open>Invariants of a run\<close>

lemma update_where_key:
  "(\<And>r. key (f r) = key r) \<Longrightarrow> map key (update_where P f rows) = map key rows"
  by (induction rows) (auto simp: update_where_def)

lemma refresh_hashes_update:
  "refresh_hashes (update_where P (\<lambda>t. t\<lparr>at_deleted_at := x\<rparr>) rows) = refresh_hashes rows"
  by (induction rows) (auto simp: update_where_def refresh_hashes_def)

lemma refresh_hashes_append:
  "refresh_hashes (rows @ [t])
     = refresh_hashes rows @ (case at_refresh_token_hash t of None \<Rightarrow> [] | Some h \<Rightarrow> [h])"
  by (simp add: refresh_hashes_def)

lemma db_unique_codes_update:
  "db_unique d \<Longrightarrow>
   db_unique (d\<lparr>auth_codes := update_where P (\<lambda>c. c\<lparr>ac_deleted_at := x\<rparr>) (auth_codes d)\<rparr>)"
  by (simp add: db_unique_def update_where_key)

lemma db_unique_token_append:
  assumes "db_unique d" and "\<not> token_conflict new (access_tokens d)"
  shows "db_unique (d\<lparr>access_tokens :=
            update_where P (\<lambda>t. t\<lparr>at_deleted_at := x\<rparr>) (access_tokens d) @ [new]\<rparr>)"
  using assms
  by (auto simp: db_unique_def token_conflict_def update_where_key refresh_hashes_append
        refresh_hashes_update split: option.splits)

lemma db_unique_token_append_plain:
  assumes "db_unique d" and "\<not> token_conflict new (access_tokens d)"
  shows "db_unique (d\<lparr>access_tokens := access_tokens d @ [new]\<rparr>)"
  using assms
  by (auto simp: db_unique_def token_conflict_def refresh_hashes_append split: option.splits)

lemma db_unique_clients_update:
  assumes "db_unique d" and "\<And>c. cl_id (f c) = cl_id c" and "\<And>c. cl_client_id (f c) = cl_client_id c"
  shows "db_unique (d\<lparr>clients := update_where P f (clients d)\<rparr>)"
  using assms by (simp add: db_unique_def update_where_key)

lemma exchange_code_state:
  "snd (exchange_code clock rand d code client_id client_secret code_verifier redirect_uri) = d
   \<or> snd (exchange_code clock rand d code client_id client_secret code_verifier redirect_uri)
       = d\<lparr>auth_codes := update_where (live_code code client_id)
              (\<lambda>c. c\<lparr>ac_deleted_at := Some (clock 1)\<rparr>) (auth_codes d)\<rparr>
   \<or> (\<exists>new. \<not> token_conflict new (access_tokens d)
         \<and> snd (exchange_code clock rand d code client_id client_secret code_verifier
                  redirect_uri)
             = (d\<lparr>auth_codes := update_where (live_code code client_id)
                    (\<lambda>c. c\<lparr>ac_deleted_at := Some (clock 1)\<rparr>) (auth_codes d)\<rparr>)
                \<lparr>access_tokens := access_tokens d @ [new]\<rparr>)"
proof (cases "validate_client d client_id client_secret")
  case (Inl e)
  then show ?thesis by (simp add: exchange_code_def)
next
  case (Inr found)
  show ?thesis
  proof (cases found)
    case None
    with Inr show ?thesis by (simp add: exchange_code_def)
  next
    case (Some client)
    show ?thesis
    proof (cases "scalar_one_or_none (filter (live_code code client_id) (auth_codes d))")
      case (Inl e)
      with Inr Some show ?thesis by (simp add: exchange_code_def)
    next
      case r: (Inr row)
      show ?thesis
      proof (cases row)
        case None
        with Inr Some r show ?thesis by (simp add: exchange_code_def)
      next
        case c: (Some c)
        then have rows: "filter (live_code code client_id) (auth_codes d) = [c]"
          using r by (simp add: scalar_one_or_none_Some)
        show ?thesis
          unfolding exchange_code_found [OF Inr [unfolded Some] rows]
          by auto
      qed
    qed
  qed
qed

lemma refresh_access_token_state:
  "snd (refresh_access_token clock rand d refresh_token client_id client_secret) = d
   \<or> (\<exists>new k. \<not> token_conflict new (access_tokens d)
         \<and> snd (refresh_access_token clock rand d refresh_token client_id client_secret)
             = d\<lparr>access_tokens :=
                   update_where (live_refresh (hash refresh_token) client_id)
                     (\<lambda>t. t\<lparr>at_deleted_at := Some (clock k)\<rparr>) (access_tokens d) @ [new]\<rparr>)"
proof (cases "validate_client d client_id client_secret")
  case (Inl e)
  then show ?thesis by (simp add: refresh_access_token_def)
next
  case (Inr found)
  show ?thesis
  proof (cases found)
    case None
    with Inr show ?thesis by (simp add: refresh_access_token_def)
  next
    case (Some client)
    show ?thesis
    proof (cases "scalar_one_or_none
                    (filter (live_refresh (hash refresh_token) client_id) (access_tokens d))")
      case (Inl e)
      with Inr Some show ?thesis by (simp add: refresh_access_token_def)
    next
      case r: (Inr row)
      show ?thesis
      proof (cases row)
        case None
        with Inr Some r show ?thesis by (simp add: refresh_access_token_def)
      next
        case t: (Some t)
        with Inr Some r show ?thesis
          by (simp add: refresh_access_token_def Let_def) blast
      qed
    qed
  qed
qed

lemma create_client_state:
  "snd (create_client new_id rand d organization_id name redirect_uris) = d
   \<or> (\<exists>c. \<not> client_conflict c (clients d)
         \<and> snd (create_client new_id rand d organization_id name redirect_uris)
             = d\<lparr>clients := clients d @ [c]\<rparr>)"
  by (simp add: create_client_def Let_def) blast

lemma create_authorization_code_state:
  "snd (create_authorization_code clock rand d client_id user_id organization_id redirect_uri
          scope code_challenge) = d
   \<or> (\<exists>c. \<not> code_conflict c (auth_codes d)
         \<and> snd (create_authorization_code clock rand d client_id user_id organization_id
                  redirect_uri scope code_challenge)
             = d\<lparr>auth_codes := auth_codes d @ [c]\<rparr>)"
  by (simp add: create_authorization_code_def Let_def) blast

lemma delete_client_state:
  "snd (delete_client clock d client_db_id organization_id) = d
   \<or> snd (delete_client clock d client_db_id organization_id)
       = d\<lparr>clients := update_where (owned_live_client client_db_id organization_id)
              (\<lambda>c. c\<lparr>cl_deleted_at := Some (clock 0)\<rparr>) (clients d)\<rparr>"
  by (simp add: delete_client_def split: sum.splits option.splits)

lemma rotate_client_secret_state:
  "snd (rotate_client_secret rand d client_db_id organization_id) = d
   \<or> snd (rotate_client_secret rand d client_db_id organization_id)
       = d\<lparr>clients := update_where (owned_live_client client_db_id organization_id)
              (\<lambda>c. c\<lparr>cl_client_secret_hash := hash (''bow_secret_'' @ rand 0)\<rparr>) (clients d)\<rparr>"
  by (simp add: rotate_client_secret_def Let_def split: sum.splits option.splits)

lemma apply_call_unique: "db_unique d \<Longrightarrow> db_unique (apply_call call d)"
proof (cases call)
  case (CreateClient new_id rand org name uris)
  assume u: "db_unique d"
  from create_client_state [of new_id rand d org name uris] u show ?thesis
    unfolding CreateClient apply_call.simps
    by (auto simp: db_unique_def client_conflict_def)
next
  case (DeleteClient clock cid org)
  assume u: "db_unique d"
  from delete_client_state [of clock d cid org] show ?thesis
    unfolding DeleteClient apply_call.simps
    using db_unique_clients_update [OF u, of "\<lambda>c. c\<lparr>cl_deleted_at := Some (clock 0)\<rparr>"] u
    by auto
next
  case (RotateClientSecret rand cid org)
  assume u: "db_unique d"
  from rotate_client_secret_state [of rand d cid org] show ?thesis
    unfolding RotateClientSecret apply_call.simps
    using db_unique_clients_update [OF u,
        of "\<lambda>c. c\<lparr>cl_client_secret_hash := hash (''bow_secret_'' @ rand 0)\<rparr>"] u
    by auto
next
  case (CreateAuthorizationCode clock rand client_id uid org uri scope challenge)
  assume u: "db_unique d"
  from create_authorization_code_state [of clock rand d client_id uid org uri scope challenge] u
  show ?thesis
    unfolding CreateAuthorizationCode apply_call.simps
    by (auto simp: db_unique_def code_conflict_def)
next
  case (ExchangeCode clock rand code client_id secret verifier uri)
  assume u: "db_unique d"
  from exchange_code_state [of clock rand d code client_id secret verifier uri]
  show ?thesis
    unfolding ExchangeCode apply_call.simps
  proof (elim disjE exE conjE)
    fix new
    assume nc: "\<not> token_conflict new (access_tokens d)"
      and s: "snd (exchange_code clock rand d code client_id secret verifier uri)
             = (d\<lparr>auth_codes := update_where (live_code code client_id)
                    (\<lambda>c. c\<lparr>ac_deleted_at := Some (clock 1)\<rparr>) (auth_codes d)\<rparr>)
                \<lparr>access_tokens := access_tokens d @ [new]\<rparr>"
    let ?d1 = "d\<lparr>auth_codes := update_where (live_code code client_id)
                    (\<lambda>c. c\<lparr>ac_deleted_at := Some (clock 1)\<rparr>) (auth_codes d)\<rparr>"
    have u1: "db_unique ?d1"
      using u by (rule db_unique_codes_update)
    have "\<not> token_conflict new (access_tokens ?d1)"
      using nc by simp
    with u1 have "db_unique (?d1\<lparr>access_tokens := access_tokens ?d1 @ [new]\<rparr>)"
      by (rule db_unique_token_append_plain)
    then show "db_unique (snd (exchange_code clock rand d code client_id secret verifier uri))"
      by (simp add: s)
  qed (simp_all add: u db_unique_codes_update)
next
  case (RefreshAccessToken clock rand token client_id secret)
  assume u: "db_unique d"
  from refresh_access_token_state [of clock rand d token client_id secret]
  show ?thesis
    unfolding RefreshAccessToken apply_call.simps
    using u db_unique_token_append [OF u]
    by (elim disjE exE conjE) simp_all
next
  case (External us os)
  assume "db_unique d"
  then show ?thesis
    unfolding External by (simp add: db_unique_def)
qed

lemma run_unique: "db_unique d \<Longrightarrow> db_unique (run calls d)"
  by (induction calls arbitrary: d) (simp_all add: apply_call_unique)

lemma code_spent_update:
  "code_spent code d \<Longrightarrow>
   code_spent code (d\<lparr>auth_codes := update_where P (\<lambda>c. c\<lparr>ac_deleted_at := Some t\<rparr>)
                                      (auth_codes d)\<rparr>)"
  by (auto simp: code_spent_def update_where_key filter_empty_conv update_where_def)

lemma apply_call_spent: "code_spent code d \<Longrightarrow> code_spent code (apply_call call d)"
proof (cases call)
  case (CreateClient new_id rand org name uris)
  assume "code_spent code d"
  with create_client_state [of new_id rand d org name uris] show ?thesis
    unfolding CreateClient apply_call.simps by (auto simp: code_spent_def)
next
  case (DeleteClient clock cid org)
  assume "code_spent code d"
  with delete_client_state [of clock d cid org] show ?thesis
    unfolding DeleteClient apply_call.simps by (auto simp: code_spent_def)
next
  case (RotateClientSecret rand cid org)
  assume "code_spent code d"
  with rotate_client_secret_state [of rand d cid org] show ?thesis
    unfolding RotateClientSecret apply_call.simps by (auto simp: code_spent_def)
next
  case (CreateAuthorizationCode clock rand client_id uid org uri scope challenge)
  assume "code_spent code d"
  with create_authorization_code_state [of clock rand d client_id uid org uri scope challenge]
  show ?thesis
    unfolding CreateAuthorizationCode apply_call.simps
    by (auto simp: code_spent_def code_conflict_def)
next
  case (ExchangeCode clock rand c client_id secret verifier uri)
  assume s: "code_spent code d"
  from exchange_code_state [of clock rand d c client_id secret verifier uri]
  show ?thesis
    unfolding ExchangeCode apply_call.simps
    using s code_spent_update [OF s, of "live_code c client_id" "clock 1"]
    by (elim disjE exE conjE) (simp_all add: code_spent_def)
next
  case (RefreshAccessToken clock rand token client_id secret)
  assume "code_spent code d"
  with refresh_access_token_state [of clock rand d token client_id secret] show ?thesis
    unfolding RefreshAccessToken apply_call.simps by (auto simp: code_spent_def)
next
  case (External us os)
  assume "code_spent code d"
  then show ?thesis
    unfolding External by (simp add: code_spent_def)
qed

lemma run_spent: "code_spent code d \<Longrightarrow> code_spent code (run calls d)"
  by (induction calls arbitrary: d) (simp_all add: apply_call_spent)

lemma exchange_spent_code:
  assumes "db_unique d" and "code_spent code d"
  shows "fst (exchange_code clock rand d code client_id client_secret code_verifier redirect_uri)
           = Inr None"
proof -
  have "\<forall>r \<in> set (auth_codes d). \<not> (ac_code r = code \<and> ac_deleted_at r = None)"
    using assms(2) by (simp add: code_spent_def filter_empty_conv)
  then have rows: "filter (live_code code client_id) (auth_codes d) = []"
    by (auto simp: filter_empty_conv live_code_def)
  from validate_client_cases [OF assms(1), of client_id client_secret] show ?thesis
  proof (elim disjE exE)
    assume "validate_client d client_id client_secret = Inr None"
    then show ?thesis by (simp add: exchange_code_client_invalid)
  next
    fix c
    assume "validate_client d client_id client_secret = Inr (Some c)"
    then show ?thesis using rows by (simp add: exchange_code_no_code)
  qed
qed

section \<open>PKCE verification\<close>

text \<open>
  C3, as the claim states it, fails: \<open>_verify_pkce_s256\<close> has no test for an empty input.
  The empty verifier is accepted against the challenge that is the encoded digest of the
  empty string.
\<close>

theorem pkce_empty_verifier_counterexample:
  "verify_pkce_s256 '''' ''47DEQpj8HBSa-_TImW-5JCeuQeRkm5NMpJWZG3hSuFU''"
  by (simp add: verify_pkce_s256_def digest_empty rstrip_def b64_def b64url_alphabet_def)

text \<open>
  C3, amended: \<open>_verify_pkce_s256\<close> returns true exactly when the base64url encoding
  without padding of the SHA-256 digest of the verifier equals the challenge; it returns
  false for every verifier when the challenge is the empty string; and it accepts the
  golden vector. (An empty verifier is turned away before the call, by the token
  endpoint.)
\<close>

theorem verify_pkce_s256_spec:
  "(verify_pkce_s256 v c \<longleftrightarrow> rstrip CHR ''='' (urlsafe_b64encode (sha256_digest v)) = c)
   \<and> \<not> verify_pkce_s256 v ''''
   \<and> verify_pkce_s256 ''dBjftJeZ4CVP-mB92K27uhbUJU1p1r_wW1gFWFOEjXk''
        ''E9Melhoa2OwvFrEMTJguCHaoeK1t8URWbuGJSstw-cM''"
  using empty_challenge_rejected golden_vector_accepted
  by (simp add: verify_pkce_s256_def)

section \<open>Client creation\<close>

text \<open>
  C9, as the claim states it, fails: \<open>create_client\<close> stores an explicitly supplied list
  as it is, and the empty list is one.
\<close>

theorem create_client_empty_list_counterexample:
  "map cl_redirect_uris
     (clients (snd (create_client ''c1'' (\<lambda>k. ''r'') empty_db ''org1'' ''Claude Web'' (Some []))))
   = [[]]"
  by (simp add: create_client_def client_conflict_def empty_db_def Let_def)

text \<open>
  C9, amended: a successful \<open>create_client\<close> appends one client whose redirect-URI list
  is the default allowlist when \<open>redirect_uris\<close> is omitted and the supplied list
  otherwise; the stored list is empty exactly when the empty list was supplied. The
  response carries the same list.
\<close>

theorem create_client_redirect_uris:
  assumes "create_client new_id rand d organization_id name redirect_uris = (Inr created, d')"
  shows "\<exists>client. clients d' = clients d @ [client]
           \<and> cl_redirect_uris client =
               (case redirect_uris of None \<Rightarrow> CLAUDE_REDIRECT_URIS | Some us \<Rightarrow> us)
           \<and> cc_redirect_uris created = cl_redirect_uris client
           \<and> (cl_redirect_uris client = [] \<longleftrightarrow> redirect_uris = Some [])"
  using assms
  by (auto simp: create_client_def Let_def CLAUDE_REDIRECT_URIS_def
           split: if_splits option.splits)

theorem create_client_redirect_uris_witness:
  "\<exists>created d'.
     create_client ''c1'' (\<lambda>k. ''r'') empty_db ''org1'' ''Claude Web'' None = (Inr created, d')
     \<and> (\<exists>client. clients d' = clients empty_db @ [client]
           \<and> cl_redirect_uris client = CLAUDE_REDIRECT_URIS
           \<and> cc_redirect_uris created = cl_redirect_uris client
           \<and> cl_redirect_uris client \<noteq> [])"
proof -
  obtain created d' where
    c: "create_client ''c1'' (\<lambda>k. ''r'') empty_db ''org1'' ''Claude Web'' None = (Inr created, d')"
    by (simp add: create_client_def client_conflict_def empty_db_def Let_def)
  from create_client_redirect_uris [OF c] c show ?thesis
    by auto
qed

section \<open>Tool errors in the JSON-RPC gateway\<close>

text \<open>
  C8, as the claim states it, fails in its second half: \<open>json.dumps(result)\<close> stands inside
  the \<open>try\<close> block, so a tool that returns normally a result that \<open>json.dumps\<close> cannot
  serialise (here a Python set) is answered with \<open>isError: true\<close> and the message of the
  serialisation error.
\<close>

theorem tools_call_unserialisable_counterexample:
  "mcp_endpoint example_tools [] example_dumps (\<lambda>j. []) empty_db (example_user, enabled_org)
     (tools_call 3 ''tags'')
   = Inr \<lparr>hr_status = 200, hr_headers = [(''MCP-Protocol-Version'', ''2025-06-18'')],
          hr_body = JObj [(''jsonrpc'', JStr ''2.0''), (''id'', JInt 3),
            (''result'', JObj
               [(''content'', JList [JObj [(''type'', JStr ''text''),
                   (''text'', JStr ''Object of type set is not JSON serializable'')]]),
                (''isError'', JBool True)])]\<rparr>"
  by (simp add: mcp_endpoint_def tools_call_def example_tools_def check_mcp_enabled_def
        enabled_org_def instantiate_tool_def call_tool_def mcp_response_def
        jsonrpc_response_def tool_result_def MCP_PROTOCOL_VERSION_def Let_def)

text \<open>
  C8, amended: when MCP is enabled for the organization and a \<open>tools/call\<close> request names a
  registered tool whose class is instantiated, a tool that raises an exception (an
  instance of \<open>Exception\<close>) yields status 200 and a JSON-RPC response with the member
  \<open>result\<close> (and no member \<open>error\<close>) whose value is
  \<open>{content: [{type: "text", text: <the failure message>}], isError: true}\<close>; a tool that
  returns normally yields the same shape with \<open>isError: false\<close> and the JSON-stringified
  result when \<open>json.dumps\<close> serialises the result, and with \<open>isError: true\<close> and the message
  of the serialisation error when \<open>json.dumps\<close> raises.
\<close>

theorem tools_call_envelope:
  assumes "check_mcp_enabled (snd auth) = None"
    and "rq_method request = ''tools/call''"
    and "rq_params request = Some params"
    and "params ''name'' = Some tool_name"
    and "truthy tool_name"
    and "get_mcp_tool tool_name = Some (Returned execute)"
    and "arguments = (case params ''arguments'' of None \<Rightarrow> JObj [] | Some a \<Rightarrow> a)"
  shows "(execute arguments d (fst auth) (snd auth) = Raised message \<longrightarrow>
            mcp_endpoint get_mcp_tool list_mcp_tools json_dumps py_str d auth (Parsed request) =
              Inr \<lparr>hr_status = 200,
                   hr_headers = [(''MCP-Protocol-Version'', ''2025-06-18'')],
                   hr_body = JObj [(''jsonrpc'', JStr ''2.0''), (''id'', rq_id request),
                     (''result'', JObj
                        [(''content'', JList [JObj [(''type'', JStr ''text''),
                                                    (''text'', JStr message)]]),
                         (''isError'', JBool True)])]\<rparr>)
       \<and> (execute arguments d (fst auth) (snd auth) = Returned result
            \<and> json_dumps result = Returned dumped \<longrightarrow>
            mcp_endpoint get_mcp_tool list_mcp_tools json_dumps py_str d auth (Parsed request) =
              Inr \<lparr>hr_status = 200,
                   hr_headers = [(''MCP-Protocol-Version'', ''2025-06-18'')],
                   hr_body = JObj [(''jsonrpc'', JStr ''2.0''), (''id'', rq_id request),
                     (''result'', JObj
                        [(''content'', JList [JObj [(''type'', JStr ''text''),
                                                    (''text'', JStr dumped)]]),
                         (''isError'', JBool False)])]\<rparr>)
       \<and> (execute arguments d (fst auth) (snd auth) = Returned result
            \<and> json_dumps result = Raised message \<longrightarrow>
            mcp_endpoint get_mcp_tool list_mcp_tools json_dumps py_str d auth (Parsed request) =
              Inr \<lparr>hr_status = 200,
                   hr_headers = [(''MCP-Protocol-Version'', ''2025-06-18'')],
                   hr_body = JObj [(''jsonrpc'', JStr ''2.0''), (''id'', rq_id request),
                     (''result'', JObj
                        [(''content'', JList [JObj [(''type'', JStr ''text''),
                                                    (''text'', JStr message)]]),
                         (''isError'', JBool True)])]\<rparr>)"
  using assms
  by (simp add: mcp_endpoint_def Let_def instantiate_tool_def call_tool_def mcp_response_def
        jsonrpc_response_def tool_result_def MCP_PROTOCOL_VERSION_def)

theorem tools_call_envelope_witness:
  "mcp_endpoint example_tools [] example_dumps (\<lambda>j. []) empty_db (example_user, enabled_org)
     (tools_call 1 ''failing'')
   = Inr \<lparr>hr_status = 200, hr_headers = [(''MCP-Protocol-Version'', ''2025-06-18'')],
          hr_body = JObj [(''jsonrpc'', JStr ''2.0''), (''id'', JInt 1),
            (''result'', JObj
               [(''content'', JList [JObj [(''type'', JStr ''text''), (''text'', JStr ''boom'')]]),
                (''isError'', JBool True)])]\<rparr>
   \<and> mcp_endpoint example_tools [] example_dumps (\<lambda>j. []) empty_db
       (example_user, enabled_org) (tools_call 2 ''greet'')
   = Inr \<lparr>hr_status = 200, hr_headers = [(''MCP-Protocol-Version'', ''2025-06-18'')],
          hr_body = JObj [(''jsonrpc'', JStr ''2.0''), (''id'', JInt 2),
            (''result'', JObj
               [(''content'', JList [JObj [(''type'', JStr ''text''),
                   (''text'', JStr (CHR 0x22 # ''hello'' @ [CHR 0x22]))]]),
                (''isError'', JBool False)])]\<rparr>"
proof -
  have en: "check_mcp_enabled (snd (example_user, enabled_org)) = None"
    by (simp add: check_mcp_enabled_def enabled_org_def)
  have a: "mcp_endpoint example_tools [] example_dumps (\<lambda>j. []) empty_db
       (example_user, enabled_org) (tools_call 1 ''failing'')
   = Inr \<lparr>hr_status = 200, hr_headers = [(''MCP-Protocol-Version'', ''2025-06-18'')],
          hr_body = JObj [(''jsonrpc'', JStr ''2.0''), (''id'', JInt 1),
            (''result'', JObj
               [(''content'', JList [JObj [(''type'', JStr ''text''), (''text'', JStr ''boom'')]]),
                (''isError'', JBool True)])]\<rparr>"
    using tools_call_envelope [where auth = "(example_user, enabled_org)"
        and request = "\<lparr>rq_jsonrpc = ''2.0'', rq_id = JInt 1, rq_method = ''tools/call'',
                rq_params = Some [''name'' \<mapsto> JStr ''failing'']\<rparr>"
        and params = "[''name'' \<mapsto> JStr ''failing'']" and tool_name = "JStr ''failing''"
        and get_mcp_tool = example_tools and execute = "\<lambda>a d u org. Raised ''boom''"
        and arguments = "JObj []" and message = "''boom''" and d = empty_db
        and json_dumps = example_dumps and list_mcp_tools = "[]" and py_str = "\<lambda>j. []"] en
    by (simp add: tools_call_def example_tools_def)
  have b: "mcp_endpoint example_tools [] example_dumps (\<lambda>j. []) empty_db
       (example_user, enabled_org) (tools_call 2 ''greet'')
   = Inr \<lparr>hr_status = 200, hr_headers = [(''MCP-Protocol-Version'', ''2025-06-18'')],
          hr_body = JObj [(''jsonrpc'', JStr ''2.0''), (''id'', JInt 2),
            (''result'', JObj
               [(''content'', JList [JObj [(''type'', JStr ''text''),
                   (''text'', JStr (CHR 0x22 # ''hello'' @ [CHR 0x22]))]]),
                (''isError'', JBool False)])]\<rparr>"
    using tools_call_envelope [where auth = "(example_user, enabled_org)"
        and request = "\<lparr>rq_jsonrpc = ''2.0'', rq_id = JInt 2, rq_method = ''tools/call'',
                rq_params = Some [''name'' \<mapsto> JStr ''greet'']\<rparr>"
        and params = "[''name'' \<mapsto> JStr ''greet'']" and tool_name = "JStr ''greet''"
        and get_mcp_tool = example_tools
        and execute = "\<lambda>a d u org. Returned (StrValue ''hello'')"
        and arguments = "JObj []" and result = "StrValue ''hello''"
        and dumped = "CHR 0x22 # ''hello'' @ [CHR 0x22]" and d = empty_db
        and json_dumps = example_dumps and list_mcp_tools = "[]" and py_str = "\<lambda>j. []"] en
    by (simp add: tools_call_def example_tools_def)
  from a b show ?thesis by simp
qed

section \<open>The authentication dispatcher\<close>

text \<open>
  C7, as the claim states it, fails: a session user whose organization selection raises
  an \<open>HTTPException\<close> is a partial success of the first scheme, and \<open>mcp_auth\<close> goes on
  to the API-key header, by which the request is then authenticated as another user.
\<close>

theorem mcp_auth_session_fallback_counterexample:
  "mcp_auth ''https://bow.example/.well-known/oauth-protected-resource''
     (Inl (HTTPException 403 ''Not a member of this organization'' []))
     api_user_1 api_org_1 (\<lambda>k. 0) empty_db
     (Some example_user) (Some ''bow_key_1'') None
   = Inr (\<lparr>u_id = ''user-2''\<rparr>, \<lparr>o_id = ''org-2'', o_settings = None\<rparr>)"
  by (simp add: mcp_auth_def header_api_key_auth_def is_api_key_def startswith_def
        api_key_lookup_def api_user_1_def api_org_1_def)

text \<open>
  C7, amended: \<open>mcp_auth\<close> tries the session bearer, then the API-key header, then the
  \<open>Authorization\<close> bearer, and returns on the first full success. A session user whose
  organization selection fails with an HTTP error is treated as no session, and an API-key
  header that is absent, not an API key, or not resolved is followed by the bearer scheme.
  An OAuth-prefixed bearer token is answered by \<open>validate_access_token\<close> alone: when it is
  invalid or expired the request is refused with 401, whatever the API-key service would
  say of the token. Any other bearer token is looked up as an API key when it starts with
  \<open>bow_\<close>.
\<close>

theorem mcp_auth_precedence:
  "(jwt_user = Some user \<and> org_selection = Inr org \<longrightarrow>
      mcp_auth url org_selection api_user api_org clock d jwt_user api_key authorization
        = Inr (user, org))
   \<and> (jwt_user = Some user \<and> org_selection = Inl (HTTPException code detail hdrs) \<longrightarrow>
      mcp_auth url org_selection api_user api_org clock d jwt_user api_key authorization
        = mcp_auth url org_selection api_user api_org clock d None api_key authorization)
   \<and> (present api_key \<and> is_api_key (field api_key)
        \<and> api_key_lookup api_user api_org (field api_key) = Some r \<longrightarrow>
      mcp_auth url org_selection api_user api_org clock d None api_key authorization = Inr r)
   \<and> (\<not> (present api_key \<and> is_api_key (field api_key))
          \<or> api_key_lookup api_user api_org (field api_key) = None \<longrightarrow>
      mcp_auth url org_selection api_user api_org clock d None api_key authorization
        = bearer_auth url api_user api_org clock d authorization)
   \<and> (startswith token ''bow_oauth_'' \<longrightarrow>
      bearer_auth url api_user api_org clock d (Some (''Bearer '' @ token))
        = (case validate_access_token clock d token of
             Inl e \<Rightarrow> Inl e
           | Inr (Some result) \<Rightarrow> Inr result
           | Inr None \<Rightarrow> Inl (not_authenticated url)))
   \<and> (\<not> startswith token ''bow_oauth_'' \<longrightarrow>
      bearer_auth url api_user api_org clock d (Some (''Bearer '' @ token))
        = (if startswith token ''bow_''
           then (case api_key_lookup api_user api_org token of
                   Some r \<Rightarrow> Inr r | None \<Rightarrow> Inl (not_authenticated url))
           else Inl (not_authenticated url)))"
  by (auto simp: mcp_auth_def header_api_key_auth_def bearer_auth_def bearer_api_key_def
        is_api_key_def startswith_def Let_def split: sum.splits option.splits)

theorem mcp_auth_precedence_witness:
  "mcp_auth ''u'' (Inr enabled_org) api_user_1 api_org_1 (\<lambda>k. 0) empty_db
       (Some example_user) (Some ''bow_key_1'') (Some ''Bearer bow_oauth_x'')
     = Inr (example_user, enabled_org)
   \<and> mcp_auth ''u'' (Inl (HTTPException 403 ''no'' [])) api_user_1 api_org_1 (\<lambda>k. 0) empty_db
       (Some example_user) (Some ''bow_key_1'') None
     = mcp_auth ''u'' (Inl (HTTPException 403 ''no'' [])) api_user_1 api_org_1 (\<lambda>k. 0) empty_db
       None (Some ''bow_key_1'') None
   \<and> mcp_auth ''u'' (Inl (HTTPException 403 ''no'' [])) api_user_1 api_org_1 (\<lambda>k. 0) empty_db
       None (Some ''bow_key_1'') None
     = Inr (\<lparr>u_id = ''user-2''\<rparr>, \<lparr>o_id = ''org-2'', o_settings = None\<rparr>)
   \<and> mcp_auth ''u'' (Inr enabled_org) api_user_1 api_org_1 (\<lambda>k. 0) empty_db
       None None (Some ''Bearer bow_oauth_x'')
     = bearer_auth ''u'' api_user_1 api_org_1 (\<lambda>k. 0) empty_db (Some ''Bearer bow_oauth_x'')
   \<and> bearer_auth ''u'' (\<lambda>k. Some example_user) (\<lambda>k. Some enabled_org) (\<lambda>k. 0) empty_db
       (Some (''Bearer '' @ ''bow_oauth_x''))
     = Inl (not_authenticated ''u'')
   \<and> bearer_auth ''u'' api_user_1 api_org_1 (\<lambda>k. 0) empty_db (Some (''Bearer '' @ ''bow_key_1''))
     = Inr (\<lparr>u_id = ''user-2''\<rparr>, \<lparr>o_id = ''org-2'', o_settings = None\<rparr>)"
proof -
  have v: "validate_access_token (\<lambda>k. 0) empty_db ''bow_oauth_x'' = Inr None"
    by (simp add: validate_access_token_def empty_db_def startswith_def ACCESS_TOKEN_PREFIX_def)
  have l: "api_key_lookup api_user_1 api_org_1 ''bow_key_1''
             = Some (\<lparr>u_id = ''user-2''\<rparr>, \<lparr>o_id = ''org-2'', o_settings = None\<rparr>)"
    by (simp add: api_key_lookup_def api_user_1_def api_org_1_def)
  have k: "is_api_key ''bow_key_1''" "startswith ''bow_oauth_x'' ''bow_oauth_''"
    "\<not> startswith ''bow_key_1'' ''bow_oauth_''" "startswith ''bow_key_1'' ''bow_''"
    by (simp_all add: is_api_key_def startswith_def)
  note t1 = mcp_auth_precedence [where jwt_user = "Some example_user" and user = example_user
      and org_selection = "Inr enabled_org" and org = enabled_org and url = "''u''"
      and api_user = api_user_1 and api_org = api_org_1 and clock = "\<lambda>k. 0" and d = empty_db
      and api_key = "Some ''bow_key_1''" and authorization = "Some ''Bearer bow_oauth_x''"
      and token = "''bow_oauth_x''"]
  note t2 = mcp_auth_precedence [where jwt_user = "Some example_user" and user = example_user
      and org_selection = "Inl (HTTPException 403 ''no'' [])" and code = 403 and detail = "''no''"
      and hdrs = "[]" and url = "''u''"
      and api_user = api_user_1 and api_org = api_org_1 and clock = "\<lambda>k. 0" and d = empty_db
      and api_key = "Some ''bow_key_1''" and authorization = None
      and r = "(\<lparr>u_id = ''user-2''\<rparr>, \<lparr>o_id = ''org-2'', o_settings = None\<rparr>)"
      and token = "''bow_key_1''"]
  note t3 = mcp_auth_precedence [where org_selection = "Inr enabled_org" and url = "''u''"
      and api_user = api_user_1 and api_org = api_org_1 and clock = "\<lambda>k. 0" and d = empty_db
      and api_key = None and authorization = "Some ''Bearer bow_oauth_x''"]
  note t4 = mcp_auth_precedence [where url = "''u''"
      and api_user = "\<lambda>k. Some example_user" and api_org = "\<lambda>k. Some enabled_org"
      and clock = "\<lambda>k. 0" and d = empty_db and token = "''bow_oauth_x''"]
  have c1: "mcp_auth ''u'' (Inr enabled_org) api_user_1 api_org_1 (\<lambda>k. 0) empty_db
       (Some example_user) (Some ''bow_key_1'') (Some ''Bearer bow_oauth_x'')
     = Inr (example_user, enabled_org)"
    using t1 by simp
  have c2: "mcp_auth ''u'' (Inl (HTTPException 403 ''no'' [])) api_user_1 api_org_1 (\<lambda>k. 0) empty_db
       (Some example_user) (Some ''bow_key_1'') None
     = mcp_auth ''u'' (Inl (HTTPException 403 ''no'' [])) api_user_1 api_org_1 (\<lambda>k. 0) empty_db
       None (Some ''bow_key_1'') None"
    using t2 by simp
  have c3: "mcp_auth ''u'' (Inl (HTTPException 403 ''no'' [])) api_user_1 api_org_1 (\<lambda>k. 0) empty_db
       None (Some ''bow_key_1'') None
     = Inr (\<lparr>u_id = ''user-2''\<rparr>, \<lparr>o_id = ''org-2'', o_settings = None\<rparr>)"
    using t2 l k by simp
  have c4: "mcp_auth ''u'' (Inr enabled_org) api_user_1 api_org_1 (\<lambda>k. 0) empty_db
       None None (Some ''Bearer bow_oauth_x'')
     = bearer_auth ''u'' api_user_1 api_org_1 (\<lambda>k. 0) empty_db (Some ''Bearer bow_oauth_x'')"
    using t3 by simp
  have c5: "bearer_auth ''u'' (\<lambda>k. Some example_user) (\<lambda>k. Some enabled_org) (\<lambda>k. 0) empty_db
       (Some (''Bearer '' @ ''bow_oauth_x''))
     = Inl (not_authenticated ''u'')"
    using t4 k v by simp
  have c6: "bearer_auth ''u'' api_user_1 api_org_1 (\<lambda>k. 0) empty_db (Some (''Bearer '' @ ''bow_key_1''))
     = Inr (\<lparr>u_id = ''user-2''\<rparr>, \<lparr>o_id = ''org-2'', o_settings = None\<rparr>)"
    using t2 k l by simp
  from c1 c2 c3 c4 c5 c6 show ?thesis by blast
qed

section \<open>Bearer validation\<close>

text \<open>
  C6, as the claim states it, fails at the boundary: \<open>validate_access_token\<close> rejects a
  record only when \<open>expires_at < now\<close>, so a token whose \<open>expires_at\<close> equals \<open>now\<close> (it is
  not strictly greater) is still accepted.
\<close>

theorem validate_access_token_at_expiry_counterexample:
  "validate_access_token (\<lambda>k. 1000) token_db ''bow_oauth_A1''
     = Inr (Some (example_user, enabled_org))
   \<and> map at_expires_at (access_tokens token_db) = [1000]"
  by (simp add: validate_access_token_def token_db_def token_1_def hash_A1 startswith_def
        ACCESS_TOKEN_PREFIX_def live_token_def example_users_def example_orgs_def)

text \<open>
  C6, amended: under the unique indexes, \<open>validate_access_token(plaintext)\<close> returns the
  pair \<open>(user, organization)\<close> if and only if the plaintext starts with \<open>bow_oauth_\<close>, a
  record whose \<open>token_hash\<close> is the SHA-256 of the plaintext exists with \<open>deleted_at\<close> NULL
  and \<open>expires_at\<close> greater than or equal to \<open>now\<close>, and the user and the organization it
  names exist; in every other case it returns \<open>None\<close> (it raises nothing).
\<close>

theorem validate_access_token_iff:
  assumes "db_unique d"
  shows "(validate_access_token clock d token = Inr (Some (u, org)) \<longleftrightarrow>
            startswith token ''bow_oauth_''
            \<and> (\<exists>t \<in> set (access_tokens d).
                  at_token_hash t = hash token \<and> at_deleted_at t = None
                  \<and> clock 0 \<le> at_expires_at t
                  \<and> users d (at_user_id t) = Some u
                  \<and> organizations d (at_organization_id t) = Some org))
         \<and> (validate_access_token clock d token = Inr None
              \<or> (\<exists>p. validate_access_token clock d token = Inr (Some p)))"
proof -
  let ?rows = "filter (live_token (hash token)) (access_tokens d)"
  let ?v = "validate_access_token clock d token"
  let ?R = "\<exists>t \<in> set (access_tokens d).
              at_token_hash t = hash token \<and> at_deleted_at t = None
              \<and> clock 0 \<le> at_expires_at t
              \<and> users d (at_user_id t) = Some u
              \<and> organizations d (at_organization_id t) = Some org"
  show ?thesis
  proof (cases "startswith token ''bow_oauth_''")
    case False
    then have "?v = Inr None"
      by (simp add: validate_access_token_def ACCESS_TOKEN_PREFIX_def)
    with False show ?thesis by simp
  next
    case prefix: True
    have noerr: "scalar_one_or_none ?rows \<noteq> Inl e" for e
      using assms by (rule live_token_no_error)
    show ?thesis
    proof (cases "scalar_one_or_none ?rows")
      case (Inl e)
      from noerr [of e] Inl show ?thesis by blast
    next
      case (Inr found)
      show ?thesis
      proof (cases found)
        case None
        then have "?rows = []"
          using Inr by (simp add: scalar_one_or_none_None)
        then have "\<forall>t \<in> set (access_tokens d). \<not> live_token (hash token) t"
          by (simp add: filter_empty_conv)
        then have "\<not> ?R"
          unfolding live_token_def by blast
        moreover have "?v = Inr None"
          using Inr None prefix by (simp add: validate_access_token_def ACCESS_TOKEN_PREFIX_def)
        ultimately show ?thesis by simp
      next
        case (Some t)
        then have rows: "?rows = [t]"
          using Inr by (simp add: scalar_one_or_none_Some)
        then have t: "t \<in> set (access_tokens d)" "live_token (hash token) t"
          using filter_singleton_mem [of "live_token (hash token)" "access_tokens d" t]
          by simp_all
        have only: "t' = t" if "t' \<in> set (access_tokens d)" "live_token (hash token) t'" for t'
        proof -
          have "t' \<in> set ?rows" using that by simp
          then show ?thesis using rows by simp
        qed
        have R: "?R \<longleftrightarrow> clock 0 \<le> at_expires_at t \<and> users d (at_user_id t) = Some u
                    \<and> organizations d (at_organization_id t) = Some org"
        proof
          assume ?R
          then obtain t' where t': "t' \<in> set (access_tokens d)" "live_token (hash token) t'"
            "clock 0 \<le> at_expires_at t'" "users d (at_user_id t') = Some u"
            "organizations d (at_organization_id t') = Some org"
            unfolding live_token_def by blast
          with only [of t'] show "clock 0 \<le> at_expires_at t \<and> users d (at_user_id t) = Some u
                    \<and> organizations d (at_organization_id t) = Some org"
            by simp
        next
          assume "clock 0 \<le> at_expires_at t \<and> users d (at_user_id t) = Some u
                    \<and> organizations d (at_organization_id t) = Some org"
          with t show ?R unfolding live_token_def by blast
        qed
        have v: "?v = (if at_expires_at t < clock 0 then Inr None
                       else case users d (at_user_id t) of
                              None \<Rightarrow> Inr None
                            | Some user \<Rightarrow>
                                (case organizations d (at_organization_id t) of
                                   None \<Rightarrow> Inr None
                                 | Some org \<Rightarrow> Inr (Some (user, org))))"
          using Inr Some prefix by (simp add: validate_access_token_def ACCESS_TOKEN_PREFIX_def)
        show ?thesis
          unfolding R v using prefix
          by (simp split: option.splits)
      qed
    qed
  qed
qed

theorem validate_access_token_iff_witness:
  "db_unique token_db
   \<and> validate_access_token (\<lambda>k. 999) token_db ''bow_oauth_A1''
       = Inr (Some (example_user, enabled_org))
   \<and> validate_access_token (\<lambda>k. 1001) token_db ''bow_oauth_A1'' = Inr None"
proof -
  have u: "db_unique token_db"
    by (simp add: db_unique_def token_db_def refresh_hashes_def token_1_def)
  have s: "startswith ''bow_oauth_A1'' ''bow_oauth_''"
    by (simp add: startswith_def)
  have a: "validate_access_token (\<lambda>k. 999) token_db ''bow_oauth_A1''
             = Inr (Some (example_user, enabled_org))"
    using validate_access_token_iff [OF u, of "\<lambda>k. 999" "''bow_oauth_A1''" example_user enabled_org] s
    by (simp add: token_db_def token_1_def hash_A1 example_users_def example_orgs_def)
  have b: "validate_access_token (\<lambda>k. 1001) token_db ''bow_oauth_A1'' = Inr None"
    using validate_access_token_iff [OF u, of "\<lambda>k. 1001" "''bow_oauth_A1''"]
    by (auto simp: token_db_def token_1_def hash_A1)
  from u a b show ?thesis by simp
qed

section \<open>Expiry of an authorization code\<close>

text \<open>
  C4, as the claim states it, fails at the boundary: \<open>exchange_code\<close> treats a code as
  expired only when \<open>expires_at < now\<close>, so an exchange at \<open>now = expires_at\<close> (not strictly
  before it) succeeds.
\<close>

theorem exchange_code_at_expiry_counterexample:
  "fst (exchange_code (\<lambda>k. 1000) example_rand code_db ''code-1'' ''bow_client_1'' None
          ''dBjftJeZ4CVP-mB92K27uhbUJU1p1r_wW1gFWFOEjXk''
          ''https://claude.ai/api/mcp/auth_callback'')
     = Inr (Some \<lparr>tr_access_token = ''bow_oauth_N0'', tr_token_type = ''Bearer'',
                  tr_expires_in = 3600, tr_refresh_token = ''bow_rt_N1'', tr_scope = ''mcp''\<rparr>)
   \<and> map ac_expires_at (auth_codes code_db) = [1000]"
  using exchange_code_db_success [of "\<lambda>k. 1000"]
  by (simp add: code_db_def code_1_def)

text \<open>
  C4, amended: under the unique indexes, an exchange succeeds only when \<open>now\<close> is not
  after the \<open>expires_at\<close> of the live code record (\<open>now \<le> expires_at\<close>). When the client
  validates, a live record for the code and the client exists, and \<open>now\<close> is after its
  \<open>expires_at\<close>, the exchange returns \<open>None\<close>, the record is tombstoned (\<open>deleted_at\<close> set),
  no live record of that code remains, and the token endpoint answers \<open>invalid_grant\<close>
  with status 400.
\<close>

theorem exchange_code_expiry:
  assumes "db_unique d"
  shows "(exchange_code clock rand d code client_id client_secret code_verifier redirect_uri
            = (Inr (Some response), d') \<longrightarrow>
          (\<exists>c \<in> set (auth_codes d). live_code code client_id c \<and> clock 0 \<le> ac_expires_at c))
       \<and> (validate_client d client_id client_secret = Inr (Some client)
            \<and> c \<in> set (auth_codes d) \<and> live_code code client_id c
            \<and> ac_expires_at c < clock 0 \<longrightarrow>
          fst (exchange_code clock rand d code client_id client_secret code_verifier redirect_uri)
            = Inr None
          \<and> c\<lparr>ac_deleted_at := Some (clock 1)\<rparr>
              \<in> set (auth_codes (snd (exchange_code clock rand d code client_id client_secret
                                        code_verifier redirect_uri)))
          \<and> filter (\<lambda>r. ac_code r = code \<and> ac_deleted_at r = None)
              (auth_codes (snd (exchange_code clock rand d code client_id client_secret
                                  code_verifier redirect_uri))) = []
          \<and> (code \<noteq> [] \<and> code_verifier \<noteq> [] \<and> redirect_uri \<noteq> [] \<longrightarrow>
              fst (token_endpoint clock rand d ''authorization_code'' (Some code)
                     (Some redirect_uri) client_id client_secret (Some code_verifier) refresh_token)
                = Inr (400, ErrorJSON ''invalid_grant''
                              (Some ''Invalid or expired authorization code''))))"
proof (intro conjI impI)
  let ?x = "exchange_code clock rand d code client_id client_secret code_verifier redirect_uri"
  let ?rows = "filter (live_code code client_id) (auth_codes d)"
  {
    assume ok: "?x = (Inr (Some response), d')"
    from validate_client_cases [OF assms, of client_id client_secret]
    obtain cl where cl: "validate_client d client_id client_secret = Inr (Some cl)"
      using ok exchange_code_client_invalid [of d client_id client_secret clock rand code
          code_verifier redirect_uri]
      by auto
    from live_code_rows [OF assms, of code client_id]
    obtain c where rows: "?rows = [c]"
      using ok exchange_code_no_code [OF cl, of code clock rand code_verifier redirect_uri]
      by auto
    have "\<not> ac_expires_at c < clock 0"
      using ok unfolding exchange_code_found [OF cl rows] by (auto split: if_splits)
    moreover have "c \<in> set (auth_codes d)" "live_code code client_id c"
      using filter_singleton_mem [OF rows] by simp_all
    ultimately show "\<exists>c \<in> set (auth_codes d). live_code code client_id c \<and> clock 0 \<le> ac_expires_at c"
      by (intro bexI [of _ c]) simp_all
  }
  assume h: "validate_client d client_id client_secret = Inr (Some client)
            \<and> c \<in> set (auth_codes d) \<and> live_code code client_id c
            \<and> ac_expires_at c < clock 0"
  then have cl: "validate_client d client_id client_secret = Inr (Some client)"
    and c: "c \<in> set (auth_codes d)" "live_code code client_id c"
    and late: "ac_expires_at c < clock 0"
    by simp_all
  have rows: "?rows = [c]"
    using assms c
    by (intro filter_key_singleton [where f = ac_code and k = code])
       (simp_all add: db_unique_def live_code_def)
  have x: "?x = (Inr None,
         d\<lparr>auth_codes := update_where (live_code code client_id)
                (\<lambda>c. c\<lparr>ac_deleted_at := Some (clock 1)\<rparr>) (auth_codes d)\<rparr>)"
    unfolding exchange_code_found [OF cl rows] using late by simp
  show "fst ?x = Inr None"
    by (simp add: x)
  show "c\<lparr>ac_deleted_at := Some (clock 1)\<rparr> \<in> set (auth_codes (snd ?x))"
    using tombstone_singleton [OF rows, of "\<lambda>c. c\<lparr>ac_deleted_at := Some (clock 1)\<rparr>"]
    by (simp add: x)
  show "filter (\<lambda>r. ac_code r = code \<and> ac_deleted_at r = None) (auth_codes (snd ?x)) = []"
    using no_code_anywhere [OF _ rows, of "clock 1"] assms
    by (simp add: x db_unique_def)
  {
    assume "code \<noteq> [] \<and> code_verifier \<noteq> [] \<and> redirect_uri \<noteq> []"
    then show "fst (token_endpoint clock rand d ''authorization_code'' (Some code)
                     (Some redirect_uri) client_id client_secret (Some code_verifier) refresh_token)
                = Inr (400, ErrorJSON ''invalid_grant''
                              (Some ''Invalid or expired authorization code''))"
      by (simp add: token_endpoint_def x invalid_grant_def)
  }
qed

theorem exchange_code_expiry_witness:
  "db_unique code_db
   \<and> fst (exchange_code (\<lambda>k. 999) example_rand code_db ''code-1'' ''bow_client_1'' None
            ''dBjftJeZ4CVP-mB92K27uhbUJU1p1r_wW1gFWFOEjXk''
            ''https://claude.ai/api/mcp/auth_callback'')
       = Inr (Some \<lparr>tr_access_token = ''bow_oauth_N0'', tr_token_type = ''Bearer'',
                    tr_expires_in = 3600, tr_refresh_token = ''bow_rt_N1'', tr_scope = ''mcp''\<rparr>)
   \<and> (\<exists>c \<in> set (auth_codes code_db). live_code ''code-1'' ''bow_client_1'' c
         \<and> 999 \<le> ac_expires_at c)
   \<and> fst (exchange_code (\<lambda>k. 1001) example_rand code_db ''code-1'' ''bow_client_1'' None
            ''dBjftJeZ4CVP-mB92K27uhbUJU1p1r_wW1gFWFOEjXk''
            ''https://claude.ai/api/mcp/auth_callback'') = Inr None
   \<and> code_1\<lparr>ac_deleted_at := Some 1001\<rparr>
       \<in> set (auth_codes (snd (exchange_code (\<lambda>k. 1001) example_rand code_db ''code-1''
            ''bow_client_1'' None ''dBjftJeZ4CVP-mB92K27uhbUJU1p1r_wW1gFWFOEjXk''
            ''https://claude.ai/api/mcp/auth_callback'')))
   \<and> fst (token_endpoint (\<lambda>k. 1001) example_rand code_db ''authorization_code''
            (Some ''code-1'') (Some ''https://claude.ai/api/mcp/auth_callback'')
            ''bow_client_1'' None (Some ''dBjftJeZ4CVP-mB92K27uhbUJU1p1r_wW1gFWFOEjXk'') None)
       = Inr (400, ErrorJSON ''invalid_grant'' (Some ''Invalid or expired authorization code''))"
proof -
  let ?v = "''dBjftJeZ4CVP-mB92K27uhbUJU1p1r_wW1gFWFOEjXk''"
  let ?u = "''https://claude.ai/api/mcp/auth_callback''"
  have ok: "fst (exchange_code (\<lambda>k. 999) example_rand code_db ''code-1'' ''bow_client_1'' None ?v ?u)
       = Inr (Some \<lparr>tr_access_token = ''bow_oauth_N0'', tr_token_type = ''Bearer'',
                    tr_expires_in = 3600, tr_refresh_token = ''bow_rt_N1'', tr_scope = ''mcp''\<rparr>)"
    by (rule exchange_code_db_success) simp
  then obtain d' where ok': "exchange_code (\<lambda>k. 999) example_rand code_db ''code-1''
      ''bow_client_1'' None ?v ?u
       = (Inr (Some \<lparr>tr_access_token = ''bow_oauth_N0'', tr_token_type = ''Bearer'',
                    tr_expires_in = 3600, tr_refresh_token = ''bow_rt_N1'', tr_scope = ''mcp''\<rparr>), d')"
    by (metis prod.collapse)
  have m: "code_1 \<in> set (auth_codes code_db)" "live_code ''code-1'' ''bow_client_1'' code_1"
    "ac_expires_at code_1 < 1001"
    by (simp_all add: code_db_def code_1_def live_code_def)
  note t1 = exchange_code_expiry [OF code_db_unique, where clock = "\<lambda>k. 999"
      and rand = example_rand and code = "''code-1''" and client_id = "''bow_client_1''"
      and client_secret = None and code_verifier = ?v and redirect_uri = ?u and d' = d',
      THEN conjunct1, rule_format, OF ok']
  note t2 = exchange_code_expiry [OF code_db_unique, where clock = "\<lambda>k. 1001"
      and rand = example_rand and code = "''code-1''" and client_id = "''bow_client_1''"
      and client_secret = None and code_verifier = ?v and redirect_uri = ?u
      and client = client_1 and c = code_1 and refresh_token = None,
      THEN conjunct2, rule_format]
  from t2 validate_client_1(1) m
  have late: "fst (exchange_code (\<lambda>k. 1001) example_rand code_db ''code-1'' ''bow_client_1'' None ?v ?u)
        = Inr None
      \<and> code_1\<lparr>ac_deleted_at := Some 1001\<rparr>
       \<in> set (auth_codes (snd (exchange_code (\<lambda>k. 1001) example_rand code_db ''code-1''
            ''bow_client_1'' None ?v ?u)))
      \<and> fst (token_endpoint (\<lambda>k. 1001) example_rand code_db ''authorization_code''
            (Some ''code-1'') (Some ?u) ''bow_client_1'' None (Some ?v) None)
       = Inr (400, ErrorJSON ''invalid_grant'' (Some ''Invalid or expired authorization code''))"
    by simp
  from code_db_unique ok t1 late show ?thesis
    by simp
qed

section \<open>A failed PKCE or redirect check leaves the code usable\<close>

text \<open>
  C10: under the unique indexes, when the client validates and the live, unexpired code
  fails the PKCE check or its stored redirect URI differs from the request's,
  \<open>exchange_code\<close> returns \<open>None\<close> and leaves the database as it was (\<open>deleted_at\<close> of the
  code stays NULL); a later exchange of the same code, still unexpired, with a matching
  verifier and the stored redirect URI (and fresh tokens) succeeds. Whenever
  \<open>exchange_code\<close> changes the table of codes, the call either succeeded or found the
  code expired.
\<close>

theorem exchange_code_mismatch_keeps_code:
  assumes "db_unique d"
  shows "(validate_client d client_id client_secret = Inr (Some client)
          \<and> c \<in> set (auth_codes d) \<and> live_code code client_id c
          \<and> \<not> ac_expires_at c < clock 0
          \<and> (\<not> verify_pkce_s256 code_verifier (ac_code_challenge c)
               \<or> ac_redirect_uri c \<noteq> redirect_uri) \<longrightarrow>
          exchange_code clock rand d code client_id client_secret code_verifier redirect_uri
            = (Inr None, d)
          \<and> ac_deleted_at c = None
          \<and> (\<not> ac_expires_at c < clock' 0 \<and> verify_pkce_s256 code_verifier' (ac_code_challenge c)
              \<and> fresh_tokens rand' d \<longrightarrow>
              (\<exists>response.
                 fst (exchange_code clock' rand'
                        (snd (exchange_code clock rand d code client_id client_secret
                                code_verifier redirect_uri))
                        code client_id client_secret code_verifier' (ac_redirect_uri c))
                   = Inr (Some response))))
       \<and> (auth_codes (snd (exchange_code clock rand d code client_id client_secret
                              code_verifier redirect_uri)) \<noteq> auth_codes d \<longrightarrow>
            (\<exists>response. fst (exchange_code clock rand d code client_id client_secret
                                 code_verifier redirect_uri) = Inr (Some response))
            \<or> (\<exists>c \<in> set (auth_codes d). live_code code client_id c \<and> ac_expires_at c < clock 0))"
proof (intro conjI impI)
  let ?x = "exchange_code clock rand d code client_id client_secret code_verifier redirect_uri"
  let ?rows = "filter (live_code code client_id) (auth_codes d)"
  {
    assume ch: "auth_codes (snd ?x) \<noteq> auth_codes d"
    from validate_client_cases [OF assms, of client_id client_secret]
    obtain cl where cl: "validate_client d client_id client_secret = Inr (Some cl)"
      using ch exchange_code_client_invalid [of d client_id client_secret clock rand code
          code_verifier redirect_uri]
      by auto
    from live_code_rows [OF assms, of code client_id]
    obtain c0 where rows: "?rows = [c0]"
      using ch exchange_code_no_code [OF cl, of code clock rand code_verifier redirect_uri]
      by auto
    have c0: "c0 \<in> set (auth_codes d)" "live_code code client_id c0"
      using filter_singleton_mem [OF rows] by simp_all
    show "(\<exists>response. fst ?x = Inr (Some response))
            \<or> (\<exists>c \<in> set (auth_codes d). live_code code client_id c \<and> ac_expires_at c < clock 0)"
    proof (cases "ac_expires_at c0 < clock 0")
      case True
      with c0 show ?thesis by blast
    next
      case False
      with ch show ?thesis
        unfolding exchange_code_found [OF cl rows] by (auto split: if_splits)
    qed
  }
  assume h: "validate_client d client_id client_secret = Inr (Some client)
          \<and> c \<in> set (auth_codes d) \<and> live_code code client_id c
          \<and> \<not> ac_expires_at c < clock 0
          \<and> (\<not> verify_pkce_s256 code_verifier (ac_code_challenge c)
               \<or> ac_redirect_uri c \<noteq> redirect_uri)"
  then have cl: "validate_client d client_id client_secret = Inr (Some client)"
    and c: "c \<in> set (auth_codes d)" "live_code code client_id c"
    and early: "\<not> ac_expires_at c < clock 0"
    and mismatch: "\<not> verify_pkce_s256 code_verifier (ac_code_challenge c)
               \<or> ac_redirect_uri c \<noteq> redirect_uri"
    by simp_all
  have rows: "?rows = [c]"
    using assms c
    by (intro filter_key_singleton [where f = ac_code and k = code])
       (simp_all add: db_unique_def live_code_def)
  show x: "?x = (Inr None, d)"
    unfolding exchange_code_found [OF cl rows] using early mismatch by auto
  show "ac_deleted_at c = None"
    using c(2) by (simp add: live_code_def)
  {
    assume later: "\<not> ac_expires_at c < clock' 0
        \<and> verify_pkce_s256 code_verifier' (ac_code_challenge c) \<and> fresh_tokens rand' d"
    then have nc: "\<not> token_conflict
                (fst (issue_tokens clock' 2 rand' client_id (ac_user_id c)
                        (ac_organization_id c) (ac_scope c))) (access_tokens d)"
      by (intro fresh_tokens_no_conflict) simp
    have s: "snd ?x = d"
      by (simp add: x)
    have "fst (exchange_code clock' rand' d code client_id client_secret code_verifier'
                 (ac_redirect_uri c))
            = Inr (Some (snd (issue_tokens clock' 2 rand' client_id (ac_user_id c)
                                (ac_organization_id c) (ac_scope c))))"
      using exchange_code_found [OF cl rows, where clock = clock' and rand = rand'
          and code_verifier = code_verifier' and redirect_uri = "ac_redirect_uri c"] later nc
      by simp
    then show "\<exists>response.
            fst (exchange_code clock' rand' (snd ?x) code client_id client_secret code_verifier'
                   (ac_redirect_uri c)) = Inr (Some response)"
      unfolding s by blast
  }
qed

theorem exchange_code_mismatch_keeps_code_witness:
  "db_unique code_db
   \<and> exchange_code (\<lambda>k. 990) example_rand code_db ''code-1'' ''bow_client_1'' None
       ''wrong_verifier_that_doesnt_match'' ''https://claude.ai/api/mcp/auth_callback''
       = (Inr None, code_db)
   \<and> ac_deleted_at code_1 = None
   \<and> (\<exists>response.
         fst (exchange_code (\<lambda>k. 999) example_rand
                (snd (exchange_code (\<lambda>k. 990) example_rand code_db ''code-1'' ''bow_client_1''
                        None ''wrong_verifier_that_doesnt_match''
                        ''https://claude.ai/api/mcp/auth_callback''))
                ''code-1'' ''bow_client_1'' None ''dBjftJeZ4CVP-mB92K27uhbUJU1p1r_wW1gFWFOEjXk''
                ''https://claude.ai/api/mcp/auth_callback'') = Inr (Some response))"
proof -
  let ?v = "''dBjftJeZ4CVP-mB92K27uhbUJU1p1r_wW1gFWFOEjXk''"
  let ?w = "''wrong_verifier_that_doesnt_match''"
  let ?u = "''https://claude.ai/api/mcp/auth_callback''"
  have fr: "fresh_tokens example_rand code_db"
    by (simp add: fresh_tokens_def code_db_def refresh_hashes_def)
  have e: "ac_expires_at code_1 = 1000" "ac_redirect_uri code_1 = ?u"
    "ac_code_challenge code_1 = ''E9Melhoa2OwvFrEMTJguCHaoeK1t8URWbuGJSstw-cM''"
    by (simp_all add: code_1_def)
  have m: "code_1 \<in> set (auth_codes code_db)" "live_code ''code-1'' ''bow_client_1'' code_1"
    by (simp_all add: code_db_def code_1_def live_code_def)
  note t = exchange_code_mismatch_keeps_code [OF code_db_unique, where clock = "\<lambda>k. 990"
      and rand = example_rand and code = "''code-1''" and client_id = "''bow_client_1''"
      and client_secret = None and code_verifier = ?w and redirect_uri = ?u
      and client = client_1 and c = code_1 and clock' = "\<lambda>k. 999" and rand' = example_rand
      and code_verifier' = ?v, THEN conjunct1, THEN mp]
  have p1: "validate_client code_db ''bow_client_1'' None = Inr (Some client_1)
          \<and> code_1 \<in> set (auth_codes code_db) \<and> live_code ''code-1'' ''bow_client_1'' code_1
          \<and> \<not> ac_expires_at code_1 < (\<lambda>k. 990) 0
          \<and> (\<not> verify_pkce_s256 ?w (ac_code_challenge code_1) \<or> ac_redirect_uri code_1 \<noteq> ?u)"
    using validate_client_1(1) m wrong_verifier_rejected by (simp add: e)
  have p2: "\<not> ac_expires_at code_1 < (\<lambda>k. 999) 0
          \<and> verify_pkce_s256 ?v (ac_code_challenge code_1) \<and> fresh_tokens example_rand code_db"
    using golden_vector_accepted fr by (simp add: e)
  from t [OF p1] p2
  have r: "exchange_code (\<lambda>k. 990) example_rand code_db ''code-1'' ''bow_client_1'' None ?w ?u
       = (Inr None, code_db)
   \<and> ac_deleted_at code_1 = None
   \<and> (\<exists>response.
         fst (exchange_code (\<lambda>k. 999) example_rand
                (snd (exchange_code (\<lambda>k. 990) example_rand code_db ''code-1'' ''bow_client_1''
                        None ?w ?u))
                ''code-1'' ''bow_client_1'' None ?v (ac_redirect_uri code_1)) = Inr (Some response))"
    by blast
  from code_db_unique r show ?thesis
    unfolding e(2) by blast
qed

section \<open>The conditions of a successful exchange\<close>

text \<open>
  C2, as the claim states it, fails at the third check: the specification's list asks for
  \<open>now < expires_at\<close>, and \<open>exchange_code\<close> turns a code away only when
  \<open>expires_at < now\<close>. At \<open>now = expires_at\<close> the first check of the list that fails is the
  expiry check, and the exchange returns a token response all the same.
\<close>

theorem exchange_code_spec_checks_counterexample:
  "spec_first_failure 1000 code_db ''code-1'' ''bow_client_1'' None
     ''dBjftJeZ4CVP-mB92K27uhbUJU1p1r_wW1gFWFOEjXk''
     ''https://claude.ai/api/mcp/auth_callback'' = CodeExpired
   \<and> fst (exchange_code (\<lambda>k. 1000) example_rand code_db ''code-1'' ''bow_client_1'' None
            ''dBjftJeZ4CVP-mB92K27uhbUJU1p1r_wW1gFWFOEjXk''
            ''https://claude.ai/api/mcp/auth_callback'')
       = Inr (Some \<lparr>tr_access_token = ''bow_oauth_N0'', tr_token_type = ''Bearer'',
                    tr_expires_in = 3600, tr_refresh_token = ''bow_rt_N1'', tr_scope = ''mcp''\<rparr>)"
proof -
  have "spec_first_failure 1000 code_db ''code-1'' ''bow_client_1'' None
     ''dBjftJeZ4CVP-mB92K27uhbUJU1p1r_wW1gFWFOEjXk''
     ''https://claude.ai/api/mcp/auth_callback'' = CodeExpired"
    by (simp add: spec_first_failure_def first_failure_def spec_unexpired_def
          spec_client_valid_def code_db_def code_1_def client_1_def)
  moreover have "fst (exchange_code (\<lambda>k. 1000) example_rand code_db ''code-1'' ''bow_client_1''
            None ''dBjftJeZ4CVP-mB92K27uhbUJU1p1r_wW1gFWFOEjXk''
            ''https://claude.ai/api/mcp/auth_callback'')
       = Inr (Some \<lparr>tr_access_token = ''bow_oauth_N0'', tr_token_type = ''Bearer'',
                    tr_expires_in = 3600, tr_refresh_token = ''bow_rt_N1'', tr_scope = ''mcp''\<rparr>)"
    by (rule exchange_code_db_success) simp
  ultimately show ?thesis by simp
qed

text \<open>
  C2, amended: under the unique indexes and with fresh tokens, \<open>exchange_code\<close> returns a
  token response if and only if, evaluated in this order, the client validates, a live
  code record bound to the client exists, \<open>now \<le> expires_at\<close>, the PKCE check passes and
  the stored redirect URI equals the request's; it returns \<open>None\<close> otherwise. The outcome
  and the effect on the database are those of the first check that fails (nothing
  changes, except that a failure of the expiry check tombstones the code). At the token
  endpoint a request with all three fields present is answered with status 200 and the
  tokens when all checks pass, and with status 400 and \<open>invalid_grant\<close> when any one fails.
\<close>

theorem exchange_code_iff_checks:
  assumes "db_unique d" and "fresh_tokens rand d"
  shows "((\<exists>response. fst (exchange_code clock rand d code client_id client_secret
                            code_verifier redirect_uri) = Inr (Some response))
          \<longleftrightarrow> amended_first_failure (clock 0) d code client_id client_secret code_verifier
                redirect_uri = AllPassed)
       \<and> (amended_first_failure (clock 0) d code client_id client_secret code_verifier redirect_uri
            \<noteq> AllPassed \<longrightarrow>
          fst (exchange_code clock rand d code client_id client_secret code_verifier redirect_uri)
            = Inr None)
       \<and> (amended_first_failure (clock 0) d code client_id client_secret code_verifier redirect_uri
            \<noteq> AllPassed
          \<and> amended_first_failure (clock 0) d code client_id client_secret code_verifier redirect_uri
            \<noteq> CodeExpired \<longrightarrow>
          snd (exchange_code clock rand d code client_id client_secret code_verifier redirect_uri)
            = d)
       \<and> (amended_first_failure (clock 0) d code client_id client_secret code_verifier redirect_uri
            = CodeExpired \<longrightarrow>
          snd (exchange_code clock rand d code client_id client_secret code_verifier redirect_uri)
            = d\<lparr>auth_codes := update_where (live_code code client_id)
                   (\<lambda>c. c\<lparr>ac_deleted_at := Some (clock 1)\<rparr>) (auth_codes d)\<rparr>)
       \<and> (code \<noteq> [] \<and> code_verifier \<noteq> [] \<and> redirect_uri \<noteq> []
          \<and> amended_first_failure (clock 0) d code client_id client_secret code_verifier redirect_uri
            \<noteq> AllPassed \<longrightarrow>
          fst (token_endpoint clock rand d ''authorization_code'' (Some code) (Some redirect_uri)
                 client_id client_secret (Some code_verifier) refresh_token)
            = Inr (400, ErrorJSON ''invalid_grant''
                          (Some ''Invalid or expired authorization code'')))
       \<and> (code \<noteq> [] \<and> code_verifier \<noteq> [] \<and> redirect_uri \<noteq> []
          \<and> amended_first_failure (clock 0) d code client_id client_secret code_verifier redirect_uri
            = AllPassed \<longrightarrow>
          (\<exists>scope.
             fst (token_endpoint clock rand d ''authorization_code'' (Some code)
                    (Some redirect_uri) client_id client_secret (Some code_verifier) refresh_token)
               = Inr (200, TokenJSON
                   \<lparr>tr_access_token = ''bow_oauth_'' @ rand 0, tr_token_type = ''Bearer'',
                    tr_expires_in = 3600, tr_refresh_token = ''bow_rt_'' @ rand 1,
                    tr_scope = scope\<rparr>)))"
proof -
  let ?x = "exchange_code clock rand d code client_id client_secret code_verifier redirect_uri"
  let ?f = "amended_first_failure (clock 0) d code client_id client_secret code_verifier redirect_uri"
  let ?t = "token_endpoint clock rand d ''authorization_code'' (Some code) (Some redirect_uri)
              client_id client_secret (Some code_verifier) refresh_token"
  have t: "code \<noteq> [] \<and> code_verifier \<noteq> [] \<and> redirect_uri \<noteq> [] \<Longrightarrow>
           ?t = token_result ''Invalid or expired authorization code'' ?x"
    by (simp add: token_endpoint_def)
  from validate_client_cases [OF assms(1), of client_id client_secret]
  show ?thesis
  proof (elim disjE exE)
    assume v: "validate_client d client_id client_secret = Inr None"
    have x: "?x = (Inr None, d)"
      using v by (rule exchange_code_client_invalid)
    have f: "?f = ClientInvalid"
      using assms(1) v by (rule amended_first_failure_client)
    show ?thesis
      using t by (simp add: x f invalid_grant_def)
  next
    fix client
    assume v: "validate_client d client_id client_secret = Inr (Some client)"
    from live_code_rows [OF assms(1), of code client_id]
    show ?thesis
    proof (elim disjE exE)
      assume rows: "filter (live_code code client_id) (auth_codes d) = []"
      have x: "?x = (Inr None, d)"
        using v rows by (rule exchange_code_no_code)
      have f: "?f = NoLiveCode"
        using assms(1) v rows by (rule amended_first_failure_no_code)
      show ?thesis
        using t by (simp add: x f invalid_grant_def)
    next
      fix c
      assume rows: "filter (live_code code client_id) (auth_codes d) = [c]"
      note x = exchange_code_found [OF v rows, where clock = clock and rand = rand
          and code_verifier = code_verifier and redirect_uri = redirect_uri]
      note f = amended_first_failure_found [OF assms(1) v rows, where now = "clock 0"
          and code_verifier = code_verifier and redirect_uri = redirect_uri]
      have nc: "\<not> token_conflict
                (fst (issue_tokens clock 2 rand client_id (ac_user_id c)
                        (ac_organization_id c) (ac_scope c))) (access_tokens d)"
        using assms(2) by (rule fresh_tokens_no_conflict)
      show ?thesis
        using t nc unfolding x f
        by (simp add: invalid_grant_def issue_tokens_def generate_token_def
              ACCESS_TOKEN_PREFIX_def REFRESH_TOKEN_PREFIX_def ACCESS_TOKEN_LIFETIME_def)
    qed
  qed
qed

theorem exchange_code_iff_checks_witness:
  "db_unique code_db \<and> fresh_tokens example_rand code_db
   \<and> amended_first_failure 999 code_db ''code-1'' ''bow_client_1'' None
        ''dBjftJeZ4CVP-mB92K27uhbUJU1p1r_wW1gFWFOEjXk''
        ''https://claude.ai/api/mcp/auth_callback'' = AllPassed
   \<and> (\<exists>response.
         fst (exchange_code (\<lambda>k. 999) example_rand code_db ''code-1'' ''bow_client_1'' None
                ''dBjftJeZ4CVP-mB92K27uhbUJU1p1r_wW1gFWFOEjXk''
                ''https://claude.ai/api/mcp/auth_callback'') = Inr (Some response))
   \<and> amended_first_failure 999 code_db ''code-1'' ''bow_client_1'' None
        ''wrong_verifier_that_doesnt_match''
        ''https://claude.ai/api/mcp/auth_callback'' = PkceMismatch
   \<and> fst (token_endpoint (\<lambda>k. 999) example_rand code_db ''authorization_code'' (Some ''code-1'')
            (Some ''https://claude.ai/api/mcp/auth_callback'') ''bow_client_1'' None
            (Some ''wrong_verifier_that_doesnt_match'') None)
       = Inr (400, ErrorJSON ''invalid_grant'' (Some ''Invalid or expired authorization code''))"
proof -
  let ?v = "''dBjftJeZ4CVP-mB92K27uhbUJU1p1r_wW1gFWFOEjXk''"
  let ?w = "''wrong_verifier_that_doesnt_match''"
  let ?u = "''https://claude.ai/api/mcp/auth_callback''"
  have fr: "fresh_tokens example_rand code_db"
    by (simp add: fresh_tokens_def code_db_def refresh_hashes_def)
  have e: "ac_expires_at code_1 = 1000" "ac_redirect_uri code_1 = ?u"
    "ac_code_challenge code_1 = ''E9Melhoa2OwvFrEMTJguCHaoeK1t8URWbuGJSstw-cM''"
    by (simp_all add: code_1_def)
  have f1: "amended_first_failure 999 code_db ''code-1'' ''bow_client_1'' None ?v ?u = AllPassed"
    unfolding amended_first_failure_found [OF code_db_unique validate_client_1(1) code_db_rows]
    using golden_vector_accepted by (simp add: e)
  have f2: "amended_first_failure 999 code_db ''code-1'' ''bow_client_1'' None ?w ?u = PkceMismatch"
    unfolding amended_first_failure_found [OF code_db_unique validate_client_1(1) code_db_rows]
    using wrong_verifier_rejected by (simp add: e)
  note t1 = exchange_code_iff_checks [OF code_db_unique fr, where clock = "\<lambda>k. 999"
      and code = "''code-1''" and client_id = "''bow_client_1''" and client_secret = None
      and code_verifier = ?v and redirect_uri = ?u]
  note t2 = exchange_code_iff_checks [OF code_db_unique fr, where clock = "\<lambda>k. 999"
      and code = "''code-1''" and client_id = "''bow_client_1''" and client_secret = None
      and code_verifier = ?w and redirect_uri = ?u and refresh_token = None]
  have a: "\<exists>response.
         fst (exchange_code (\<lambda>k. 999) example_rand code_db ''code-1'' ''bow_client_1'' None
                ?v ?u) = Inr (Some response)"
    using t1 f1 by simp
  have b: "fst (token_endpoint (\<lambda>k. 999) example_rand code_db ''authorization_code''
            (Some ''code-1'') (Some ?u) ''bow_client_1'' None (Some ?w) None)
       = Inr (400, ErrorJSON ''invalid_grant'' (Some ''Invalid or expired authorization code''))"
    using t2 f2 by simp
  from code_db_unique fr f1 a f2 b show ?thesis by blast
qed

section \<open>Refresh rotates the tokens\<close>

lemma refresh_hash_listed:
  "t \<in> set rows \<Longrightarrow> at_refresh_token_hash t = Some h \<Longrightarrow> h \<in> set (refresh_hashes rows)"
  by (induction rows) (auto simp: refresh_hashes_def)

lemma refresh_success:
  assumes "refresh_access_token clock rand d refresh_token client_id client_secret
             = (Inr (Some response), d')"
  shows "\<exists>old k.
           filter (live_refresh (hash refresh_token) client_id) (access_tokens d) = [old]
           \<and> \<not> token_conflict
                 (fst (issue_tokens clock (k + 1) rand client_id (at_user_id old)
                         (at_organization_id old) (at_scope old))) (access_tokens d)
           \<and> response = snd (issue_tokens clock (k + 1) rand client_id (at_user_id old)
                               (at_organization_id old) (at_scope old))
           \<and> access_tokens d' =
               update_where (live_refresh (hash refresh_token) client_id)
                 (\<lambda>t. t\<lparr>at_deleted_at := Some (clock k)\<rparr>) (access_tokens d)
               @ [fst (issue_tokens clock (k + 1) rand client_id (at_user_id old)
                         (at_organization_id old) (at_scope old))]"
proof -
  let ?rows = "filter (live_refresh (hash refresh_token) client_id) (access_tokens d)"
  obtain cl where cl: "validate_client d client_id client_secret = Inr (Some cl)"
    using assms
    by (cases "validate_client d client_id client_secret")
       (auto simp: refresh_access_token_def split: option.splits)
  obtain old where old: "scalar_one_or_none ?rows = Inr (Some old)"
    using assms cl
    by (cases "scalar_one_or_none ?rows")
       (auto simp: refresh_access_token_def split: option.splits)
  then have rows: "?rows = [old]"
    by (simp add: scalar_one_or_none_Some)
  define k :: nat where "k = (case at_refresh_expires_at old of None \<Rightarrow> 0 | Some t \<Rightarrow> 1)"
  have "\<not> token_conflict
                 (fst (issue_tokens clock (k + 1) rand client_id (at_user_id old)
                         (at_organization_id old) (at_scope old))) (access_tokens d)
           \<and> response = snd (issue_tokens clock (k + 1) rand client_id (at_user_id old)
                               (at_organization_id old) (at_scope old))
           \<and> access_tokens d' =
               update_where (live_refresh (hash refresh_token) client_id)
                 (\<lambda>t. t\<lparr>at_deleted_at := Some (clock k)\<rparr>) (access_tokens d)
               @ [fst (issue_tokens clock (k + 1) rand client_id (at_user_id old)
                         (at_organization_id old) (at_scope old))]"
    using assms cl old unfolding k_def
    by (auto simp: refresh_access_token_def Let_def split: if_splits)
  with rows show ?thesis by blast
qed

text \<open>
  C5: under the unique indexes, every successful \<open>refresh_access_token\<close> call found one
  live record \<open>old\<close> for the refresh token and the client; it sets \<open>deleted_at\<close> on that
  record, so that no live record with the old token hash remains, and appends one live
  record \<open>new\<close> for the tokens of the response, with the \<open>user_id\<close>, \<open>organization_id\<close> and
  \<open>scope\<close> of the old record. The new access token differs from every plaintext whose
  hash is the old token hash, and the new refresh token differs from the one presented.
\<close>

theorem refresh_rotates_tokens:
  assumes "db_unique d"
    and "refresh_access_token clock rand d refresh_token client_id client_secret
           = (Inr (Some response), d')"
  shows "\<exists>old new deleted.
           old \<in> set (access_tokens d) \<and> at_deleted_at old = None
           \<and> at_refresh_token_hash old = Some (hash refresh_token)
           \<and> at_client_id old = client_id
           \<and> old\<lparr>at_deleted_at := Some deleted\<rparr> \<in> set (access_tokens d')
           \<and> (\<forall>t \<in> set (access_tokens d').
                 at_token_hash t = at_token_hash old \<longrightarrow> at_deleted_at t \<noteq> None)
           \<and> new \<in> set (access_tokens d') \<and> at_deleted_at new = None
           \<and> at_token_hash new = hash (tr_access_token response)
           \<and> at_refresh_token_hash new = Some (hash (tr_refresh_token response))
           \<and> at_client_id new = client_id
           \<and> at_user_id new = at_user_id old
           \<and> at_organization_id new = at_organization_id old
           \<and> at_scope new = at_scope old \<and> tr_scope response = at_scope old
           \<and> tr_access_token response = ''bow_oauth_'' @ rand 0
           \<and> tr_refresh_token response = ''bow_rt_'' @ rand 1
           \<and> hash (tr_access_token response) \<noteq> at_token_hash old
           \<and> (\<forall>plain. hash plain = at_token_hash old \<longrightarrow> tr_access_token response \<noteq> plain)
           \<and> tr_refresh_token response \<noteq> refresh_token"
proof -
  let ?P = "live_refresh (hash refresh_token) client_id"
  from refresh_success [OF assms(2)] obtain old k where
    rows: "filter ?P (access_tokens d) = [old]"
    and nc: "\<not> token_conflict
                 (fst (issue_tokens clock (k + 1) rand client_id (at_user_id old)
                         (at_organization_id old) (at_scope old))) (access_tokens d)"
    and resp: "response = snd (issue_tokens clock (k + 1) rand client_id (at_user_id old)
                               (at_organization_id old) (at_scope old))"
    and d': "access_tokens d' =
               update_where ?P (\<lambda>t. t\<lparr>at_deleted_at := Some (clock k)\<rparr>) (access_tokens d)
               @ [fst (issue_tokens clock (k + 1) rand client_id (at_user_id old)
                         (at_organization_id old) (at_scope old))]"
    by blast
  define new where "new = fst (issue_tokens clock (k + 1) rand client_id (at_user_id old)
                         (at_organization_id old) (at_scope old))"
  have old: "old \<in> set (access_tokens d)" "?P old"
    using filter_singleton_mem [OF rows] by simp_all
  have new_fields: "at_deleted_at new = None"
    "at_token_hash new = hash (tr_access_token response)"
    "at_refresh_token_hash new = Some (hash (tr_refresh_token response))"
    "at_client_id new = client_id" "at_user_id new = at_user_id old"
    "at_organization_id new = at_organization_id old" "at_scope new = at_scope old"
    "tr_scope response = at_scope old"
    "tr_access_token response = ''bow_oauth_'' @ rand 0"
    "tr_refresh_token response = ''bow_rt_'' @ rand 1"
    by (simp_all add: new_def resp issue_tokens_def generate_token_def
          ACCESS_TOKEN_PREFIX_def REFRESH_TOKEN_PREFIX_def)
  have h1: "at_token_hash new \<notin> set (map at_token_hash (access_tokens d))"
    using nc by (simp add: token_conflict_def new_def)
  have h2: "hash (tr_refresh_token response) \<notin> set (refresh_hashes (access_tokens d))"
    using nc new_fields(3) by (simp add: token_conflict_def new_def)
  have ne: "hash (tr_access_token response) \<noteq> at_token_hash old"
    using h1 old(1) new_fields(2) by (metis image_eqI set_map)
  have "hash refresh_token \<in> set (refresh_hashes (access_tokens d))"
    using old by (intro refresh_hash_listed [of old]) (simp_all add: live_refresh_def)
  with h2 have nr: "tr_refresh_token response \<noteq> refresh_token"
    by auto
  have tomb: "old\<lparr>at_deleted_at := Some (clock k)\<rparr> \<in> set (access_tokens d')"
    using tombstone_singleton [OF rows, of "\<lambda>t. t\<lparr>at_deleted_at := Some (clock k)\<rparr>"]
    by (simp add: d')
  have gone: "at_deleted_at t \<noteq> None"
    if t: "t \<in> set (access_tokens d')" "at_token_hash t = at_token_hash old" for t
  proof -
    have "t \<noteq> new"
      using t(2) ne new_fields(2) by auto
    then obtain r where r: "r \<in> set (access_tokens d)"
      "t = (if ?P r then r\<lparr>at_deleted_at := Some (clock k)\<rparr> else r)"
      using t(1) by (auto simp: d' new_def update_where_def)
    then have "at_token_hash r = at_token_hash old"
      using t(2) by (auto split: if_splits)
    then have "r = old"
      using assms(1) r(1) old(1)
      by (metis db_unique_def distinct_map inj_on_def)
    with r(2) old(2) show ?thesis by simp
  qed
  have newmem: "new \<in> set (access_tokens d')"
    by (simp add: d' new_def)
  show ?thesis
    apply (rule exI [of _ old], rule exI [of _ new], rule exI [of _ "clock k"])
    using old tomb gone newmem new_fields ne nr
    by (auto simp: live_refresh_def)
qed

theorem refresh_rotates_tokens_witness:
  "db_unique token_db
   \<and> fst (refresh_access_token (\<lambda>k. 2000) example_rand token_db ''bow_rt_R1'' ''bow_client_1''
            None)
       = Inr (Some \<lparr>tr_access_token = ''bow_oauth_N0'', tr_token_type = ''Bearer'',
                    tr_expires_in = 3600, tr_refresh_token = ''bow_rt_N1'', tr_scope = ''mcp''\<rparr>)
   \<and> (\<exists>old new deleted.
         old \<in> set (access_tokens token_db) \<and> at_deleted_at old = None
         \<and> old\<lparr>at_deleted_at := Some deleted\<rparr>
             \<in> set (access_tokens (snd (refresh_access_token (\<lambda>k. 2000) example_rand token_db
                                          ''bow_rt_R1'' ''bow_client_1'' None)))
         \<and> new \<in> set (access_tokens (snd (refresh_access_token (\<lambda>k. 2000) example_rand
                                             token_db ''bow_rt_R1'' ''bow_client_1'' None)))
         \<and> at_token_hash new = hash ''bow_oauth_N0''
         \<and> at_user_id new = at_user_id old
         \<and> at_organization_id new = at_organization_id old
         \<and> at_scope new = at_scope old
         \<and> hash ''bow_oauth_N0'' \<noteq> at_token_hash old)"
proof -
  let ?r = "refresh_access_token (\<lambda>k. 2000) example_rand token_db ''bow_rt_R1'' ''bow_client_1''
              None"
  let ?resp = "\<lparr>tr_access_token = ''bow_oauth_N0'', tr_token_type = ''Bearer'',
                tr_expires_in = 3600, tr_refresh_token = ''bow_rt_N1'', tr_scope = ''mcp''\<rparr>"
  have u: "db_unique token_db"
    by (simp add: db_unique_def token_db_def refresh_hashes_def token_1_def)
  have rows: "filter (live_refresh (hash ''bow_rt_R1'') ''bow_client_1'') (access_tokens token_db)
                = [token_1]"
    by (simp add: token_db_def token_1_def live_refresh_def hash_R1)
  have ok: "fst ?r = Inr (Some ?resp)"
    unfolding refresh_access_token_def validate_client_1(2) rows
    by (simp add: token_db_def token_1_def token_conflict_def refresh_hashes_def
          issue_tokens_def generate_token_def ACCESS_TOKEN_PREFIX_def REFRESH_TOKEN_PREFIX_def
          ACCESS_TOKEN_LIFETIME_def example_rand_def hash_N0 hash_N1 Let_def)
  then have eq: "?r = (Inr (Some ?resp), snd ?r)"
    by (metis prod.collapse)
  have g: "tr_access_token ?resp = ''bow_oauth_N0''"
    by simp
  from refresh_rotates_tokens [OF u eq] obtain old new deleted where
    f: "old \<in> set (access_tokens token_db)" "at_deleted_at old = None"
      "old\<lparr>at_deleted_at := Some deleted\<rparr> \<in> set (access_tokens (snd ?r))"
      "new \<in> set (access_tokens (snd ?r))"
      "at_token_hash new = hash (tr_access_token ?resp)"
      "at_user_id new = at_user_id old"
      "at_organization_id new = at_organization_id old"
      "at_scope new = at_scope old"
      "hash (tr_access_token ?resp) \<noteq> at_token_hash old"
    by blast
  note f' = f [unfolded g]
  have "\<exists>old new deleted.
         old \<in> set (access_tokens token_db) \<and> at_deleted_at old = None
         \<and> old\<lparr>at_deleted_at := Some deleted\<rparr> \<in> set (access_tokens (snd ?r))
         \<and> new \<in> set (access_tokens (snd ?r))
         \<and> at_token_hash new = hash ''bow_oauth_N0''
         \<and> at_user_id new = at_user_id old
         \<and> at_organization_id new = at_organization_id old
         \<and> at_scope new = at_scope old
         \<and> hash ''bow_oauth_N0'' \<noteq> at_token_hash old"
    using f' by blast
  with u ok show ?thesis by blast
qed

section \<open>An authorization code is exchanged at most once\<close>

subsection \<open>Serial histories\<close>

text \<open>
  When every call is finished before the next begins, the single use holds: under the
  unique indexes, a successful \<open>exchange_code\<close> of a code sets \<open>deleted_at\<close> on its record,
  and after it, whatever calls the service then serves one after another, no live record
  of the code exists and every exchange of the same code (by any client, with any
  secret, verifier and redirect URI) returns \<open>None\<close>, which the token endpoint answers
  with \<open>invalid_grant\<close> and status 400.
\<close>

lemma exchange_code_serial_single_use:
  assumes "db_unique d"
    and "exchange_code clock rand d code client_id client_secret code_verifier redirect_uri
           = (Inr (Some response), d')"
  shows "(\<exists>c \<in> set (auth_codes d).
            live_code code client_id c
            \<and> c\<lparr>ac_deleted_at := Some (clock 1)\<rparr> \<in> set (auth_codes d'))
       \<and> filter (\<lambda>r. ac_code r = code \<and> ac_deleted_at r = None) (auth_codes (run calls d')) = []
       \<and> fst (exchange_code clock' rand' (run calls d') code client_id' client_secret'
                code_verifier' redirect_uri') = Inr None
       \<and> (code \<noteq> [] \<and> code_verifier' \<noteq> [] \<and> redirect_uri' \<noteq> [] \<longrightarrow>
            fst (token_endpoint clock' rand' (run calls d') ''authorization_code'' (Some code)
                   (Some redirect_uri') client_id' client_secret' (Some code_verifier')
                   refresh_token)
              = Inr (400, ErrorJSON ''invalid_grant''
                            (Some ''Invalid or expired authorization code'')))"
proof -
  let ?x = "exchange_code clock rand d code client_id client_secret code_verifier redirect_uri"
  let ?rows = "filter (live_code code client_id) (auth_codes d)"
  from validate_client_cases [OF assms(1), of client_id client_secret]
  obtain cl where cl: "validate_client d client_id client_secret = Inr (Some cl)"
    using assms(2) exchange_code_client_invalid [of d client_id client_secret clock rand code
        code_verifier redirect_uri]
    by auto
  from live_code_rows [OF assms(1), of code client_id]
  obtain c where rows: "?rows = [c]"
    using assms(2) exchange_code_no_code [OF cl, of code clock rand code_verifier redirect_uri]
    by auto
  have c: "c \<in> set (auth_codes d)" "live_code code client_id c"
    using filter_singleton_mem [OF rows] by simp_all
  have codes: "auth_codes d' = update_where (live_code code client_id)
                 (\<lambda>c. c\<lparr>ac_deleted_at := Some (clock 1)\<rparr>) (auth_codes d)"
    using assms(2) unfolding exchange_code_found [OF cl rows]
    by (auto split: if_splits)
  have tomb: "c\<lparr>ac_deleted_at := Some (clock 1)\<rparr> \<in> set (auth_codes d')"
    using tombstone_singleton [OF rows, of "\<lambda>c. c\<lparr>ac_deleted_at := Some (clock 1)\<rparr>"]
    by (simp add: codes)
  have "snd ?x = d'"
    by (simp add: assms(2))
  then have u': "db_unique d'"
    using apply_call_unique [OF assms(1),
        of "ExchangeCode clock rand code client_id client_secret code_verifier redirect_uri"]
    by simp
  have "code \<in> set (map ac_code (auth_codes d'))"
    using c by (auto simp: codes update_where_key live_code_def)
  moreover have "filter (\<lambda>r. ac_code r = code \<and> ac_deleted_at r = None) (auth_codes d') = []"
    using no_code_anywhere [OF _ rows, of "clock 1"] assms(1)
    by (simp add: codes db_unique_def)
  ultimately have "code_spent code d'"
    by (simp add: code_spent_def)
  then have spent: "code_spent code (run calls d')"
    by (rule run_spent)
  have uniq: "db_unique (run calls d')"
    using u' by (rule run_unique)
  have none: "fst (exchange_code clock' rand' (run calls d') code client_id' client_secret'
                     code_verifier' redirect_uri') = Inr None"
    using uniq spent by (rule exchange_spent_code)
  have endpoint: "fst (token_endpoint clock' rand' (run calls d') ''authorization_code''
                   (Some code) (Some redirect_uri') client_id' client_secret'
                   (Some code_verifier') refresh_token)
              = Inr (400, ErrorJSON ''invalid_grant''
                            (Some ''Invalid or expired authorization code''))"
    if "code \<noteq> [] \<and> code_verifier' \<noteq> [] \<and> redirect_uri' \<noteq> []"
  proof -
    obtain r s where rs: "exchange_code clock' rand' (run calls d') code client_id'
        client_secret' code_verifier' redirect_uri' = (r, s)"
      by (cases "exchange_code clock' rand' (run calls d') code client_id'
        client_secret' code_verifier' redirect_uri'")
    with none have "r = Inr None" by simp
    with rs that show ?thesis
      by (simp add: token_endpoint_def invalid_grant_def)
  qed
  from c tomb spent none endpoint show ?thesis
    by (auto simp: code_spent_def)
qed

lemma exchange_code_serial_single_use_example:
  "db_unique code_db
   \<and> fst (exchange_code (\<lambda>k. 999) example_rand code_db ''code-1'' ''bow_client_1'' None
            ''dBjftJeZ4CVP-mB92K27uhbUJU1p1r_wW1gFWFOEjXk''
            ''https://claude.ai/api/mcp/auth_callback'')
       = Inr (Some \<lparr>tr_access_token = ''bow_oauth_N0'', tr_token_type = ''Bearer'',
                    tr_expires_in = 3600, tr_refresh_token = ''bow_rt_N1'', tr_scope = ''mcp''\<rparr>)
   \<and> fst (exchange_code (\<lambda>k. 999) example_rand
            (run [reissue_code_1] (snd (exchange_code (\<lambda>k. 999) example_rand code_db ''code-1''
                            ''bow_client_1'' None ''dBjftJeZ4CVP-mB92K27uhbUJU1p1r_wW1gFWFOEjXk''
                            ''https://claude.ai/api/mcp/auth_callback'')))
            ''code-1'' ''bow_client_1'' None ''dBjftJeZ4CVP-mB92K27uhbUJU1p1r_wW1gFWFOEjXk''
            ''https://claude.ai/api/mcp/auth_callback'') = Inr None
   \<and> fst (token_endpoint (\<lambda>k. 999) example_rand
            (run [reissue_code_1] (snd (exchange_code (\<lambda>k. 999) example_rand code_db ''code-1''
                            ''bow_client_1'' None ''dBjftJeZ4CVP-mB92K27uhbUJU1p1r_wW1gFWFOEjXk''
                            ''https://claude.ai/api/mcp/auth_callback'')))
            ''authorization_code'' (Some ''code-1'')
            (Some ''https://claude.ai/api/mcp/auth_callback'') ''bow_client_1'' None
            (Some ''dBjftJeZ4CVP-mB92K27uhbUJU1p1r_wW1gFWFOEjXk'') None)
       = Inr (400, ErrorJSON ''invalid_grant'' (Some ''Invalid or expired authorization code''))"
proof -
  let ?v = "''dBjftJeZ4CVP-mB92K27uhbUJU1p1r_wW1gFWFOEjXk''"
  let ?u = "''https://claude.ai/api/mcp/auth_callback''"
  let ?x = "exchange_code (\<lambda>k. 999) example_rand code_db ''code-1'' ''bow_client_1'' None ?v ?u"
  let ?resp = "\<lparr>tr_access_token = ''bow_oauth_N0'', tr_token_type = ''Bearer'',
                tr_expires_in = 3600, tr_refresh_token = ''bow_rt_N1'', tr_scope = ''mcp''\<rparr>"
  have ok: "fst ?x = Inr (Some ?resp)"
    by (rule exchange_code_db_success) simp
  then have eq: "?x = (Inr (Some ?resp), snd ?x)"
    by (metis prod.collapse)
  note t = exchange_code_serial_single_use [OF code_db_unique eq, where calls = "[reissue_code_1]"
      and clock' = "\<lambda>k. 999" and rand' = example_rand and client_id' = "''bow_client_1''"
      and client_secret' = None and code_verifier' = ?v and redirect_uri' = ?u
      and refresh_token = None]
  have again: "fst (exchange_code (\<lambda>k. 999) example_rand (run [reissue_code_1] (snd ?x))
            ''code-1'' ''bow_client_1'' None ?v ?u) = Inr None"
    using t by blast
  have endpoint: "fst (token_endpoint (\<lambda>k. 999) example_rand (run [reissue_code_1] (snd ?x))
            ''authorization_code'' (Some ''code-1'') (Some ?u) ''bow_client_1'' None
            (Some ?v) None)
       = Inr (400, ErrorJSON ''invalid_grant'' (Some ''Invalid or expired authorization code''))"
    using t by simp
  from code_db_unique ok again endpoint show ?thesis
    by blast
qed


subsection \<open>Overlapping exchanges\<close>

lemma update_where_same:
  "(\<And>x. x \<in> set rows \<Longrightarrow> P x = Q x) \<Longrightarrow> update_where P f rows = update_where Q f rows"
  by (induction rows) (auto simp: update_where_def)

text \<open>A call that reads and commits on the same database is the call of the serial
  model: the split at the commit is the same method.\<close>

lemma exchange_code_overlapped_serial:
  assumes "db_unique d"
  shows "exchange_code_overlapped clock rand d d code client_id client_secret code_verifier
           redirect_uri
         = exchange_code clock rand d code client_id client_secret code_verifier redirect_uri"
proof -
  from validate_client_cases [OF assms, of client_id client_secret]
  show ?thesis
  proof (elim disjE exE)
    assume v: "validate_client d client_id client_secret = Inr None"
    then show ?thesis
      by (simp add: exchange_code_overlapped_def exchange_code_begin_def
            exchange_code_client_invalid)
  next
    fix client
    assume v: "validate_client d client_id client_secret = Inr (Some client)"
    from live_code_rows [OF assms, of code client_id]
    show ?thesis
    proof (elim disjE exE)
      assume rows: "filter (live_code code client_id) (auth_codes d) = []"
      then show ?thesis
        using v
        by (simp add: exchange_code_overlapped_def exchange_code_begin_def
              exchange_code_no_code)
    next
      fix c
      assume rows: "filter (live_code code client_id) (auth_codes d) = [c]"
      have c: "c \<in> set (auth_codes d)" "live_code code client_id c"
        using filter_singleton_mem [OF rows] by simp_all
      have same: "(ac_code x = ac_code c) = live_code code client_id x"
        if "x \<in> set (auth_codes d)" for x
      proof
        assume "ac_code x = ac_code c"
        then have "x = c"
          using assms that c(1) by (metis db_unique_def distinct_map inj_on_def)
        with c(2) show "live_code code client_id x" by simp
      next
        assume "live_code code client_id x"
        with c(2) show "ac_code x = ac_code c" by (simp add: live_code_def)
      qed
      have upd: "update_where (\<lambda>x. ac_code x = ac_code c) f (auth_codes d)
                   = update_where (live_code code client_id) f (auth_codes d)" for f
        using same by (rule update_where_same)
      show ?thesis
        unfolding exchange_code_found [OF v rows]
        using v rows
        by (simp add: exchange_code_overlapped_def exchange_code_begin_def commit_def
              tombstone_pending_def nothing_pending_def upd Let_def)
    qed
  qed
qed

lemma exchange_code_begin_code_db:
  "exchange_code_begin (\<lambda>k. 999) rand code_db ''code-1'' ''bow_client_1'' None
     ''dBjftJeZ4CVP-mB92K27uhbUJU1p1r_wW1gFWFOEjXk'' ''https://claude.ai/api/mcp/auth_callback''
   = (Inr (Some \<lparr>tr_access_token = ''bow_oauth_'' @ rand 0, tr_token_type = ''Bearer'',
                 tr_expires_in = 3600, tr_refresh_token = ''bow_rt_'' @ rand 1,
                 tr_scope = ''mcp''\<rparr>),
      \<lparr>pc_tombstone = Some (''code-1'', 999),
       pc_insert = Some
         \<lparr>at_token_hash = hash (''bow_oauth_'' @ rand 0), at_client_id = ''bow_client_1'',
          at_user_id = ''user-1'', at_organization_id = ''org-1'', at_scope = ''mcp'',
          at_expires_at = 999 + ACCESS_TOKEN_LIFETIME,
          at_refresh_token_hash = Some (hash (''bow_rt_'' @ rand 1)),
          at_refresh_expires_at = Some (999 + REFRESH_TOKEN_LIFETIME),
          at_deleted_at = None\<rparr>\<rparr>)"
proof -
  have e: "ac_expires_at code_1 = 1000"
    "ac_redirect_uri code_1 = ''https://claude.ai/api/mcp/auth_callback''"
    "ac_scope code_1 = ''mcp''" "ac_code code_1 = ''code-1''"
    "ac_user_id code_1 = ''user-1''" "ac_organization_id code_1 = ''org-1''"
    by (simp_all add: code_1_def)
  show ?thesis
    unfolding exchange_code_begin_def validate_client_1(1) code_db_rows
    using code_1_pkce
    by (simp add: e issue_tokens_def generate_token_def ACCESS_TOKEN_PREFIX_def
          REFRESH_TOKEN_PREFIX_def ACCESS_TOKEN_LIFETIME_def Let_def)
qed

text \<open>
  C1: the claim is what the specification and the method's own comment (\<open>Consume the
  code (one-time use)\<close>) ask for, and \<open>exchange_code\<close> misses it when two exchanges of one
  code overlap. Both requests read the live record before either commits; each then
  tombstones the record and inserts its own tokens, and both commits go through. Two
  calls with the same code return a token response, and two token records are stored.
\<close>

theorem exchange_code_race:
  "fst (exchange_code_overlapped (\<lambda>k. 999) example_rand code_db code_db ''code-1''
          ''bow_client_1'' None ''dBjftJeZ4CVP-mB92K27uhbUJU1p1r_wW1gFWFOEjXk''
          ''https://claude.ai/api/mcp/auth_callback'')
     = Inr (Some \<lparr>tr_access_token = ''bow_oauth_N0'', tr_token_type = ''Bearer'',
                  tr_expires_in = 3600, tr_refresh_token = ''bow_rt_N1'', tr_scope = ''mcp''\<rparr>)
   \<and> fst (exchange_code_overlapped (\<lambda>k. 999) other_rand code_db
            (snd (exchange_code_overlapped (\<lambda>k. 999) example_rand code_db code_db ''code-1''
                    ''bow_client_1'' None ''dBjftJeZ4CVP-mB92K27uhbUJU1p1r_wW1gFWFOEjXk''
                    ''https://claude.ai/api/mcp/auth_callback''))
            ''code-1'' ''bow_client_1'' None ''dBjftJeZ4CVP-mB92K27uhbUJU1p1r_wW1gFWFOEjXk''
            ''https://claude.ai/api/mcp/auth_callback'')
     = Inr (Some \<lparr>tr_access_token = ''bow_oauth_M0'', tr_token_type = ''Bearer'',
                  tr_expires_in = 3600, tr_refresh_token = ''bow_rt_M1'', tr_scope = ''mcp''\<rparr>)
   \<and> map at_token_hash
       (access_tokens
          (snd (exchange_code_overlapped (\<lambda>k. 999) other_rand code_db
            (snd (exchange_code_overlapped (\<lambda>k. 999) example_rand code_db code_db ''code-1''
                    ''bow_client_1'' None ''dBjftJeZ4CVP-mB92K27uhbUJU1p1r_wW1gFWFOEjXk''
                    ''https://claude.ai/api/mcp/auth_callback''))
            ''code-1'' ''bow_client_1'' None ''dBjftJeZ4CVP-mB92K27uhbUJU1p1r_wW1gFWFOEjXk''
            ''https://claude.ai/api/mcp/auth_callback'')))
     = [hash ''bow_oauth_N0'', hash ''bow_oauth_M0'']"
proof -
  let ?v = "''dBjftJeZ4CVP-mB92K27uhbUJU1p1r_wW1gFWFOEjXk''"
  let ?u = "''https://claude.ai/api/mcp/auth_callback''"
  let ?a = "exchange_code_overlapped (\<lambda>k. 999) example_rand code_db code_db ''code-1''
              ''bow_client_1'' None ?v ?u"
  have t: "access_tokens code_db = []"
    by (simp add: code_db_def)
  have a: "?a =
      (Inr (Some \<lparr>tr_access_token = ''bow_oauth_N0'', tr_token_type = ''Bearer'',
                  tr_expires_in = 3600, tr_refresh_token = ''bow_rt_N1'', tr_scope = ''mcp''\<rparr>),
       code_db\<lparr>auth_codes := [code_1\<lparr>ac_deleted_at := Some 999\<rparr>],
               access_tokens :=
                 [\<lparr>at_token_hash = hash ''bow_oauth_N0'', at_client_id = ''bow_client_1'',
                   at_user_id = ''user-1'', at_organization_id = ''org-1'', at_scope = ''mcp'',
                   at_expires_at = 999 + ACCESS_TOKEN_LIFETIME,
                   at_refresh_token_hash = Some (hash ''bow_rt_N1''),
                   at_refresh_expires_at = Some (999 + REFRESH_TOKEN_LIFETIME),
                   at_deleted_at = None\<rparr>]\<rparr>)"
    unfolding exchange_code_overlapped_def exchange_code_begin_code_db
    by (simp add: commit_def nothing_pending_def tombstone_pending_def update_where_def
          token_conflict_def refresh_hashes_def t example_rand_def)
       (simp add: code_db_def code_1_def)
  show ?thesis
    unfolding a
    unfolding exchange_code_overlapped_def exchange_code_begin_code_db
    by (simp add: commit_def nothing_pending_def tombstone_pending_def update_where_def
          token_conflict_def refresh_hashes_def other_rand_def example_rand_def
          hash_N0 hash_N1 hash_M0 hash_M1)
qed

end
